theory Spec2Isabelle
  imports Main "HOL-Library.Word"
begin

section \<open>Values shared by the queue and the processor\<close>

text \<open>
  A \<open>QString\<close> is kept as the byte string of its UTF-8 encoding, so \<open>toUtf8\<close> is the
  identity and \<open>+\<close> on \<open>QByteArray\<close> is \<open>@\<close>; a \<open>QByteArray\<close> is a byte string too.
  Error messages of a \<open>Result\<close> are left out: no decision of the code reads them.
  Two values of \<open>errorCode\<close> are not codes of the source: \<open>PluginError n\<close> stands for the
  codes a plugin may return, and \<open>NullPluginDereferenced\<close> marks the places where the source
  calls through \<open>m_authenticationPlugins[name]\<close> without having tested that \<open>name\<close> is
  registered: for an unregistered name \<open>QMap::operator[]\<close> yields a null pointer and the call
  does not return.
\<close>

type_synonym qstring = string
type_synonym qbytearray = string

datatype resultCode = Succeeded | Pending | Failed

datatype errorCode =
    NoError
  | UnknownError
  | InvalidCollectionError
  | InvalidSecretError
  | InvalidExtensionPluginError
  | CollectionAlreadyExistsError
  | CollectionIsLockedError
  | PermissionsError
  | OperationNotSupportedError
  | OperationRequiresUserInteraction
  | OperationRequiresInProcessUserInteraction
  | IncorrectAuthenticationKeyError
  | SecretsPluginDecryptionError
  | DatabaseQueryError
  | DatabaseTransactionError
  | SecretsDaemonRequestQueueFullError
  | PluginError nat
  | NullPluginDereferenced

record result =
  code :: resultCode
  errorCode :: errorCode

text \<open>\<open>Result(ResultCode)\<close> and \<open>Result(ErrorCode, message)\<close>: the second always has code \<open>Failed\<close>.\<close>

definition resultOf :: "resultCode \<Rightarrow> result" where
  "resultOf c = \<lparr>code = c, errorCode = (if c = Failed then UnknownError else NoError)\<rparr>"

definition resultErr :: "errorCode \<Rightarrow> result" where
  "resultErr e = \<lparr>code = Failed, errorCode = e\<rparr>"

datatype variant =
    VString qstring
  | VBytes qbytearray
  | VInt int
  | VBool bool
  | VResult result

section \<open>The request queue (requestqueue.cpp)\<close>

datatype requestStatus = RequestPending | RequestInProgress | RequestFinished

record requestData =
  remotePid :: int
  status :: requestStatus
  requestType :: int
  inParams :: "variant list"
  outParams :: "variant list"
  rd_requestId :: "64 word"
  isSecretsCryptoRequest :: bool
  cryptoRequestId :: "64 word"

text \<open>\<open>static_requestId\<close> is the function-local \<open>static quint64 requestId\<close> of \<open>enqueueRequest\<close>.\<close>

record requestQueue =
  m_requests :: "requestData list"
  static_requestId :: "64 word"

text \<open>The inner \<open>while\<close> of \<open>enqueueRequest\<close>: is some tracked request using this id?\<close>

fun idInUse :: "requestData list \<Rightarrow> 64 word \<Rightarrow> bool" where
  "idInUse [] n = False"
| "idInUse (r # rs) n = (if rd_requestId r = n then True else idInUse rs n)"

text \<open>
  The outer \<open>for ( ; nextFreeId != prevId; ++nextFreeId)\<close>, with \<open>found\<close> carried along;
  \<open>++\<close> wraps at \<open>2^64\<close>. It returns the final \<open>nextFreeId\<close> and \<open>found\<close>.
\<close>

function findFreeId :: "requestData list \<Rightarrow> 64 word \<Rightarrow> 64 word \<Rightarrow> bool \<Rightarrow> 64 word \<times> bool" where
  "findFreeId reqs prevId nextFreeId found =
     (if nextFreeId \<noteq> prevId then
        (if idInUse reqs nextFreeId then findFreeId reqs prevId (nextFreeId + 1) True
         else (nextFreeId, False))
      else (nextFreeId, found))"
  by pat_completeness auto
termination
proof (relation "measure (\<lambda>(reqs, prevId, nextFreeId, found). unat (prevId - nextFreeId))")
  show "wf (measure (\<lambda>(reqs, prevId, nextFreeId, found). unat (prevId - nextFreeId)))"
    by simp
next
  fix reqs :: "requestData list" and prevId nextFreeId :: "64 word" and found :: bool
  assume ne: "nextFreeId \<noteq> prevId"
  have nz: "prevId - nextFreeId \<noteq> 0" using ne by simp
  have eq: "prevId - (nextFreeId + 1) = (prevId - nextFreeId) - 1" by simp
  have "unat ((prevId - nextFreeId) - 1) = unat (prevId - nextFreeId) - 1"
    using nz by (rule unat_minus_one)
  then have "unat (prevId - (nextFreeId + 1)) = unat (prevId - nextFreeId) - 1"
    by (simp only: eq)
  moreover have "0 < unat (prevId - nextFreeId)" using nz by (simp add: unat_gt_0)
  ultimately show "((reqs, prevId, nextFreeId + 1, True), (reqs, prevId, nextFreeId, found))
      \<in> measure (\<lambda>(reqs, prevId, nextFreeId, found). unat (prevId - nextFreeId))"
    by simp
qed

declare findFreeId.simps [simp del]

text \<open>
  \<open>enqueueRequest\<close>. The static counter is advanced once (\<open>++requestId\<close>) whatever the outcome;
  the queued call of \<open>handleRequests\<close> is scheduling and is not part of the state.
\<close>

definition enqueueRequest :: "requestData \<Rightarrow> requestQueue \<Rightarrow> result \<times> requestQueue" where
  "enqueueRequest request q =
     (let prevId = static_requestId q;
          q1 = q\<lparr>static_requestId := prevId + 1\<rparr>;
          (nextFreeId, found) = findFreeId (m_requests q1) prevId (prevId + 1) False
      in if found then (resultErr SecretsDaemonRequestQueueFullError, q1)
         else (resultOf Succeeded,
               q1\<lparr>m_requests := m_requests q1 @ [request\<lparr>rd_requestId := nextFreeId\<rparr>]\<rparr>))"

text \<open>\<open>requestFinished\<close>: the first record with this id becomes \<open>Finished\<close>; an unknown id is dropped.\<close>

fun finishFirst :: "64 word \<Rightarrow> variant list \<Rightarrow> requestData list \<Rightarrow> requestData list" where
  "finishFirst rid out [] = []"
| "finishFirst rid out (r # rs) =
     (if rd_requestId r = rid then r\<lparr>status := RequestFinished, outParams := out\<rparr> # rs
      else r # finishFirst rid out rs)"

definition requestFinished :: "64 word \<Rightarrow> variant list \<Rightarrow> requestQueue \<Rightarrow> requestQueue" where
  "requestFinished rid out q = q\<lparr>m_requests := finishFirst rid out (m_requests q)\<rparr>"


section \<open>What the processor is given: plugins, identities, hashing\<close>

datatype authenticationType =
    NoAuthentication
  | ApplicationSpecificAuthentication
  | SystemDefaultAuthentication

text \<open>
  The plugin classes, \<open>ApplicationPermissions\<close>, \<open>QCryptographicHash\<close> and
  \<open>QByteArray::toBase64\<close> are not part of secretsrequestprocessor.cpp, so they are parameters
  of the model. All plugin objects together have one state of type \<open>'p\<close>; every plugin method
  takes the name under which the plugin is registered, then the arguments of the C++ method,
  then the state, and returns its \<open>Result\<close>, the value left in its out-parameter (if it has
  one) and the new state. The four \<open>m_...Plugins\<close> maps are fixed once \<open>loadPlugins\<close> has run,
  so only their key sets are kept. Every entry function tests that the storage and encryption
  plugin names it uses are registered before it calls through \<open>m_...Plugins[name]\<close> or parks
  them, so the \<open>...WithAuthenticationKey\<close> continuations are reached with registered names
  only; for those maps the model asks the parameter at any name. The authentication plugins
  are called in four functions without that test; these places are branches of the model
  (\<open>NullPluginDereferenced\<close>).

  \<open>QVariant::value<T>()\<close> on a variant of another type converts, by rules of Qt that are not
  part of the sources: the four \<open>variantTo...\<close> parameters are these conversions. The order
  in which the arguments of a call are evaluated is left open by C++; compilers take them in
  the order written or in the reverse order, and \<open>argumentsInWrittenOrder\<close> says which.
\<close>

record 'p environment =
  m_storagePlugins :: "qstring set"
  m_encryptionPlugins :: "qstring set"
  m_encryptedStoragePlugins :: "qstring set"
  m_authenticationPlugins :: "qstring set"
  authenticationTypeOf :: "qstring \<Rightarrow> authenticationType"
  DefaultAuthenticationPluginName :: qstring
  applicationIsPlatformApplication :: "int \<Rightarrow> bool"
  platformApplicationId :: qstring
  applicationId :: "int \<Rightarrow> qstring"
  sha3_256 :: "qbytearray \<Rightarrow> qbytearray"
  toBase64 :: "qbytearray \<Rightarrow> qstring"
  storage_createCollection :: "qstring \<Rightarrow> qstring \<Rightarrow> 'p \<Rightarrow> result \<times> 'p"
  storage_removeCollection :: "qstring \<Rightarrow> qstring \<Rightarrow> 'p \<Rightarrow> result \<times> 'p"
  storage_setSecret :: "qstring \<Rightarrow> qstring \<Rightarrow> qstring \<Rightarrow> qbytearray \<Rightarrow> 'p \<Rightarrow> result \<times> 'p"
  storage_getSecret :: "qstring \<Rightarrow> qstring \<Rightarrow> qstring \<Rightarrow> 'p \<Rightarrow> result \<times> qbytearray \<times> 'p"
  storage_removeSecret :: "qstring \<Rightarrow> qstring \<Rightarrow> qstring \<Rightarrow> 'p \<Rightarrow> result \<times> 'p"
  encryptSecret :: "qstring \<Rightarrow> qbytearray \<Rightarrow> qbytearray \<Rightarrow> 'p \<Rightarrow> result \<times> qbytearray \<times> 'p"
  decryptSecret :: "qstring \<Rightarrow> qbytearray \<Rightarrow> qbytearray \<Rightarrow> 'p \<Rightarrow> result \<times> qbytearray \<times> 'p"
  encrypted_createCollection :: "qstring \<Rightarrow> qstring \<Rightarrow> qbytearray \<Rightarrow> 'p \<Rightarrow> result \<times> 'p"
  encrypted_removeCollection :: "qstring \<Rightarrow> qstring \<Rightarrow> 'p \<Rightarrow> result \<times> 'p"
  isLocked :: "qstring \<Rightarrow> qstring \<Rightarrow> 'p \<Rightarrow> result \<times> bool \<times> 'p"
  setEncryptionKey :: "qstring \<Rightarrow> qstring \<Rightarrow> qbytearray \<Rightarrow> 'p \<Rightarrow> result \<times> 'p"
  encrypted_setSecret :: "qstring \<Rightarrow> qstring \<Rightarrow> qstring \<Rightarrow> qbytearray \<Rightarrow> 'p \<Rightarrow> result \<times> 'p"
  encrypted_setSecretWithKey ::
    "qstring \<Rightarrow> qstring \<Rightarrow> qstring \<Rightarrow> qbytearray \<Rightarrow> qbytearray \<Rightarrow> 'p \<Rightarrow> result \<times> 'p"
  encrypted_getSecret :: "qstring \<Rightarrow> qstring \<Rightarrow> qstring \<Rightarrow> 'p \<Rightarrow> result \<times> qbytearray \<times> 'p"
  accessSecret :: "qstring \<Rightarrow> qstring \<Rightarrow> qstring \<Rightarrow> qbytearray \<Rightarrow> 'p \<Rightarrow> result \<times> qbytearray \<times> 'p"
  encrypted_removeSecret :: "qstring \<Rightarrow> qstring \<Rightarrow> qstring \<Rightarrow> 'p \<Rightarrow> result \<times> 'p"
  beginAuthentication ::
    "qstring \<Rightarrow> int \<Rightarrow> 64 word \<Rightarrow> qstring \<Rightarrow> qstring \<Rightarrow> qstring \<Rightarrow> qstring \<Rightarrow> 'p \<Rightarrow> result \<times> 'p"
  argumentsInWrittenOrder :: bool
  variantToString :: "variant \<Rightarrow> qstring"
  variantToByteArray :: "variant \<Rightarrow> qbytearray"
  variantToInt :: "variant \<Rightarrow> int"
  variantToBool :: "variant \<Rightarrow> bool"

definition SystemEncryptionKey :: qbytearray where
  "SystemEncryptionKey = ''example_encryption_key''"

definition DeviceLockKey :: qbytearray where
  "DeviceLockKey = ''example_device_lock_key''"

text \<open>Enumerations travel as \<open>int\<close> (over D-Bus and in the database), so they are \<open>int\<close> here.\<close>

abbreviation PreventUserInteractionMode :: int where "PreventUserInteractionMode \<equiv> 0"
abbreviation SystemUserInteractionMode :: int where "SystemUserInteractionMode \<equiv> 1"
abbreviation InProcessUserInteractionMode :: int where "InProcessUserInteractionMode \<equiv> 2"
abbreviation OwnerOnlyMode :: int where "OwnerOnlyMode \<equiv> 0"
abbreviation SystemAccessControlMode :: int where "SystemAccessControlMode \<equiv> 1"
abbreviation DeviceLockKeepUnlocked :: int where "DeviceLockKeepUnlocked \<equiv> 0"
abbreviation DeviceLockRelock :: int where "DeviceLockRelock \<equiv> 1"
abbreviation CustomLockKeepUnlocked :: int where "CustomLockKeepUnlocked \<equiv> 8"
abbreviation CustomLockDeviceLockRelock :: int where "CustomLockDeviceLockRelock \<equiv> 9"
abbreviation CustomLockTimoutRelock :: int where "CustomLockTimoutRelock \<equiv> 10"
abbreviation CustomLockAccessRelock :: int where "CustomLockAccessRelock \<equiv> 11"

subsection \<open>Hashed secret names\<close>

definition rehashHash :: "'p environment \<Rightarrow> qbytearray \<Rightarrow> qbytearray" where
  "rehashHash env hash = sha3_256 env hash"

text \<open>The \<open>for (int i = 0; i < 100; ++i)\<close> of \<open>generateHashedSecretName\<close>, counted down.\<close>

primrec rehashTimes :: "'p environment \<Rightarrow> nat \<Rightarrow> qbytearray \<Rightarrow> qbytearray" where
  "rehashTimes env 0 hashed = hashed"
| "rehashTimes env (Suc n) hashed = rehashTimes env n (rehashHash env hashed)"

definition generateHashedSecretName :: "'p environment \<Rightarrow> qstring \<Rightarrow> qstring \<Rightarrow> qstring" where
  "generateHashedSecretName env collectionName secretName =
     (let data = collectionName @ secretName;
          hashed = sha3_256 env data
      in toBase64 env (rehashTimes env 100 hashed))"

text \<open>
  \<open>collectionName.compare(QStringLiteral("standalone"), Qt::CaseInsensitive) == 0\<close>, for names
  of ASCII characters. Qt folds the case of every Unicode character, so the source also
  reserves the few names with a character outside ASCII that folds to a letter of
  \<open>standalone\<close> (the long s, U+017F); \<open>isStandalone\<close> does not hold of those, and what is
  proved of a name that is not reserved is proved of a name of ASCII characters.
\<close>

definition toLower :: "char \<Rightarrow> char" where
  "toLower c = (if 65 \<le> (of_char c :: nat) \<and> (of_char c :: nat) \<le> 90
                then char_of ((of_char c :: nat) + 32) else c)"

definition isStandalone :: "qstring \<Rightarrow> bool" where
  "isStandalone collectionName = (map toLower collectionName = ''standalone'')"

definition callerApplicationIdOf :: "'p environment \<Rightarrow> int \<Rightarrow> qstring" where
  "callerApplicationIdOf env callerPid =
     (if applicationIsPlatformApplication env callerPid then platformApplicationId env
      else applicationId env callerPid)"


section \<open>The state of the request processor\<close>

text \<open>A row of \<open>Collections\<close> or of \<open>Secrets\<close>, without the columns of its key.\<close>

record row =
  ApplicationId :: qstring
  UsesDeviceLockKey :: int
  StoragePluginName :: qstring
  EncryptionPluginName :: qstring
  AuthenticationPluginName :: qstring
  UnlockSemantic :: int
  CustomLockTimeoutMs :: int
  AccessControlMode :: int

record qtimer =
  interval :: int
  singleShot :: bool
  active :: bool

datatype requestKind =
    InvalidRequest
  | GetPluginInfoRequest
  | CreateDeviceLockCollectionRequest
  | CreateCustomLockCollectionRequest
  | DeleteCollectionRequest
  | SetCollectionSecretRequest
  | SetStandaloneDeviceLockSecretRequest
  | SetStandaloneCustomLockSecretRequest
  | GetCollectionSecretRequest
  | GetStandaloneSecretRequest
  | DeleteCollectionSecretRequest
  | DeleteStandaloneSecretRequest

record pendingRequest =
  pr_callerPid :: int
  pr_requestId :: "64 word"
  pr_requestType :: requestKind
  parameters :: "variant list"

text \<open>
  \<open>Collections\<close> and \<open>Secrets\<close> are the two tables of the master database, keyed as their
  primary keys are. \<open>dbFaults\<close> lists the outcomes of the fallible database calls still to
  come (see below). The two \<open>QMap<QString, QTimer*>\<close> are association lists, because
  \<open>timeoutRelock...\<close> searches them by value; a \<open>QTimer*\<close> is an index into \<open>timers\<close>, and
  every \<open>new QTimer\<close> takes the next index, so no two entries hold the same pointer and the order
  of the entries decides nothing.
\<close>

record 'p processor =
  Collections :: "qstring \<rightharpoonup> row"
  Secrets :: "qstring \<times> qstring \<rightharpoonup> row"
  dbFaults :: "bool list"
  m_collectionAuthenticationKeys :: "qstring \<rightharpoonup> qbytearray"
  m_standaloneSecretAuthenticationKeys :: "qstring \<rightharpoonup> qbytearray"
  m_collectionLockTimers :: "(qstring \<times> nat) list"
  m_standaloneSecretLockTimers :: "(qstring \<times> nat) list"
  timers :: "qtimer list"
  m_pendingRequests :: "64 word \<rightharpoonup> pendingRequest"
  m_requestQueue :: requestQueue
  plugins :: 'p

subsection \<open>The master database\<close>

text \<open>
  Modelled from the spec: the \<open>Database\<close> class (secretsdatabase_p.h and its implementation are
  not among the sources). The spec calls it an opaque relational store with transactions, whose
  mutating operations are \<open>begin \<rightarrow> execute \<rightarrow> commit\<close> with rollback on any failure. The
  processor tests the outcome of four calls: \<open>prepare\<close> (through \<open>errorText\<close>), \<open>execute\<close>,
  \<open>beginTransaction\<close> and \<open>commitTransaction\<close>. Each such call takes its outcome from the head
  of \<open>dbFaults\<close> (\<open>True\<close>: it works) and works when the list is exhausted; a statement changes
  the tables only when its transaction commits. The processor always issues these calls in
  one of two runs, which the two functions below are: \<open>prepare; execute\<close> for a \<open>SELECT\<close>, and
  \<open>prepare; beginTransaction; execute; commitTransaction\<close> for a change.

  The schema is not among the sources either. The constructor's comment and the spec say that
  the database holds a referential constraint from \<open>Secrets\<close> to \<open>Collections\<close> (the row
  \<open>standalone\<close> exists to satisfy it); what the schema does to the \<open>Secrets\<close> rows of a
  deleted collection is not stated. The model does not enforce the constraint: \<open>writeSecretRow\<close>
  writes under any collection name and \<open>deleteCollectionRow\<close> leaves the \<open>Secrets\<close> table as
  it is. A statement that the database would refuse is a failing \<open>execute\<close>, which the model
  has only through \<open>dbFaults\<close>; so a run of the model in which such a statement works has no
  counterpart in the source. Every entry function looks the collection row up before it writes
  a \<open>Secrets\<close> row, and the concrete runs of this theory write \<open>Secrets\<close> rows only under
  collections that have a row, and delete only collections without \<open>Secrets\<close> rows.
\<close>

datatype dbOutcome = DbOk | DbPrepareFailed | DbBeginFailed | DbExecuteFailed | DbCommitFailed

definition dbNext :: "'p processor \<Rightarrow> bool \<times> 'p processor" where
  "dbNext s = (case dbFaults s of [] \<Rightarrow> (True, s) | b # bs \<Rightarrow> (b, s\<lparr>dbFaults := bs\<rparr>))"

definition dbSelect :: "'p processor \<Rightarrow> dbOutcome \<times> 'p processor" where
  "dbSelect s =
     (let (prepared, s1) = dbNext s in
      if \<not> prepared then (DbPrepareFailed, s1)
      else let (executed, s2) = dbNext s1 in
        if \<not> executed then (DbExecuteFailed, s2) else (DbOk, s2))"

definition dbTransaction ::
  "('p processor \<Rightarrow> 'p processor) \<Rightarrow> 'p processor \<Rightarrow> dbOutcome \<times> 'p processor" where
  "dbTransaction statement s =
     (let (prepared, s1) = dbNext s in
      if \<not> prepared then (DbPrepareFailed, s1)
      else let (begun, s2) = dbNext s1 in
        if \<not> begun then (DbBeginFailed, s2)
        else let (executed, s3) = dbNext s2 in
          if \<not> executed then (DbExecuteFailed, s3)
          else let (committed, s4) = dbNext s3 in
            if \<not> committed then (DbCommitFailed, s4) else (DbOk, statement s4))"

text \<open>The error each failing call is reported with, the same at every place of the source.\<close>

fun dbErrorOf :: "dbOutcome \<Rightarrow> errorCode" where
  "dbErrorOf DbOk = NoError"
| "dbErrorOf DbPrepareFailed = DatabaseQueryError"
| "dbErrorOf DbBeginFailed = DatabaseTransactionError"
| "dbErrorOf DbExecuteFailed = DatabaseQueryError"
| "dbErrorOf DbCommitFailed = DatabaseTransactionError"

definition insertCollectionRow :: "qstring \<Rightarrow> row \<Rightarrow> 'p processor \<Rightarrow> 'p processor" where
  "insertCollectionRow collectionName r s = s\<lparr>Collections := (Collections s)(collectionName \<mapsto> r)\<rparr>"

definition deleteCollectionRow :: "qstring \<Rightarrow> 'p processor \<Rightarrow> 'p processor" where
  "deleteCollectionRow collectionName s = s\<lparr>Collections := (Collections s)(collectionName := None)\<rparr>"

definition writeSecretRow :: "qstring \<times> qstring \<Rightarrow> row \<Rightarrow> 'p processor \<Rightarrow> 'p processor" where
  "writeSecretRow k r s = s\<lparr>Secrets := (Secrets s)(k \<mapsto> r)\<rparr>"

definition deleteSecretRow :: "qstring \<times> qstring \<Rightarrow> 'p processor \<Rightarrow> 'p processor" where
  "deleteSecretRow k s = s\<lparr>Secrets := (Secrets s)(k := None)\<rparr>"

subsection \<open>Calling a plugin\<close>

definition callPlugin :: "('p \<Rightarrow> result \<times> 'p) \<Rightarrow> 'p processor \<Rightarrow> result \<times> 'p processor" where
  "callPlugin f s = (let (r, p) = f (plugins s) in (r, s\<lparr>plugins := p\<rparr>))"

definition callPluginOut ::
  "('p \<Rightarrow> result \<times> 'a \<times> 'p) \<Rightarrow> 'p processor \<Rightarrow> result \<times> 'a \<times> 'p processor" where
  "callPluginOut f s = (let (r, out, p) = f (plugins s) in (r, out, s\<lparr>plugins := p\<rparr>))"

definition parkRequest ::
  "int \<Rightarrow> 64 word \<Rightarrow> requestKind \<Rightarrow> variant list \<Rightarrow> 'p processor \<Rightarrow> 'p processor" where
  "parkRequest callerPid requestId kind params s =
     s\<lparr>m_pendingRequests := (m_pendingRequests s)(requestId \<mapsto>
         \<lparr>pr_callerPid = callerPid, pr_requestId = requestId,
          pr_requestType = kind, parameters = params\<rparr>)\<rparr>"


section \<open>The request processor (secretsrequestprocessor.cpp)\<close>

subsection \<open>Collections\<close>

definition createDeviceLockCollection ::
  "'p environment \<Rightarrow> int \<Rightarrow> 64 word \<Rightarrow> qstring \<Rightarrow> qstring \<Rightarrow> qstring \<Rightarrow> int \<Rightarrow> int
     \<Rightarrow> 'p processor \<Rightarrow> result \<times> 'p processor" where
  "createDeviceLockCollection env callerPid requestId collectionName storagePluginName
       encryptionPluginName unlockSemantic accessControlMode s =
     (if isStandalone collectionName then (resultErr InvalidCollectionError, s)
      else if storagePluginName = encryptionPluginName
              \<and> storagePluginName \<notin> m_encryptedStoragePlugins env
        then (resultErr InvalidExtensionPluginError, s)
      else if storagePluginName \<notin> m_storagePlugins env
        then (resultErr InvalidExtensionPluginError, s)
      else if encryptionPluginName \<notin> m_encryptionPlugins env
        then (resultErr InvalidExtensionPluginError, s)
      else
        let callerApplicationId = callerApplicationIdOf env callerPid;
            (sq, s1) = dbSelect s
        in if sq \<noteq> DbOk then (resultErr DatabaseQueryError, s1)
           else if Collections s1 collectionName \<noteq> None
             then (resultErr CollectionAlreadyExistsError, s1)
           else
             let (iq, s2) = dbTransaction (insertCollectionRow collectionName
                   \<lparr>ApplicationId = callerApplicationId, UsesDeviceLockKey = 1,
                    StoragePluginName = storagePluginName,
                    EncryptionPluginName = encryptionPluginName,
                    AuthenticationPluginName = DefaultAuthenticationPluginName env,
                    UnlockSemantic = unlockSemantic, CustomLockTimeoutMs = 0,
                    AccessControlMode = accessControlMode\<rparr>) s1
             in if iq \<noteq> DbOk then (resultErr (dbErrorOf iq), s2)
                else
                  let (pluginResult, s3) =
                        (if storagePluginName = encryptionPluginName
                         then callPlugin (encrypted_createCollection env storagePluginName
                                            collectionName DeviceLockKey) s2
                         else
                           let (r, t) = callPlugin (storage_createCollection env storagePluginName
                                                      collectionName) s2
                           in (r, t\<lparr>m_collectionAuthenticationKeys :=
                                    (m_collectionAuthenticationKeys t)(collectionName \<mapsto> DeviceLockKey)\<rparr>))
                  in if code pluginResult \<noteq> Succeeded then
                       (let (dq, s4) = dbTransaction (deleteCollectionRow collectionName) s3
                        in if dq \<noteq> DbOk then (resultErr (dbErrorOf dq), s4)
                           else (pluginResult, s4))
                     else (pluginResult, s3))"

definition createCustomLockCollection ::
  "'p environment \<Rightarrow> int \<Rightarrow> 64 word \<Rightarrow> qstring \<Rightarrow> qstring \<Rightarrow> qstring \<Rightarrow> qstring \<Rightarrow> int \<Rightarrow> int
     \<Rightarrow> int \<Rightarrow> int \<Rightarrow> qstring \<Rightarrow> 'p processor \<Rightarrow> result \<times> 'p processor" where
  "createCustomLockCollection env callerPid requestId collectionName storagePluginName
       encryptionPluginName authenticationPluginName unlockSemantic customLockTimeoutMs
       accessControlMode userInteractionMode uiServiceAddress s =
     (if isStandalone collectionName then (resultErr InvalidCollectionError, s)
      else if storagePluginName = encryptionPluginName
              \<and> storagePluginName \<notin> m_encryptedStoragePlugins env
        then (resultErr InvalidExtensionPluginError, s)
      else if storagePluginName \<notin> m_storagePlugins env
        then (resultErr InvalidExtensionPluginError, s)
      else if encryptionPluginName \<notin> m_encryptionPlugins env
        then (resultErr InvalidExtensionPluginError, s)
      else if authenticationPluginName \<notin> m_authenticationPlugins env
        then (resultErr InvalidExtensionPluginError, s)
      else if authenticationTypeOf env authenticationPluginName = ApplicationSpecificAuthentication
              \<and> (userInteractionMode \<noteq> InProcessUserInteractionMode \<or> uiServiceAddress = [])
        then (resultErr OperationRequiresInProcessUserInteraction, s)
      else if userInteractionMode = PreventUserInteractionMode
        then (resultErr OperationRequiresUserInteraction, s)
      else
        let callerApplicationId = callerApplicationIdOf env callerPid;
            (sq, s1) = dbSelect s
        in if sq \<noteq> DbOk then (resultErr DatabaseQueryError, s1)
           else if Collections s1 collectionName \<noteq> None
             then (resultErr CollectionAlreadyExistsError, s1)
           else
             let (authenticationResult, s2) =
                   callPlugin (beginAuthentication env authenticationPluginName callerPid requestId
                                 callerApplicationId collectionName [] uiServiceAddress) s1
             in if code authenticationResult = Failed then (authenticationResult, s2)
                else (resultOf Pending,
                      parkRequest callerPid requestId CreateCustomLockCollectionRequest
                        [VString collectionName, VString storagePluginName,
                         VString encryptionPluginName, VString authenticationPluginName,
                         VInt unlockSemantic, VInt customLockTimeoutMs, VInt accessControlMode,
                         VInt userInteractionMode, VString uiServiceAddress] s2))"

definition createCustomLockCollectionWithAuthenticationKey ::
  "'p environment \<Rightarrow> int \<Rightarrow> 64 word \<Rightarrow> qstring \<Rightarrow> qstring \<Rightarrow> qstring \<Rightarrow> qstring \<Rightarrow> int \<Rightarrow> int
     \<Rightarrow> int \<Rightarrow> int \<Rightarrow> qstring \<Rightarrow> qbytearray \<Rightarrow> 'p processor \<Rightarrow> result \<times> 'p processor" where
  "createCustomLockCollectionWithAuthenticationKey env callerPid requestId collectionName
       storagePluginName encryptionPluginName authenticationPluginName unlockSemantic
       customLockTimeoutMs accessControlMode userInteractionMode uiServiceAddress
       authenticationKey s =
     (let callerApplicationId = callerApplicationIdOf env callerPid;
          (sq, s1) = dbSelect s
      in if sq \<noteq> DbOk then (resultErr DatabaseQueryError, s1)
         else if Collections s1 collectionName \<noteq> None
           then (resultErr CollectionAlreadyExistsError, s1)
         else
           let (iq, s2) = dbTransaction (insertCollectionRow collectionName
                 \<lparr>ApplicationId = callerApplicationId, UsesDeviceLockKey = 0,
                  StoragePluginName = storagePluginName,
                  EncryptionPluginName = encryptionPluginName,
                  AuthenticationPluginName = authenticationPluginName,
                  UnlockSemantic = unlockSemantic, CustomLockTimeoutMs = customLockTimeoutMs,
                  AccessControlMode = accessControlMode\<rparr>) s1
           in if iq \<noteq> DbOk then (resultErr (dbErrorOf iq), s2)
              else
                let (pluginResult, s3) =
                      (if storagePluginName = encryptionPluginName
                       then callPlugin (encrypted_createCollection env storagePluginName
                                          collectionName authenticationKey) s2
                       else
                         let (r, t) = callPlugin (storage_createCollection env storagePluginName
                                                    collectionName) s2
                         in (r, t\<lparr>m_collectionAuthenticationKeys :=
                                  (m_collectionAuthenticationKeys t)(collectionName \<mapsto> authenticationKey)\<rparr>))
                in if code pluginResult = Failed then
                     (let (dq, s4) = dbTransaction (deleteCollectionRow collectionName) s3
                      in if dq \<noteq> DbOk then (resultErr (dbErrorOf dq), s4)
                         else (pluginResult, s4))
                   else (pluginResult, s3))"

definition deleteCollection ::
  "'p environment \<Rightarrow> int \<Rightarrow> 64 word \<Rightarrow> qstring \<Rightarrow> int \<Rightarrow> 'p processor
     \<Rightarrow> result \<times> 'p processor" where
  "deleteCollection env callerPid requestId collectionName userInteractionMode s =
     (if isStandalone collectionName then (resultErr InvalidCollectionError, s)
      else if collectionName = [] then (resultErr InvalidCollectionError, s)
      else
        let callerApplicationId = callerApplicationIdOf env callerPid;
            (sq, s1) = dbSelect s
        in if sq \<noteq> DbOk then (resultErr DatabaseQueryError, s1)
           else case Collections s1 collectionName of
             None \<Rightarrow> (resultOf Succeeded, s1)
           | Some r \<Rightarrow>
               let collectionStoragePluginName = StoragePluginName r;
                   collectionEncryptionPluginName = EncryptionPluginName r
               in if collectionStoragePluginName = collectionEncryptionPluginName
                     \<and> collectionStoragePluginName \<notin> m_encryptedStoragePlugins env
                    then (resultErr InvalidExtensionPluginError, s1)
                  else if collectionStoragePluginName = []
                          \<or> collectionStoragePluginName \<notin> m_storagePlugins env
                    then (resultErr InvalidExtensionPluginError, s1)
                  else
                    let (pluginResult, s2) =
                          (if collectionStoragePluginName = collectionEncryptionPluginName
                           then callPlugin (encrypted_removeCollection env
                                              collectionStoragePluginName collectionName) s1
                           else callPlugin (storage_removeCollection env
                                              collectionStoragePluginName collectionName) s1)
                    in if code pluginResult = Failed then (pluginResult, s2)
                       else
                         let s3 = s2\<lparr>m_collectionAuthenticationKeys :=
                                       (m_collectionAuthenticationKeys s2)(collectionName := None),
                                     m_collectionLockTimers :=
                                       filter (\<lambda>e. fst e \<noteq> collectionName) (m_collectionLockTimers s2)\<rparr>;
                             (dq, s4) = dbTransaction (deleteCollectionRow collectionName) s3
                         in if dq \<noteq> DbOk then (resultErr (dbErrorOf dq), s4)
                            else (resultOf Succeeded, s4))"


subsection \<open>Applying an authentication key to an encrypted storage collection\<close>

text \<open>
  The block that \<open>setCollectionSecretWithAuthenticationKey\<close>,
  \<open>getCollectionSecretWithAuthenticationKey\<close> and
  \<open>deleteCollectionSecretWithAuthenticationKey\<close> each contain, verbatim, after their first
  \<open>isLocked\<close> has succeeded with the value \<open>locked\<close>: \<open>if (locked) { setEncryptionKey; isLocked }\<close>
  followed by \<open>if (locked) { setEncryptionKey(empty); return IncorrectAuthenticationKeyError }\<close>.
  \<open>Some r\<close> is the \<open>return r\<close> of the enclosing function; \<open>None\<close> falls through to the plugin
  operation on the unlocked collection.
\<close>

definition applyAuthenticationKey ::
  "'p environment \<Rightarrow> qstring \<Rightarrow> qstring \<Rightarrow> qbytearray \<Rightarrow> bool \<Rightarrow> 'p processor
     \<Rightarrow> result option \<times> 'p processor" where
  "applyAuthenticationKey env pluginName collectionName authenticationKey locked s =
     (if locked then
        let (keyResult, s1) =
              callPlugin (setEncryptionKey env pluginName collectionName authenticationKey) s
        in if code keyResult \<noteq> Succeeded then
             (let (ignored, s2) = callPlugin (setEncryptionKey env pluginName collectionName []) s1
              in (Some (resultErr SecretsPluginDecryptionError), s2))
           else
             let (lockResult, stillLocked, s2) =
                   callPluginOut (isLocked env pluginName collectionName) s1
             in if code lockResult \<noteq> Succeeded then
                  (let (ignored, s3) = callPlugin (setEncryptionKey env pluginName collectionName []) s2
                   in (Some (resultErr SecretsPluginDecryptionError), s3))
                else if stillLocked then
                  (let (ignored, s3) = callPlugin (setEncryptionKey env pluginName collectionName []) s2
                   in (Some (resultErr IncorrectAuthenticationKeyError), s3))
                else (None, s2)
      else (None, s))"

definition cacheCollectionKey :: "qstring \<Rightarrow> qbytearray \<Rightarrow> 'p processor \<Rightarrow> 'p processor" where
  "cacheCollectionKey collectionName authenticationKey s =
     (if m_collectionAuthenticationKeys s collectionName = None
      then s\<lparr>m_collectionAuthenticationKeys :=
               (m_collectionAuthenticationKeys s)(collectionName \<mapsto> authenticationKey)\<rparr>
      else s)"

text \<open>\<open>QMap::value(key)\<close>: a default-constructed (empty) value when the key is absent.\<close>

definition valueOf :: "('k \<rightharpoonup> qbytearray) \<Rightarrow> 'k \<Rightarrow> qbytearray" where
  "valueOf m k = (case m k of None \<Rightarrow> [] | Some v \<Rightarrow> v)"

subsection \<open>Secrets in a collection: set\<close>

definition setCollectionSecretWithAuthenticationKey ::
  "'p environment \<Rightarrow> int \<Rightarrow> 64 word \<Rightarrow> qstring \<Rightarrow> qstring \<Rightarrow> qbytearray \<Rightarrow> int \<Rightarrow> qstring
     \<Rightarrow> bool \<Rightarrow> qstring \<Rightarrow> qstring \<Rightarrow> qstring \<Rightarrow> qstring \<Rightarrow> int \<Rightarrow> int \<Rightarrow> int \<Rightarrow> qbytearray
     \<Rightarrow> 'p processor \<Rightarrow> result \<times> 'p processor" where
  "setCollectionSecretWithAuthenticationKey env callerPid requestId collectionName secretName
       secret userInteractionMode uiServiceAddress collectionUsesDeviceLockKey
       collectionApplicationId collectionStoragePluginName collectionEncryptionPluginName
       collectionAuthenticationPluginName collectionUnlockSemantic collectionCustomLockTimeoutMs
       collectionAccessControlMode authenticationKey s =
     (let hashedSecretName = generateHashedSecretName env collectionName secretName;
          (ssq, s1) = dbSelect s
      in if ssq \<noteq> DbOk then (resultErr DatabaseQueryError, s1)
         else
           let secretAlreadyExists = (Secrets s1 (collectionName, hashedSecretName) \<noteq> None);
               (iq, s2) =
                 (if \<not> secretAlreadyExists
                  then dbTransaction (writeSecretRow (collectionName, hashedSecretName)
                         \<lparr>ApplicationId = collectionApplicationId,
                          UsesDeviceLockKey = (if collectionUsesDeviceLockKey then 1 else 0),
                          StoragePluginName = collectionStoragePluginName,
                          EncryptionPluginName = collectionEncryptionPluginName,
                          AuthenticationPluginName = collectionAuthenticationPluginName,
                          UnlockSemantic = collectionUnlockSemantic,
                          CustomLockTimeoutMs = collectionCustomLockTimeoutMs,
                          AccessControlMode = collectionAccessControlMode\<rparr>) s1
                  else (DbOk, s1))
           in if iq \<noteq> DbOk then (resultErr (dbErrorOf iq), s2)
              else
                let (returned, pluginResult, s3) =
                      (if collectionStoragePluginName = collectionEncryptionPluginName then
                         let (lockResult, locked, t1) =
                               callPluginOut (isLocked env collectionStoragePluginName collectionName) s2
                         in if code lockResult = Succeeded then
                              (case applyAuthenticationKey env collectionStoragePluginName
                                      collectionName authenticationKey locked t1 of
                                 (Some r, t2) \<Rightarrow> (True, r, t2)
                               | (None, t2) \<Rightarrow>
                                   let (r, t3) = callPlugin (encrypted_setSecret env
                                         collectionStoragePluginName collectionName
                                         hashedSecretName secret) t2
                                   in (False, r, t3))
                            else (False, lockResult, t1)
                       else
                         let t1 = cacheCollectionKey collectionName authenticationKey s2;
                             (encryptResult, encrypted, t2) =
                               callPluginOut (encryptSecret env collectionEncryptionPluginName secret
                                 (valueOf (m_collectionAuthenticationKeys t1) collectionName)) t1
                         in if code encryptResult = Succeeded then
                              (let (r, t3) = callPlugin (storage_setSecret env
                                     collectionStoragePluginName collectionName hashedSecretName
                                     encrypted) t2
                               in (False, r, t3))
                            else (False, encryptResult, t2))
                in if returned then (pluginResult, s3)
                   else if code pluginResult = Failed \<and> \<not> secretAlreadyExists then
                     (let (dq, s4) = dbTransaction
                            (deleteSecretRow (collectionName, hashedSecretName)) s3
                      in if dq \<noteq> DbOk then (resultErr (dbErrorOf dq), s4)
                         else (pluginResult, s4))
                   else (pluginResult, s3))"

definition setCollectionSecret ::
  "'p environment \<Rightarrow> int \<Rightarrow> 64 word \<Rightarrow> qstring \<Rightarrow> qstring \<Rightarrow> qbytearray \<Rightarrow> int \<Rightarrow> qstring
     \<Rightarrow> 'p processor \<Rightarrow> result \<times> 'p processor" where
  "setCollectionSecret env callerPid requestId collectionName secretName secret
       userInteractionMode uiServiceAddress s =
     (if secretName = [] then (resultErr InvalidSecretError, s)
      else if collectionName = [] then (resultErr InvalidCollectionError, s)
      else if isStandalone collectionName then (resultErr InvalidCollectionError, s)
      else
        let callerApplicationId = callerApplicationIdOf env callerPid;
            (sq, s1) = dbSelect s
        in if sq \<noteq> DbOk then (resultErr DatabaseQueryError, s1)
           else case Collections s1 collectionName of
             None \<Rightarrow> (resultErr InvalidCollectionError, s1)
           | Some r \<Rightarrow>
               let collectionApplicationId = ApplicationId r;
                   collectionUsesDeviceLockKey = (UsesDeviceLockKey r > 0);
                   collectionStoragePluginName = StoragePluginName r;
                   collectionEncryptionPluginName = EncryptionPluginName r;
                   collectionAuthenticationPluginName = AuthenticationPluginName r;
                   collectionUnlockSemantic = UnlockSemantic r;
                   collectionCustomLockTimeoutMs = CustomLockTimeoutMs r;
                   collectionAccessControlMode = AccessControlMode r;
                   continue = (\<lambda>authenticationKey t.
                     setCollectionSecretWithAuthenticationKey env callerPid requestId
                       collectionName secretName secret userInteractionMode uiServiceAddress
                       collectionUsesDeviceLockKey collectionApplicationId
                       collectionStoragePluginName collectionEncryptionPluginName
                       collectionAuthenticationPluginName collectionUnlockSemantic
                       collectionCustomLockTimeoutMs collectionAccessControlMode
                       authenticationKey t);
                   park = (\<lambda>t.
                     if collectionUsesDeviceLockKey then (resultErr CollectionIsLockedError, t)
                     else if userInteractionMode = PreventUserInteractionMode
                       then (resultErr OperationRequiresUserInteraction, t)
                     else if collectionAuthenticationPluginName \<notin> m_authenticationPlugins env
                       then (resultErr NullPluginDereferenced, t)
                     else
                       let (authenticationResult, t1) =
                             callPlugin (beginAuthentication env collectionAuthenticationPluginName
                               callerPid requestId callerApplicationId collectionName secretName
                               uiServiceAddress) t
                       in if code authenticationResult = Failed then (authenticationResult, t1)
                          else (resultOf Pending,
                                parkRequest callerPid requestId SetCollectionSecretRequest
                                  [VString collectionName, VString secretName, VBytes secret,
                                   VInt userInteractionMode, VString uiServiceAddress,
                                   VBool collectionUsesDeviceLockKey,
                                   VString collectionApplicationId,
                                   VString collectionStoragePluginName,
                                   VString collectionEncryptionPluginName,
                                   VString collectionAuthenticationPluginName,
                                   VInt collectionUnlockSemantic,
                                   VInt collectionCustomLockTimeoutMs,
                                   VInt collectionAccessControlMode] t1))
               in if collectionAccessControlMode \<noteq> OwnerOnlyMode
                    then (resultErr OperationNotSupportedError, s1)
                  else if collectionApplicationId \<noteq> callerApplicationId
                    then (resultErr PermissionsError, s1)
                  else if collectionStoragePluginName = collectionEncryptionPluginName
                          \<and> collectionStoragePluginName \<notin> m_encryptedStoragePlugins env
                    then (resultErr InvalidExtensionPluginError, s1)
                  else if collectionStoragePluginName \<noteq> collectionEncryptionPluginName
                          \<and> (collectionStoragePluginName = []
                               \<or> collectionStoragePluginName \<notin> m_storagePlugins env)
                    then (resultErr InvalidExtensionPluginError, s1)
                  else if collectionStoragePluginName \<noteq> collectionEncryptionPluginName
                          \<and> (collectionEncryptionPluginName = []
                               \<or> collectionEncryptionPluginName \<notin> m_encryptionPlugins env)
                    then (resultErr InvalidExtensionPluginError, s1)
                  else if collectionStoragePluginName = collectionEncryptionPluginName then
                    (let (pluginResult, locked, s2) =
                           callPluginOut (isLocked env collectionStoragePluginName collectionName) s1
                     in if code pluginResult \<noteq> Succeeded then (pluginResult, s2)
                        else if \<not> locked then continue [] s2
                        else park s2)
                  else if m_collectionAuthenticationKeys s1 collectionName \<noteq> None
                    then continue (valueOf (m_collectionAuthenticationKeys s1) collectionName) s1
                  else park s1)"


subsection \<open>Secrets in a collection: get\<close>

text \<open>\<open>new QTimer(this); setInterval(ms); setSingleShot(true); start()\<close>: the new pointer and the state.\<close>

definition startTimer :: "int \<Rightarrow> 'p processor \<Rightarrow> nat \<times> 'p processor" where
  "startTimer ms s =
     (length (timers s),
      s\<lparr>timers := timers s @ [\<lparr>interval = ms, singleShot = True, active = True\<rparr>]\<rparr>)"

definition getCollectionSecretWithAuthenticationKey ::
  "'p environment \<Rightarrow> int \<Rightarrow> 64 word \<Rightarrow> qstring \<Rightarrow> qstring \<Rightarrow> int \<Rightarrow> qstring \<Rightarrow> qstring
     \<Rightarrow> qstring \<Rightarrow> int \<Rightarrow> int \<Rightarrow> qbytearray \<Rightarrow> 'p processor
     \<Rightarrow> result \<times> qbytearray \<times> 'p processor" where
  "getCollectionSecretWithAuthenticationKey env callerPid requestId collectionName secretName
       userInteractionMode uiServiceAddress storagePluginName encryptionPluginName
       collectionUnlockSemantic collectionCustomLockTimeoutMs authenticationKey s =
     (let s0 =
            (if collectionUnlockSemantic = CustomLockTimoutRelock
                \<and> map_of (m_collectionLockTimers s) collectionName = None
             then let (timer, t) = startTimer collectionCustomLockTimeoutMs s
                  in t\<lparr>m_collectionLockTimers := m_collectionLockTimers t @ [(collectionName, timer)]\<rparr>
             else s);
          hashedSecretName = generateHashedSecretName env collectionName secretName
      in if storagePluginName = encryptionPluginName then
           let (lockResult, locked, s1) =
                 callPluginOut (isLocked env storagePluginName collectionName) s0
           in if code lockResult \<noteq> Succeeded then (lockResult, [], s1)
              else
                (case applyAuthenticationKey env storagePluginName collectionName
                        authenticationKey locked s1 of
                   (Some r, s2) \<Rightarrow> (r, [], s2)
                 | (None, s2) \<Rightarrow>
                     callPluginOut (encrypted_getSecret env storagePluginName collectionName
                                      hashedSecretName) s2)
         else
           let s1 = cacheCollectionKey collectionName authenticationKey s0;
               (getResult, encrypted, s2) =
                 callPluginOut (storage_getSecret env storagePluginName collectionName
                                  hashedSecretName) s1
           in if code getResult = Succeeded
              then callPluginOut (decryptSecret env encryptionPluginName encrypted
                     (valueOf (m_collectionAuthenticationKeys s2) collectionName)) s2
              else (getResult, [], s2))"

definition getCollectionSecret ::
  "'p environment \<Rightarrow> int \<Rightarrow> 64 word \<Rightarrow> qstring \<Rightarrow> qstring \<Rightarrow> int \<Rightarrow> qstring \<Rightarrow> 'p processor
     \<Rightarrow> result \<times> qbytearray \<times> 'p processor" where
  "getCollectionSecret env callerPid requestId collectionName secretName userInteractionMode
       uiServiceAddress s =
     (if secretName = [] then (resultErr InvalidSecretError, [], s)
      else if collectionName = [] then (resultErr InvalidCollectionError, [], s)
      else if isStandalone collectionName then (resultErr InvalidCollectionError, [], s)
      else
        let callerApplicationId = callerApplicationIdOf env callerPid;
            (sq, s1) = dbSelect s
        in if sq \<noteq> DbOk then (resultErr DatabaseQueryError, [], s1)
           else case Collections s1 collectionName of
             None \<Rightarrow> (resultErr InvalidCollectionError, [], s1)
           | Some r \<Rightarrow>
               let collectionApplicationId = ApplicationId r;
                   collectionUsesDeviceLockKey = (UsesDeviceLockKey r > 0);
                   collectionStoragePluginName = StoragePluginName r;
                   collectionEncryptionPluginName = EncryptionPluginName r;
                   collectionAuthenticationPluginName = AuthenticationPluginName r;
                   collectionUnlockSemantic = UnlockSemantic r;
                   collectionCustomLockTimeoutMs = CustomLockTimeoutMs r;
                   collectionAccessControlMode = AccessControlMode r;
                   continue = (\<lambda>authenticationKey t.
                     getCollectionSecretWithAuthenticationKey env callerPid requestId
                       collectionName secretName userInteractionMode uiServiceAddress
                       collectionStoragePluginName collectionEncryptionPluginName
                       collectionUnlockSemantic collectionCustomLockTimeoutMs
                       authenticationKey t);
                   park = (\<lambda>t.
                     if collectionUsesDeviceLockKey then (resultErr CollectionIsLockedError, [], t)
                     else if userInteractionMode = PreventUserInteractionMode
                       then (resultErr OperationRequiresUserInteraction, [], t)
                     else
                       let (authenticationResult, t1) =
                             callPlugin (beginAuthentication env collectionAuthenticationPluginName
                               callerPid requestId callerApplicationId collectionName secretName
                               uiServiceAddress) t
                       in if code authenticationResult = Failed then (authenticationResult, [], t1)
                          else (resultOf Pending, [],
                                parkRequest callerPid requestId GetCollectionSecretRequest
                                  [VString collectionName, VString secretName,
                                   VInt userInteractionMode, VString uiServiceAddress,
                                   VString collectionStoragePluginName,
                                   VString collectionEncryptionPluginName,
                                   VInt collectionUnlockSemantic,
                                   VInt collectionCustomLockTimeoutMs] t1))
               in if collectionStoragePluginName = collectionEncryptionPluginName
                     \<and> collectionStoragePluginName \<notin> m_encryptedStoragePlugins env
                    then (resultErr InvalidExtensionPluginError, [], s1)
                  else if collectionStoragePluginName \<noteq> collectionEncryptionPluginName
                          \<and> collectionStoragePluginName \<notin> m_storagePlugins env
                    then (resultErr InvalidExtensionPluginError, [], s1)
                  else if collectionStoragePluginName \<noteq> collectionEncryptionPluginName
                          \<and> collectionEncryptionPluginName \<notin> m_encryptionPlugins env
                    then (resultErr InvalidExtensionPluginError, [], s1)
                  else if collectionAccessControlMode \<noteq> OwnerOnlyMode
                    then (resultErr OperationNotSupportedError, [], s1)
                  else if collectionApplicationId \<noteq> callerApplicationId
                    then (resultErr PermissionsError, [], s1)
                  else if collectionAuthenticationPluginName \<notin> m_authenticationPlugins env
                    then (resultErr InvalidExtensionPluginError, [], s1)
                  else if authenticationTypeOf env collectionAuthenticationPluginName
                            = ApplicationSpecificAuthentication
                          \<and> (userInteractionMode \<noteq> InProcessUserInteractionMode
                               \<or> uiServiceAddress = [])
                    then (resultErr OperationRequiresInProcessUserInteraction, [], s1)
                  else if collectionStoragePluginName = collectionEncryptionPluginName then
                    (let (pluginResult, locked, s2) =
                           callPluginOut (isLocked env collectionStoragePluginName collectionName) s1
                     in if code pluginResult \<noteq> Succeeded then (pluginResult, [], s2)
                        else if locked then park s2
                        else continue [] s2)
                  else if m_collectionAuthenticationKeys s1 collectionName = None then park s1
                  else continue (valueOf (m_collectionAuthenticationKeys s1) collectionName) s1)"

subsection \<open>Secrets in a collection: delete\<close>

definition deleteCollectionSecretWithAuthenticationKey ::
  "'p environment \<Rightarrow> int \<Rightarrow> 64 word \<Rightarrow> qstring \<Rightarrow> qstring \<Rightarrow> int \<Rightarrow> qstring \<Rightarrow> qbytearray
     \<Rightarrow> 'p processor \<Rightarrow> result \<times> 'p processor" where
  "deleteCollectionSecretWithAuthenticationKey env callerPid requestId collectionName secretName
       userInteractionMode uiServiceAddress authenticationKey s =
     (let callerApplicationId = callerApplicationIdOf env callerPid;
          (sq, s1) = dbSelect s
      in if sq \<noteq> DbOk then (resultErr DatabaseQueryError, s1)
         else case Collections s1 collectionName of
           None \<Rightarrow> (resultErr InvalidCollectionError, s1)
         | Some r \<Rightarrow>
             let collectionApplicationId = ApplicationId r;
                 collectionUsesDeviceLockKey = (UsesDeviceLockKey r > 0);
                 collectionStoragePluginName = StoragePluginName r;
                 collectionEncryptionPluginName = EncryptionPluginName r;
                 collectionAccessControlMode = AccessControlMode r
             in if collectionUsesDeviceLockKey \<and> authenticationKey \<noteq> DeviceLockKey
                  then (resultErr IncorrectAuthenticationKeyError, s1)
                else if collectionAccessControlMode \<noteq> OwnerOnlyMode
                  then (resultErr OperationNotSupportedError, s1)
                else if collectionApplicationId \<noteq> callerApplicationId
                  then (resultErr PermissionsError, s1)
                else
                  let hashedSecretName = generateHashedSecretName env collectionName secretName;
                      (returned, pluginResult, s3) =
                        (if collectionStoragePluginName = collectionEncryptionPluginName then
                           let (lockResult, locked, t1) =
                                 callPluginOut (isLocked env collectionStoragePluginName
                                                  collectionName) s1
                           in if code lockResult \<noteq> Succeeded then (True, lockResult, t1)
                              else
                                (case applyAuthenticationKey env collectionStoragePluginName
                                        collectionName authenticationKey locked t1 of
                                   (Some e, t2) \<Rightarrow> (True, e, t2)
                                 | (None, t2) \<Rightarrow>
                                     let (e, t3) = callPlugin (encrypted_removeSecret env
                                           collectionStoragePluginName collectionName
                                           hashedSecretName) t2
                                     in (False, e, t3))
                         else
                           let t1 = cacheCollectionKey collectionName authenticationKey s1;
                               (e, t2) = callPlugin (storage_removeSecret env
                                     collectionStoragePluginName collectionName
                                     hashedSecretName) t1
                           in (False, e, t2))
                  in if returned then (pluginResult, s3)
                     else if code pluginResult = Succeeded then
                       (let (dq, s4) = dbTransaction
                              (deleteSecretRow (collectionName, hashedSecretName)) s3
                        in if dq \<noteq> DbOk then (resultErr (dbErrorOf dq), s4)
                           else (pluginResult, s4))
                     else (pluginResult, s3))"



subsection \<open>Standalone secrets: set\<close>

text \<open>\<open>a.compare(b, Qt::CaseInsensitive) != 0\<close>, on ASCII.\<close>

definition differsIgnoringCase :: "qstring \<Rightarrow> qstring \<Rightarrow> bool" where
  "differsIgnoringCase a b = (map toLower a \<noteq> map toLower b)"

text \<open>
  The four tests on an existing row that the three \<open>setStandalone...\<close> functions share;
  \<open>wrongLock\<close> is \<open>secretUsesDeviceLockKey == 0\<close> in the device-lock function and
  \<open>secretUsesDeviceLockKey == 1\<close> in the two custom-lock ones.
\<close>

definition standaloneRowRefusal ::
  "row option \<Rightarrow> qstring \<Rightarrow> qstring \<Rightarrow> (bool \<Rightarrow> bool) \<Rightarrow> errorCode option" where
  "standaloneRowRefusal found callerApplicationId storagePluginName wrongLock =
     (case found of
        None \<Rightarrow> None
      | Some r \<Rightarrow>
          if AccessControlMode r \<noteq> OwnerOnlyMode then Some OperationNotSupportedError
          else if ApplicationId r \<noteq> callerApplicationId then Some PermissionsError
          else if wrongLock (UsesDeviceLockKey r > 0) then Some OperationNotSupportedError
          else if differsIgnoringCase (StoragePluginName r) storagePluginName
            then Some OperationNotSupportedError
          else None)"

text \<open>
  The storing part that \<open>setStandaloneDeviceLockSecret\<close> and
  \<open>setStandaloneCustomLockSecretWithAuthenticationKey\<close> share from \<open>prepare(found ? update :
  insert)\<close> on; they differ in the row written and in the key. An \<open>UPDATE\<close> sets every
  column but the key, so both statements leave the row \<open>newRow\<close>.
\<close>

definition storeStandaloneSecret ::
  "'p environment \<Rightarrow> qstring \<Rightarrow> qstring \<Rightarrow> qstring \<Rightarrow> qbytearray \<Rightarrow> bool \<Rightarrow> row
     \<Rightarrow> qbytearray \<Rightarrow> 'p processor \<Rightarrow> result \<times> 'p processor" where
  "storeStandaloneSecret env storagePluginName encryptionPluginName hashedSecretName secret
       found newRow key s =
     (let collectionName = ''standalone'';
          (iq, s2) = dbTransaction (writeSecretRow (collectionName, hashedSecretName) newRow) s
      in if iq \<noteq> DbOk then (resultErr (dbErrorOf iq), s2)
         else
           let (pluginResult, s3) =
                 (if storagePluginName = encryptionPluginName
                  then callPlugin (encrypted_setSecretWithKey env storagePluginName collectionName
                                     hashedSecretName secret key) s2
                  else
                    let (encryptResult, encrypted, t1) =
                          callPluginOut (encryptSecret env encryptionPluginName secret key) s2
                    in if code encryptResult = Succeeded then
                         (let (r, t2) = callPlugin (storage_setSecret env storagePluginName
                                collectionName hashedSecretName encrypted) t1
                          in if code r = Succeeded
                             then (r, t2\<lparr>m_standaloneSecretAuthenticationKeys :=
                                        (m_standaloneSecretAuthenticationKeys t2)
                                          (hashedSecretName \<mapsto> key)\<rparr>)
                             else (r, t2))
                       else (encryptResult, t1))
           in if code pluginResult = Failed \<and> \<not> found then
                (let (dq, s4) = dbTransaction
                       (deleteSecretRow (collectionName, hashedSecretName)) s3
                 in if dq \<noteq> DbOk then (resultErr (dbErrorOf dq), s4)
                    else (pluginResult, s4))
              else (pluginResult, s3))"



text \<open>The row written has \<open>UsesDeviceLockKey = 1\<close>, as the source binds it (\<open>ivalues << 1\<close>).\<close>

definition setStandaloneCustomLockSecretWithAuthenticationKey ::
  "'p environment \<Rightarrow> int \<Rightarrow> 64 word \<Rightarrow> qstring \<Rightarrow> qstring \<Rightarrow> qstring \<Rightarrow> qstring \<Rightarrow> qbytearray
     \<Rightarrow> int \<Rightarrow> int \<Rightarrow> int \<Rightarrow> int \<Rightarrow> qstring \<Rightarrow> qbytearray \<Rightarrow> 'p processor
     \<Rightarrow> result \<times> 'p processor" where
  "setStandaloneCustomLockSecretWithAuthenticationKey env callerPid requestId storagePluginName
       encryptionPluginName authenticationPluginName secretName secret unlockSemantic
       customLockTimeoutMs accessControlMode userInteractionMode uiServiceAddress
       authenticationKey s =
     (let callerApplicationId = callerApplicationIdOf env callerPid;
          collectionName = ''standalone'';
          hashedSecretName = generateHashedSecretName env collectionName secretName;
          (ssq, s1) = dbSelect s
      in if ssq \<noteq> DbOk then (resultErr DatabaseQueryError, s1)
         else
           let found = Secrets s1 (collectionName, hashedSecretName)
           in case standaloneRowRefusal found callerApplicationId storagePluginName
                     (\<lambda>secretUsesDeviceLockKey. secretUsesDeviceLockKey) of
                Some e \<Rightarrow> (resultErr e, s1)
              | None \<Rightarrow>
                  storeStandaloneSecret env storagePluginName encryptionPluginName
                    hashedSecretName secret (found \<noteq> None)
                    \<lparr>ApplicationId = callerApplicationId, UsesDeviceLockKey = 1,
                     StoragePluginName = storagePluginName,
                     EncryptionPluginName = encryptionPluginName,
                     AuthenticationPluginName = authenticationPluginName,
                     UnlockSemantic = unlockSemantic,
                     CustomLockTimeoutMs = customLockTimeoutMs,
                     AccessControlMode = accessControlMode\<rparr>
                    authenticationKey s1)"


subsection \<open>Standalone secrets: get and delete\<close>

text \<open>The timer map is keyed by the clear \<open>secretName\<close> here, as in the source.\<close>

definition getStandaloneSecretWithAuthenticationKey ::
  "'p environment \<Rightarrow> int \<Rightarrow> 64 word \<Rightarrow> qstring \<Rightarrow> int \<Rightarrow> qstring \<Rightarrow> qstring \<Rightarrow> qstring
     \<Rightarrow> int \<Rightarrow> int \<Rightarrow> qbytearray \<Rightarrow> 'p processor \<Rightarrow> result \<times> qbytearray \<times> 'p processor" where
  "getStandaloneSecretWithAuthenticationKey env callerPid requestId secretName
       userInteractionMode uiServiceAddress storagePluginName encryptionPluginName
       secretUnlockSemantic secretCustomLockTimeoutMs authenticationKey s =
     (let s0 =
            (if secretUnlockSemantic = CustomLockTimoutRelock
                \<and> map_of (m_standaloneSecretLockTimers s) secretName = None
             then let (timer, t) = startTimer secretCustomLockTimeoutMs s
                  in t\<lparr>m_standaloneSecretLockTimers :=
                         m_standaloneSecretLockTimers t @ [(secretName, timer)]\<rparr>
             else s);
          collectionName = ''standalone'';
          hashedSecretName = generateHashedSecretName env collectionName secretName
      in if storagePluginName = encryptionPluginName
         then callPluginOut (accessSecret env storagePluginName collectionName hashedSecretName
                               authenticationKey) s0
         else
           let (getResult, encrypted, s1) =
                 callPluginOut (storage_getSecret env storagePluginName collectionName
                                  hashedSecretName) s0
           in if code getResult = Succeeded
              then callPluginOut (decryptSecret env encryptionPluginName encrypted
                                    authenticationKey) s1
              else (getResult, [], s1))"

definition getStandaloneSecret ::
  "'p environment \<Rightarrow> int \<Rightarrow> 64 word \<Rightarrow> qstring \<Rightarrow> int \<Rightarrow> qstring \<Rightarrow> 'p processor
     \<Rightarrow> result \<times> qbytearray \<times> 'p processor" where
  "getStandaloneSecret env callerPid requestId secretName userInteractionMode uiServiceAddress s =
     (if secretName = [] then (resultErr InvalidSecretError, [], s)
      else
        let callerApplicationId = callerApplicationIdOf env callerPid;
            collectionName = ''standalone'';
            hashedSecretName = generateHashedSecretName env collectionName secretName;
            (sq, s1) = dbSelect s
        in if sq \<noteq> DbOk then (resultErr DatabaseQueryError, [], s1)
           else case Secrets s1 (collectionName, hashedSecretName) of
             None \<Rightarrow> (resultErr InvalidSecretError, [], s1)
           | Some r \<Rightarrow>
               let secretApplicationId = ApplicationId r;
                   secretUsesDeviceLockKey = (UsesDeviceLockKey r > 0);
                   secretStoragePluginName = StoragePluginName r;
                   secretEncryptionPluginName = EncryptionPluginName r;
                   secretAuthenticationPluginName = AuthenticationPluginName r;
                   secretUnlockSemantic = UnlockSemantic r;
                   secretCustomLockTimeoutMs = CustomLockTimeoutMs r;
                   secretAccessControlMode = AccessControlMode r
               in if secretStoragePluginName = secretEncryptionPluginName
                     \<and> secretStoragePluginName \<notin> m_encryptedStoragePlugins env
                    then (resultErr InvalidExtensionPluginError, [], s1)
                  else if secretStoragePluginName \<noteq> secretEncryptionPluginName
                          \<and> secretStoragePluginName \<notin> m_storagePlugins env
                    then (resultErr InvalidExtensionPluginError, [], s1)
                  else if secretStoragePluginName \<noteq> secretEncryptionPluginName
                          \<and> secretEncryptionPluginName \<notin> m_encryptionPlugins env
                    then (resultErr InvalidExtensionPluginError, [], s1)
                  else if secretAccessControlMode \<noteq> OwnerOnlyMode
                    then (resultErr OperationNotSupportedError, [], s1)
                  else if secretApplicationId \<noteq> callerApplicationId
                    then (resultErr PermissionsError, [], s1)
                  else if secretAuthenticationPluginName \<notin> m_authenticationPlugins env
                    then (resultErr NullPluginDereferenced, [], s1)
                  else if authenticationTypeOf env secretAuthenticationPluginName
                            = ApplicationSpecificAuthentication
                          \<and> (userInteractionMode \<noteq> InProcessUserInteractionMode
                               \<or> uiServiceAddress = [])
                    then (resultErr OperationRequiresInProcessUserInteraction, [], s1)
                  else if m_standaloneSecretAuthenticationKeys s1 hashedSecretName \<noteq> None
                    then getStandaloneSecretWithAuthenticationKey env callerPid requestId
                           secretName userInteractionMode uiServiceAddress
                           secretStoragePluginName secretEncryptionPluginName
                           secretUnlockSemantic secretCustomLockTimeoutMs
                           (valueOf (m_standaloneSecretAuthenticationKeys s1) hashedSecretName) s1
                  else if secretUsesDeviceLockKey
                    then (resultErr CollectionIsLockedError, [], s1)
                  else if userInteractionMode = PreventUserInteractionMode
                    then (resultErr OperationRequiresUserInteraction, [], s1)
                  else
                    let (authenticationResult, s2) =
                          callPlugin (beginAuthentication env secretAuthenticationPluginName
                            callerPid requestId callerApplicationId [] secretName
                            uiServiceAddress) s1
                    in if code authenticationResult = Failed then (authenticationResult, [], s2)
                       else (resultOf Pending, [],
                             parkRequest callerPid requestId GetStandaloneSecretRequest
                               [VString collectionName, VString secretName,
                                VInt userInteractionMode, VString uiServiceAddress,
                                VString secretStoragePluginName,
                                VString secretEncryptionPluginName,
                                VInt secretUnlockSemantic,
                                VInt secretCustomLockTimeoutMs] s2))"

text \<open>
  \<open>deleteStandaloneSecret\<close> ends in \<open>return Result(Succeeded)\<close> whatever \<open>pluginResult\<close> is,
  and removes the timer entry under the hashed name.
\<close>

definition deleteStandaloneSecret ::
  "'p environment \<Rightarrow> int \<Rightarrow> 64 word \<Rightarrow> qstring \<Rightarrow> int \<Rightarrow> 'p processor
     \<Rightarrow> result \<times> 'p processor" where
  "deleteStandaloneSecret env callerPid requestId secretName userInteractionMode s =
     (let callerApplicationId = callerApplicationIdOf env callerPid;
          collectionName = ''standalone'';
          hashedSecretName = generateHashedSecretName env collectionName secretName;
          (ssq, s1) = dbSelect s
      in if ssq \<noteq> DbOk then (resultErr DatabaseQueryError, s1)
         else case Secrets s1 (collectionName, hashedSecretName) of
           None \<Rightarrow> (resultOf Succeeded, s1)
         | Some r \<Rightarrow>
             let secretApplicationId = ApplicationId r;
                 secretUsesDeviceLockKey = (UsesDeviceLockKey r > 0);
                 secretStoragePluginName = StoragePluginName r;
                 secretEncryptionPluginName = EncryptionPluginName r;
                 secretAccessControlMode = AccessControlMode r
             in if secretAccessControlMode \<noteq> OwnerOnlyMode
                  then (resultErr OperationNotSupportedError, s1)
                else if secretApplicationId \<noteq> callerApplicationId
                  then (resultErr PermissionsError, s1)
                else if secretStoragePluginName = secretEncryptionPluginName
                        \<and> secretStoragePluginName \<notin> m_encryptedStoragePlugins env
                  then (resultErr InvalidExtensionPluginError, s1)
                else if secretStoragePluginName \<noteq> secretEncryptionPluginName
                        \<and> secretStoragePluginName \<notin> m_storagePlugins env
                  then (resultErr InvalidExtensionPluginError, s1)
                else if secretStoragePluginName \<noteq> secretEncryptionPluginName
                        \<and> secretEncryptionPluginName \<notin> m_encryptionPlugins env
                  then (resultErr InvalidExtensionPluginError, s1)
                else
                  let (returned, pluginResult, s3) =
                        (if secretStoragePluginName = secretEncryptionPluginName then
                           let (lockResult, locked, t1) =
                                 callPluginOut (isLocked env secretStoragePluginName
                                                  collectionName) s1
                           in if code lockResult = Failed then (True, lockResult, t1)
                              else
                                let (keyReturned, keyResult, t2) =
                                      (if locked \<and> secretUsesDeviceLockKey then
                                         let (e, u) = callPlugin (setEncryptionKey env
                                               secretStoragePluginName collectionName
                                               DeviceLockKey) t1
                                         in (code e = Failed, e, u)
                                       else (False, lockResult, t1))
                                in if keyReturned then (True, keyResult, t2)
                                   else
                                     let (e, t3) = callPlugin (encrypted_removeSecret env
                                           secretStoragePluginName collectionName
                                           hashedSecretName) t2;
                                         t4 = (if locked
                                               then snd (callPlugin (setEncryptionKey env
                                                      secretStoragePluginName collectionName []) t3)
                                               else t3)
                                     in (False, e, t4)
                         else
                           let (e, t1) = callPlugin (storage_removeSecret env
                                 secretStoragePluginName collectionName hashedSecretName) s1
                           in if code e = Succeeded
                              then (False, e,
                                    t1\<lparr>m_standaloneSecretAuthenticationKeys :=
                                         (m_standaloneSecretAuthenticationKeys t1)
                                           (hashedSecretName := None),
                                       m_standaloneSecretLockTimers :=
                                         filter (\<lambda>e. fst e \<noteq> hashedSecretName)
                                           (m_standaloneSecretLockTimers t1)\<rparr>)
                              else (False, e, t1))
                  in if returned then (pluginResult, s3)
                     else if code pluginResult = Succeeded then
                       (let (dq, s4) = dbTransaction
                              (deleteSecretRow (collectionName, hashedSecretName)) s3
                        in if dq \<noteq> DbOk then (resultErr (dbErrorOf dq), s4)
                           else (resultOf Succeeded, s4))
                     else (resultOf Succeeded, s3))"

subsection \<open>Timers\<close>

text \<open>
  The two slots, with \<open>sender()\<close> as the argument \<open>timer\<close>: the loop over the map stops at the
  first entry whose value is \<open>timer\<close>, drops the cache entry under that entry's key, and erases
  the entry. The fired single-shot timer is no longer active and is deleted later.
\<close>

fun findTimer :: "nat \<Rightarrow> (qstring \<times> nat) list \<Rightarrow> qstring option" where
  "findTimer timer [] = None"
| "findTimer timer (e # es) = (if snd e = timer then Some (fst e) else findTimer timer es)"

definition stopTimer :: "nat \<Rightarrow> qtimer list \<Rightarrow> qtimer list" where
  "stopTimer timer ts = (if timer < length ts then ts[timer := (ts ! timer)\<lparr>active := False\<rparr>] else ts)"

definition timeoutRelockCollection :: "nat \<Rightarrow> 'p processor \<Rightarrow> 'p processor" where
  "timeoutRelockCollection timer s =
     (let s1 = (case findTimer timer (m_collectionLockTimers s) of
                  None \<Rightarrow> s
                | Some k \<Rightarrow>
                    s\<lparr>m_collectionAuthenticationKeys := (m_collectionAuthenticationKeys s)(k := None),
                      m_collectionLockTimers := remove1 (k, timer) (m_collectionLockTimers s)\<rparr>)
      in s1\<lparr>timers := stopTimer timer (timers s1)\<rparr>)"

definition timeoutRelockSecret :: "nat \<Rightarrow> 'p processor \<Rightarrow> 'p processor" where
  "timeoutRelockSecret timer s =
     (let s1 = (case findTimer timer (m_standaloneSecretLockTimers s) of
                  None \<Rightarrow> s
                | Some k \<Rightarrow>
                    s\<lparr>m_standaloneSecretAuthenticationKeys :=
                        (m_standaloneSecretAuthenticationKeys s)(k := None),
                      m_standaloneSecretLockTimers :=
                        remove1 (k, timer) (m_standaloneSecretLockTimers s)\<rparr>)
      in s1\<lparr>timers := stopTimer timer (timers s1)\<rparr>)"


subsection \<open>Resuming a parked request\<close>

text \<open>
  \<open>QVariant::value<T>()\<close> for the four types the parked parameters have: the value itself
  for a variant of type \<open>T\<close>, Qt's conversion (a parameter of the model) otherwise.
\<close>

fun toQString :: "'p environment \<Rightarrow> variant \<Rightarrow> qstring" where
  "toQString env (VString x) = x"
| "toQString env v = variantToString env v"

fun toByteArray :: "'p environment \<Rightarrow> variant \<Rightarrow> qbytearray" where
  "toByteArray env (VBytes x) = x"
| "toByteArray env v = variantToByteArray env v"

fun toInt :: "'p environment \<Rightarrow> variant \<Rightarrow> int" where
  "toInt env (VInt x) = x"
| "toInt env v = variantToInt env v"

fun toBool :: "'p environment \<Rightarrow> variant \<Rightarrow> bool" where
  "toBool env (VBool x) = x"
| "toBool env v = variantToBool env v"

text \<open>
  The parameters are read with successive \<open>pr.parameters.takeFirst()\<close> calls written as the
  arguments of one call. When the arguments are evaluated in the order written, the argument
  at position \<open>i\<close> is the parked parameter at position \<open>i\<close>, of the type it is read with; when
  they are evaluated in the reverse order, the last argument takes the first parameter, so the
  argument at position \<open>i\<close> is the parameter at position \<open>i\<close> of the reversed list, and
  \<open>value<T>()\<close> converts. \<open>takenInOrder\<close> is the list whose position \<open>i\<close> the argument at
  position \<open>i\<close> receives.
\<close>

definition takenInOrder :: "'p environment \<Rightarrow> variant list \<Rightarrow> variant list" where
  "takenInOrder env ps = (if argumentsInWrittenOrder env then ps else rev ps)"

text \<open>
  The \<open>switch (pr.requestType)\<close> of \<open>authenticationCompleted\<close>, after the \<open>take\<close>. Each
  case reads the positions below its parameter count only.
\<close>

definition resumeRequest ::
  "'p environment \<Rightarrow> pendingRequest \<Rightarrow> qbytearray \<Rightarrow> 'p processor
     \<Rightarrow> result \<times> qbytearray \<times> 'p processor" where
  "resumeRequest env pr authenticationKey s =
     (let ps = takenInOrder env (parameters pr);
          wrongCount = (resultErr UnknownError, [], s);
          noSecret = (\<lambda>(r, t). (r, [], t))
      in case pr_requestType pr of
           CreateCustomLockCollectionRequest \<Rightarrow>
             if length ps \<noteq> 9 then wrongCount
             else noSecret (createCustomLockCollectionWithAuthenticationKey env
                    (pr_callerPid pr) (pr_requestId pr)
                    (toQString env (ps ! 0)) (toQString env (ps ! 1)) (toQString env (ps ! 2))
                    (toQString env (ps ! 3)) (toInt env (ps ! 4)) (toInt env (ps ! 5)) (toInt env (ps ! 6))
                    (toInt env (ps ! 7)) (toQString env (ps ! 8)) authenticationKey s)
         | SetCollectionSecretRequest \<Rightarrow>
             if length ps \<noteq> 13 then wrongCount
             else noSecret (setCollectionSecretWithAuthenticationKey env
                    (pr_callerPid pr) (pr_requestId pr)
                    (toQString env (ps ! 0)) (toQString env (ps ! 1)) (toByteArray env (ps ! 2))
                    (toInt env (ps ! 3)) (toQString env (ps ! 4)) (toBool env (ps ! 5))
                    (toQString env (ps ! 6)) (toQString env (ps ! 7)) (toQString env (ps ! 8))
                    (toQString env (ps ! 9)) (toInt env (ps ! 10)) (toInt env (ps ! 11)) (toInt env (ps ! 12))
                    authenticationKey s)
         | SetStandaloneCustomLockSecretRequest \<Rightarrow>
             if length ps \<noteq> 10 then wrongCount
             else noSecret (setStandaloneCustomLockSecretWithAuthenticationKey env
                    (pr_callerPid pr) (pr_requestId pr)
                    (toQString env (ps ! 0)) (toQString env (ps ! 1)) (toQString env (ps ! 2))
                    (toQString env (ps ! 3)) (toByteArray env (ps ! 4)) (toInt env (ps ! 5))
                    (toInt env (ps ! 6)) (toInt env (ps ! 7)) (toInt env (ps ! 8)) (toQString env (ps ! 9))
                    authenticationKey s)
         | GetCollectionSecretRequest \<Rightarrow>
             if length ps \<noteq> 8 then wrongCount
             else getCollectionSecretWithAuthenticationKey env
                    (pr_callerPid pr) (pr_requestId pr)
                    (toQString env (ps ! 0)) (toQString env (ps ! 1)) (toInt env (ps ! 2))
                    (toQString env (ps ! 3)) (toQString env (ps ! 4)) (toQString env (ps ! 5))
                    (toInt env (ps ! 6)) (toInt env (ps ! 7)) authenticationKey s
         | GetStandaloneSecretRequest \<Rightarrow>
             if length ps \<noteq> 7 then wrongCount
             else getStandaloneSecretWithAuthenticationKey env
                    (pr_callerPid pr) (pr_requestId pr)
                    (toQString env (ps ! 0)) (toInt env (ps ! 1)) (toQString env (ps ! 2))
                    (toQString env (ps ! 3)) (toQString env (ps ! 4)) (toInt env (ps ! 5)) (toInt env (ps ! 6))
                    authenticationKey s
         | DeleteCollectionSecretRequest \<Rightarrow>
             if length ps \<noteq> 4 then wrongCount
             else noSecret (deleteCollectionSecretWithAuthenticationKey env
                    (pr_callerPid pr) (pr_requestId pr)
                    (toQString env (ps ! 0)) (toQString env (ps ! 1)) (toInt env (ps ! 2))
                    (toQString env (ps ! 3)) authenticationKey s)
         | _ \<Rightarrow> (resultErr UnknownError, [], s))"

text \<open>
  \<open>authenticationCompleted\<close>: the processor's part, which returns \<open>returnResult\<close> and \<open>secret\<close>,
  and the whole slot, which hands them to the queue's \<open>requestFinished\<close>. The entry of
  \<open>m_pendingRequests\<close> is taken only inside \<open>if (result.code() == Succeeded)\<close>.
\<close>

definition completeAuthentication ::
  "'p environment \<Rightarrow> 64 word \<Rightarrow> result \<Rightarrow> qbytearray \<Rightarrow> 'p processor
     \<Rightarrow> result \<times> qbytearray \<times> 'p processor" where
  "completeAuthentication env requestId res authenticationKey s =
     (if code res = Succeeded then
        (case m_pendingRequests s requestId of
           Some pr \<Rightarrow>
             resumeRequest env pr authenticationKey
               (s\<lparr>m_pendingRequests := (m_pendingRequests s)(requestId := None)\<rparr>)
         | None \<Rightarrow> (resultErr UnknownError, [], s))
      else (res, [], s))"

definition authenticationCompleted ::
  "'p environment \<Rightarrow> int \<Rightarrow> 64 word \<Rightarrow> qstring \<Rightarrow> qstring \<Rightarrow> qstring \<Rightarrow> qstring \<Rightarrow> result
     \<Rightarrow> qbytearray \<Rightarrow> 'p processor \<Rightarrow> 'p processor" where
  "authenticationCompleted env callerPid requestId callerApplicationId collectionName secretName
       uiServiceAddress res authenticationKey s =
     (let (returnResult, secret, s1) = completeAuthentication env requestId res authenticationKey s;
          outParams = [VResult returnResult, VBytes secret]
      in s1\<lparr>m_requestQueue := requestFinished requestId outParams (m_requestQueue s1)\<rparr>)"


section \<open>A reference environment\<close>

text \<open>
  Modelled from the spec: the storage, encryption, encrypted storage and authentication plugins
  (only two plugin headers are among the sources, no plugin implementation), after the plugin
  contracts of the spec's section 6. It is used to run the processor on concrete inputs; the
  theorems about the processor hold for every environment. Every plugin call takes its outcome
  from the head of \<open>pluginFaults\<close> (\<open>True\<close>: the plugin does what it is asked) and fails
  without any effect when that is \<open>False\<close>. An encrypted storage collection is unlocked
  exactly when the key last given to \<open>setEncryptionKey\<close> is the key it was created with.
\<close>

record pluginWorld =
  pluginCollections :: "qstring \<times> qstring \<Rightarrow> bool"
  pluginSecrets :: "qstring \<times> qstring \<times> qstring \<rightharpoonup> qbytearray"
  collectionKeys :: "qstring \<times> qstring \<rightharpoonup> qbytearray"
  unlockedCollections :: "qstring \<times> qstring \<Rightarrow> bool"
  secretKeys :: "qstring \<times> qstring \<times> qstring \<rightharpoonup> qbytearray"
  pluginFaults :: "bool list"

definition pluginNext :: "pluginWorld \<Rightarrow> bool \<times> pluginWorld" where
  "pluginNext w = (case pluginFaults w of [] \<Rightarrow> (True, w) | b # bs \<Rightarrow> (b, w\<lparr>pluginFaults := bs\<rparr>))"

definition pluginDoes :: "(pluginWorld \<Rightarrow> result \<times> pluginWorld) \<Rightarrow> pluginWorld \<Rightarrow> result \<times> pluginWorld" where
  "pluginDoes f w = (let (works, w1) = pluginNext w
                     in if works then f w1 else (resultErr (PluginError 0), w1))"

definition pluginReads ::
  "(pluginWorld \<Rightarrow> result \<times> 'a) \<Rightarrow> 'a \<Rightarrow> pluginWorld \<Rightarrow> result \<times> 'a \<times> pluginWorld" where
  "pluginReads f dflt w = (let (works, w1) = pluginNext w
                           in if works then (fst (f w1), snd (f w1), w1)
                              else (resultErr (PluginError 0), dflt, w1))"

definition ref_createCollection :: "qstring \<Rightarrow> qstring \<Rightarrow> pluginWorld \<Rightarrow> result \<times> pluginWorld" where
  "ref_createCollection p c = pluginDoes (\<lambda>w.
     if pluginCollections w (p, c) then (resultErr CollectionAlreadyExistsError, w)
     else (resultOf Succeeded, w\<lparr>pluginCollections := (pluginCollections w)((p, c) := True)\<rparr>))"

definition ref_removeCollection :: "qstring \<Rightarrow> qstring \<Rightarrow> pluginWorld \<Rightarrow> result \<times> pluginWorld" where
  "ref_removeCollection p c = pluginDoes (\<lambda>w.
     (resultOf Succeeded,
      w\<lparr>pluginCollections := (pluginCollections w)((p, c) := False),
        pluginSecrets := (\<lambda>(p', c', h). if p' = p \<and> c' = c then None
                                        else pluginSecrets w (p', c', h)),
        collectionKeys := (collectionKeys w)((p, c) := None),
        unlockedCollections := (unlockedCollections w)((p, c) := False)\<rparr>))"

definition ref_setSecret ::
  "qstring \<Rightarrow> qstring \<Rightarrow> qstring \<Rightarrow> qbytearray \<Rightarrow> pluginWorld \<Rightarrow> result \<times> pluginWorld" where
  "ref_setSecret p c h v = pluginDoes (\<lambda>w.
     (resultOf Succeeded, w\<lparr>pluginSecrets := (pluginSecrets w)((p, c, h) \<mapsto> v)\<rparr>))"

definition ref_getSecret ::
  "qstring \<Rightarrow> qstring \<Rightarrow> qstring \<Rightarrow> pluginWorld \<Rightarrow> result \<times> qbytearray \<times> pluginWorld" where
  "ref_getSecret p c h = pluginReads (\<lambda>w.
     case pluginSecrets w (p, c, h) of
       None \<Rightarrow> (resultErr InvalidSecretError, [])
     | Some v \<Rightarrow> (resultOf Succeeded, v)) []"

definition ref_removeSecret ::
  "qstring \<Rightarrow> qstring \<Rightarrow> qstring \<Rightarrow> pluginWorld \<Rightarrow> result \<times> pluginWorld" where
  "ref_removeSecret p c h = pluginDoes (\<lambda>w.
     (resultOf Succeeded, w\<lparr>pluginSecrets := (pluginSecrets w)((p, c, h) := None)\<rparr>))"

definition ref_encryptSecret ::
  "qstring \<Rightarrow> qbytearray \<Rightarrow> qbytearray \<Rightarrow> pluginWorld \<Rightarrow> result \<times> qbytearray \<times> pluginWorld" where
  "ref_encryptSecret p plain key = pluginReads (\<lambda>w. (resultOf Succeeded, key @ plain)) []"

definition ref_decryptSecret ::
  "qstring \<Rightarrow> qbytearray \<Rightarrow> qbytearray \<Rightarrow> pluginWorld \<Rightarrow> result \<times> qbytearray \<times> pluginWorld" where
  "ref_decryptSecret p cipher key = pluginReads (\<lambda>w.
     if take (length key) cipher = key then (resultOf Succeeded, drop (length key) cipher)
     else (resultErr SecretsPluginDecryptionError, [])) []"

definition ref_encrypted_createCollection ::
  "qstring \<Rightarrow> qstring \<Rightarrow> qbytearray \<Rightarrow> pluginWorld \<Rightarrow> result \<times> pluginWorld" where
  "ref_encrypted_createCollection p c key = pluginDoes (\<lambda>w.
     if pluginCollections w (p, c) then (resultErr CollectionAlreadyExistsError, w)
     else (resultOf Succeeded,
           w\<lparr>pluginCollections := (pluginCollections w)((p, c) := True),
             collectionKeys := (collectionKeys w)((p, c) \<mapsto> key),
             unlockedCollections := (unlockedCollections w)((p, c) := True)\<rparr>))"

definition ref_isLocked :: "qstring \<Rightarrow> qstring \<Rightarrow> pluginWorld \<Rightarrow> result \<times> bool \<times> pluginWorld" where
  "ref_isLocked p c = pluginReads (\<lambda>w. (resultOf Succeeded, \<not> unlockedCollections w (p, c))) False"

definition ref_setEncryptionKey ::
  "qstring \<Rightarrow> qstring \<Rightarrow> qbytearray \<Rightarrow> pluginWorld \<Rightarrow> result \<times> pluginWorld" where
  "ref_setEncryptionKey p c key = pluginDoes (\<lambda>w.
     (resultOf Succeeded,
      w\<lparr>unlockedCollections := (unlockedCollections w)((p, c) := (collectionKeys w (p, c) = Some key))\<rparr>))"

definition ref_encrypted_setSecret ::
  "qstring \<Rightarrow> qstring \<Rightarrow> qstring \<Rightarrow> qbytearray \<Rightarrow> pluginWorld \<Rightarrow> result \<times> pluginWorld" where
  "ref_encrypted_setSecret p c h v = pluginDoes (\<lambda>w.
     if \<not> unlockedCollections w (p, c) then (resultErr CollectionIsLockedError, w)
     else (resultOf Succeeded, w\<lparr>pluginSecrets := (pluginSecrets w)((p, c, h) \<mapsto> v)\<rparr>))"

definition ref_encrypted_setSecretWithKey ::
  "qstring \<Rightarrow> qstring \<Rightarrow> qstring \<Rightarrow> qbytearray \<Rightarrow> qbytearray \<Rightarrow> pluginWorld \<Rightarrow> result \<times> pluginWorld" where
  "ref_encrypted_setSecretWithKey p c h v key = pluginDoes (\<lambda>w.
     (resultOf Succeeded,
      w\<lparr>pluginSecrets := (pluginSecrets w)((p, c, h) \<mapsto> v),
        secretKeys := (secretKeys w)((p, c, h) \<mapsto> key)\<rparr>))"

definition ref_encrypted_getSecret ::
  "qstring \<Rightarrow> qstring \<Rightarrow> qstring \<Rightarrow> pluginWorld \<Rightarrow> result \<times> qbytearray \<times> pluginWorld" where
  "ref_encrypted_getSecret p c h = pluginReads (\<lambda>w.
     if \<not> unlockedCollections w (p, c) then (resultErr CollectionIsLockedError, [])
     else case pluginSecrets w (p, c, h) of
            None \<Rightarrow> (resultErr InvalidSecretError, [])
          | Some v \<Rightarrow> (resultOf Succeeded, v)) []"

definition ref_accessSecret ::
  "qstring \<Rightarrow> qstring \<Rightarrow> qstring \<Rightarrow> qbytearray \<Rightarrow> pluginWorld \<Rightarrow> result \<times> qbytearray \<times> pluginWorld" where
  "ref_accessSecret p c h key = pluginReads (\<lambda>w.
     case pluginSecrets w (p, c, h) of
       None \<Rightarrow> (resultErr InvalidSecretError, [])
     | Some v \<Rightarrow> if secretKeys w (p, c, h) = Some key then (resultOf Succeeded, v)
                else (resultErr IncorrectAuthenticationKeyError, [])) []"

definition ref_encrypted_removeSecret ::
  "qstring \<Rightarrow> qstring \<Rightarrow> qstring \<Rightarrow> pluginWorld \<Rightarrow> result \<times> pluginWorld" where
  "ref_encrypted_removeSecret p c h = pluginDoes (\<lambda>w.
     if \<not> unlockedCollections w (p, c) then (resultErr CollectionIsLockedError, w)
     else (resultOf Succeeded,
           w\<lparr>pluginSecrets := (pluginSecrets w)((p, c, h) := None),
             secretKeys := (secretKeys w)((p, c, h) := None)\<rparr>))"

definition ref_beginAuthentication ::
  "qstring \<Rightarrow> int \<Rightarrow> 64 word \<Rightarrow> qstring \<Rightarrow> qstring \<Rightarrow> qstring \<Rightarrow> qstring \<Rightarrow> pluginWorld
     \<Rightarrow> result \<times> pluginWorld" where
  "ref_beginAuthentication p callerPid requestId callerApplicationId collectionName secretName
       uiServiceAddress = pluginDoes (\<lambda>w. (resultOf Succeeded, w))"

text \<open>
  Process 1 is the platform application, 100 and 200 are two applications. The stand-in for
  the hash is the identity and the stand-in for base64 appends \<open>=\<close>: no theorem about the
  processor depends on it. Arguments are taken in the order written, and the stand-ins for
  Qt's conversions convert between \<open>bool\<close> and \<open>int\<close> only. \<open>sqlcipher\<close> is registered in
  all three maps that \<open>createDeviceLockCollection\<close> tests when the storage and encryption
  names are equal.
\<close>

definition refEnv :: "pluginWorld environment" where
  "refEnv = \<lparr>
     m_storagePlugins = {''sqlite'', ''sqlcipher''},
     m_encryptionPlugins = {''openssl'', ''sqlcipher''},
     m_encryptedStoragePlugins = {''sqlcipher''},
     m_authenticationPlugins = {''inapp'', ''system''},
     authenticationTypeOf = (\<lambda>n. if n = ''inapp'' then ApplicationSpecificAuthentication
                                  else SystemDefaultAuthentication),
     DefaultAuthenticationPluginName = ''system'',
     applicationIsPlatformApplication = (\<lambda>pid. pid = 1),
     platformApplicationId = ''platform'',
     applicationId = (\<lambda>pid. if pid = 100 then ''appA'' else if pid = 200 then ''appB''
                             else ''other''),
     sha3_256 = (\<lambda>d. d),
     toBase64 = (\<lambda>d. d @ ''=''),
     storage_createCollection = ref_createCollection,
     storage_removeCollection = ref_removeCollection,
     storage_setSecret = ref_setSecret,
     storage_getSecret = ref_getSecret,
     storage_removeSecret = ref_removeSecret,
     encryptSecret = ref_encryptSecret,
     decryptSecret = ref_decryptSecret,
     encrypted_createCollection = ref_encrypted_createCollection,
     encrypted_removeCollection = ref_removeCollection,
     isLocked = ref_isLocked,
     setEncryptionKey = ref_setEncryptionKey,
     encrypted_setSecret = ref_encrypted_setSecret,
     encrypted_setSecretWithKey = ref_encrypted_setSecretWithKey,
     encrypted_getSecret = ref_encrypted_getSecret,
     accessSecret = ref_accessSecret,
     encrypted_removeSecret = ref_encrypted_removeSecret,
     beginAuthentication = ref_beginAuthentication,
     argumentsInWrittenOrder = True,
     variantToString = (\<lambda>v. []),
     variantToByteArray = (\<lambda>v. []),
     variantToInt = (\<lambda>v. case v of VBool b \<Rightarrow> (if b then 1 else 0) | _ \<Rightarrow> 0),
     variantToBool = (\<lambda>v. case v of VInt n \<Rightarrow> n \<noteq> 0 | _ \<Rightarrow> False)\<rparr>"

definition emptyWorld :: pluginWorld where
  "emptyWorld = \<lparr>pluginCollections = (\<lambda>k. False), pluginSecrets = Map.empty,
     collectionKeys = Map.empty, unlockedCollections = (\<lambda>k. False), secretKeys = Map.empty,
     pluginFaults = []\<rparr>"

text \<open>The state after the constructor: only the notional row \<open>standalone\<close>.\<close>

definition standaloneRow :: row where
  "standaloneRow = \<lparr>ApplicationId = ''standalone'', UsesDeviceLockKey = 0,
     StoragePluginName = ''standalone'', EncryptionPluginName = ''standalone'',
     AuthenticationPluginName = ''standalone'', UnlockSemantic = 0, CustomLockTimeoutMs = 0,
     AccessControlMode = 0\<rparr>"

definition initialProcessor :: "pluginWorld processor" where
  "initialProcessor = \<lparr>Collections = [''standalone'' \<mapsto> standaloneRow], Secrets = Map.empty,
     dbFaults = [], m_collectionAuthenticationKeys = Map.empty,
     m_standaloneSecretAuthenticationKeys = Map.empty, m_collectionLockTimers = [],
     m_standaloneSecretLockTimers = [], timers = [], m_pendingRequests = Map.empty,
     m_requestQueue = \<lparr>m_requests = [], static_requestId = 0\<rparr>, plugins = emptyWorld\<rparr>"

definition exampleRequest :: requestData where
  "exampleRequest = \<lparr>remotePid = 100, status = RequestPending, requestType = 8,
     inParams = [VString ''vault'', VString ''pwd'', VInt 0, VString []], outParams = [],
     rd_requestId = 0, isSecretsCryptoRequest = False, cryptoRequestId = 0\<rparr>"



section \<open>Notions used in the statements\<close>

text \<open>The plugin call by which \<open>deleteCollection\<close> removes a collection with row \<open>r\<close>.\<close>

definition collectionRemoval :: "'p environment \<Rightarrow> row \<Rightarrow> qstring \<Rightarrow> 'p \<Rightarrow> result \<times> 'p" where
  "collectionRemoval env r collectionName =
     (if StoragePluginName r = EncryptionPluginName r
      then encrypted_removeCollection env (StoragePluginName r) collectionName
      else storage_removeCollection env (StoragePluginName r) collectionName)"

text \<open>The plugin call by which both create functions create a collection under \<open>key\<close>.\<close>

definition collectionCreation ::
  "'p environment \<Rightarrow> qstring \<Rightarrow> qstring \<Rightarrow> qstring \<Rightarrow> qbytearray \<Rightarrow> 'p \<Rightarrow> result \<times> 'p" where
  "collectionCreation env storagePluginName encryptionPluginName collectionName key =
     (if storagePluginName = encryptionPluginName
      then encrypted_createCollection env storagePluginName collectionName key
      else storage_createCollection env storagePluginName collectionName)"

text \<open>
  Example states: \<open>vaultProcessor\<close> is the processor after application \<open>appA\<close> (process 100)
  has created the device-lock collection \<open>vault\<close> on plain storage.
\<close>

definition vaultRow :: row where
  "vaultRow = \<lparr>ApplicationId = ''appA'', UsesDeviceLockKey = 1,
     StoragePluginName = ''sqlite'', EncryptionPluginName = ''openssl'',
     AuthenticationPluginName = ''system'', UnlockSemantic = 0, CustomLockTimeoutMs = 0,
     AccessControlMode = 0\<rparr>"

definition vaultProcessor :: "pluginWorld processor" where
  "vaultProcessor = initialProcessor
     \<lparr>Collections := [''standalone'' \<mapsto> standaloneRow, ''vault'' \<mapsto> vaultRow],
      m_collectionAuthenticationKeys := [''vault'' \<mapsto> DeviceLockKey],
      plugins := emptyWorld\<lparr>pluginCollections := (\<lambda>k. False)((''sqlite'', ''vault'') := True)\<rparr>\<rparr>"

text \<open>
  Two states in which the next plugin call fails: in \<open>pluginFailsProcessor\<close> the database
  works, in \<open>compensationFailsProcessor\<close> the eighth database call (the \<open>beginTransaction\<close> of
  the compensating \<open>DELETE\<close> of a create) fails as well.
\<close>

definition pluginFailsProcessor :: "pluginWorld processor" where
  "pluginFailsProcessor = initialProcessor\<lparr>plugins := emptyWorld\<lparr>pluginFaults := [False]\<rparr>\<rparr>"

definition compensationFailsProcessor :: "pluginWorld processor" where
  "compensationFailsProcessor = initialProcessor
     \<lparr>dbFaults := [True, True, True, True, True, True, True, False],
      plugins := emptyWorld\<lparr>pluginFaults := [False]\<rparr>\<rparr>"

text \<open>
  \<open>parkedProcessor\<close>: request 7, a \<open>GetCollectionSecret\<close> of application \<open>appA\<close>, is parked and
  its queue record is in progress. \<open>standaloneSecretProcessor\<close>: application \<open>appA\<close> has stored
  the standalone custom-lock secret \<open>k\<close> with value \<open>V\<close> under the key \<open>key\<close>, with unlock
  semantic \<open>CustomLockTimoutRelock\<close> and a timeout of 50 ms.
\<close>

definition parkedProcessor :: "pluginWorld processor" where
  "parkedProcessor = initialProcessor
     \<lparr>m_pendingRequests := [7 \<mapsto> \<lparr>pr_callerPid = 100, pr_requestId = 7,
          pr_requestType = GetCollectionSecretRequest,
          parameters = [VString ''vault2'', VString ''k'', VInt 1, VString [],
                        VString ''sqlite'', VString ''openssl'', VInt 8, VInt 0]\<rparr>],
      m_requestQueue := \<lparr>m_requests = [exampleRequest\<lparr>rd_requestId := 7,
                                                         status := RequestInProgress\<rparr>],
                         static_requestId = 7\<rparr>\<rparr>"

definition standaloneSecretProcessor :: "pluginWorld processor" where
  "standaloneSecretProcessor =
     snd (setStandaloneCustomLockSecretWithAuthenticationKey refEnv 100 1 ''sqlite'' ''openssl''
            ''system'' ''k'' ''V'' CustomLockTimoutRelock 50 OwnerOnlyMode
            SystemUserInteractionMode [] ''key'' initialProcessor)"

text \<open>
  The refusal a caller other than the owner gets, by the row's access control mode, and the
  test on plugin names that the Get functions (on the names in the row) and the standalone Set
  functions (on the names in the request) make before they look at the owner.
\<close>

definition refusal :: "row \<Rightarrow> result" where
  "refusal r = (if AccessControlMode r = OwnerOnlyMode then resultErr PermissionsError
                else resultErr OperationNotSupportedError)"

definition pluginsRegistered :: "'p environment \<Rightarrow> qstring \<Rightarrow> qstring \<Rightarrow> bool" where
  "pluginsRegistered env storagePluginName encryptionPluginName =
     ((storagePluginName = encryptionPluginName
         \<longrightarrow> storagePluginName \<in> m_encryptedStoragePlugins env) \<and>
      (storagePluginName \<noteq> encryptionPluginName
         \<longrightarrow> storagePluginName \<in> m_storagePlugins env
             \<and> encryptionPluginName \<in> m_encryptionPlugins env))"


text \<open>
  The three plugin calls by which a key is tried on an encrypted storage collection, from the
  plugin state \<open>w\<close>: \<open>isLocked\<close>, \<open>setEncryptionKey(collection, key)\<close>, \<open>isLocked\<close> again.
  \<open>keyRejected\<close> is \<open>Some w'\<close> when all three succeed, the collection is reported locked
  before and still locked after the key has been set, and \<open>w'\<close> is the plugin state then.
\<close>

definition keyRejected ::
  "'p environment \<Rightarrow> qstring \<Rightarrow> qstring \<Rightarrow> qbytearray \<Rightarrow> 'p \<Rightarrow> 'p option" where
  "keyRejected env pluginName collectionName key w =
     (let (r0, locked, w0) = isLocked env pluginName collectionName w;
          (r1, w1) = setEncryptionKey env pluginName collectionName key w0;
          (r2, stillLocked, w2) = isLocked env pluginName collectionName w1
      in if code r0 = Succeeded \<and> locked \<and> code r1 = Succeeded \<and> code r2 = Succeeded
            \<and> stillLocked
         then Some w2 else None)"

text \<open>
  \<open>lockedVaultProcessor\<close>: application \<open>appA\<close> owns the custom-lock collection \<open>vault2\<close> on the
  encrypted storage plugin, created under the key \<open>hunter2\<close> and now locked.
\<close>

definition vault2Row :: row where
  "vault2Row = \<lparr>ApplicationId = ''appA'', UsesDeviceLockKey = 0,
     StoragePluginName = ''sqlcipher'', EncryptionPluginName = ''sqlcipher'',
     AuthenticationPluginName = ''system'', UnlockSemantic = 8, CustomLockTimeoutMs = 0,
     AccessControlMode = 0\<rparr>"

definition lockedVaultProcessor :: "pluginWorld processor" where
  "lockedVaultProcessor = initialProcessor
     \<lparr>Collections := [''standalone'' \<mapsto> standaloneRow, ''vault2'' \<mapsto> vault2Row],
      plugins := emptyWorld
        \<lparr>pluginCollections := (\<lambda>k. False)((''sqlcipher'', ''vault2'') := True),
         collectionKeys := [(''sqlcipher'', ''vault2'') \<mapsto> ''hunter2'']\<rparr>\<rparr>"

text \<open>
  What the functions on a secret in a collection test before they reach the plugins: the row is
  owner-only and owned by the caller, and (in the Get functions only) the authentication plugin
  of the row is registered and, when it is application-specific, the request allows in-process
  user interaction.
\<close>

definition ownedBy :: "'p environment \<Rightarrow> row \<Rightarrow> int \<Rightarrow> bool" where
  "ownedBy env r callerPid =
     (AccessControlMode r = OwnerOnlyMode \<and> ApplicationId r = callerApplicationIdOf env callerPid)"

definition interactionSuffices :: "'p environment \<Rightarrow> row \<Rightarrow> int \<Rightarrow> qstring \<Rightarrow> bool" where
  "interactionSuffices env r userInteractionMode uiServiceAddress =
     (AuthenticationPluginName r \<in> m_authenticationPlugins env \<and>
      \<not> (authenticationTypeOf env (AuthenticationPluginName r) = ApplicationSpecificAuthentication
           \<and> (userInteractionMode \<noteq> InProcessUserInteractionMode \<or> uiServiceAddress = [])))"

text \<open>
  The collection with row \<open>r\<close> is found unlocked by a Set, Get or Delete in state \<open>s\<close>: on
  encrypted storage, the \<open>isLocked\<close> of the function and the \<open>isLocked\<close> of its
  \<open>...WithAuthenticationKey\<close> continuation both succeed and report it unlocked; on plain
  storage, the key of the collection is cached. The value is the plugin state after these calls.
\<close>

definition foundUnlocked :: "'p environment \<Rightarrow> row \<Rightarrow> qstring \<Rightarrow> 'p processor \<Rightarrow> 'p option" where
  "foundUnlocked env r collectionName s =
     (if StoragePluginName r = EncryptionPluginName r then
        let (r1, locked1, w1) = isLocked env (StoragePluginName r) collectionName (plugins s);
            (r2, locked2, w2) = isLocked env (StoragePluginName r) collectionName w1
        in if code r1 = Succeeded \<and> \<not> locked1 \<and> code r2 = Succeeded \<and> \<not> locked2
           then Some w2 else None
      else if m_collectionAuthenticationKeys s collectionName \<noteq> None then Some (plugins s)
      else None)"

text \<open>
  The key the continuation is given for an unlocked collection: empty on encrypted storage,
  the cached key on plain storage.
\<close>

definition keyInUse :: "row \<Rightarrow> qstring \<Rightarrow> 'p processor \<Rightarrow> qbytearray" where
  "keyInUse r collectionName s =
     (if StoragePluginName r = EncryptionPluginName r then []
      else valueOf (m_collectionAuthenticationKeys s) collectionName)"

text \<open>
  The plugin calls by which the three continuations store, read and remove the secret with
  hashed name \<open>h\<close> in an unlocked collection with row \<open>r\<close>.
\<close>

definition secretStore ::
  "'p environment \<Rightarrow> row \<Rightarrow> qstring \<Rightarrow> qstring \<Rightarrow> qbytearray \<Rightarrow> qbytearray \<Rightarrow> 'p \<Rightarrow> result \<times> 'p" where
  "secretStore env r collectionName h secret key w =
     (if StoragePluginName r = EncryptionPluginName r
      then encrypted_setSecret env (StoragePluginName r) collectionName h secret w
      else let (encryptResult, encrypted, w1) = encryptSecret env (EncryptionPluginName r) secret key w
           in if code encryptResult = Succeeded
              then storage_setSecret env (StoragePluginName r) collectionName h encrypted w1
              else (encryptResult, w1))"

definition secretRetrieval ::
  "'p environment \<Rightarrow> row \<Rightarrow> qstring \<Rightarrow> qstring \<Rightarrow> qbytearray \<Rightarrow> 'p \<Rightarrow> result \<times> qbytearray \<times> 'p" where
  "secretRetrieval env r collectionName h key w =
     (if StoragePluginName r = EncryptionPluginName r
      then encrypted_getSecret env (StoragePluginName r) collectionName h w
      else let (getResult, encrypted, w1) = storage_getSecret env (StoragePluginName r) collectionName h w
           in if code getResult = Succeeded
              then decryptSecret env (EncryptionPluginName r) encrypted key w1
              else (getResult, [], w1))"




text \<open>
  \<open>inappVaultProcessor\<close>: application \<open>appA\<close> has created the custom-lock collection \<open>vault3\<close> on
  plain storage with the application-specific authentication plugin, under the key \<open>pwd\<close>,
  which is cached. \<open>secretStoredProcessor\<close>: it has then stored the secret \<open>k\<close> with value \<open>V\<close>;
  \<open>secretDeletedProcessor\<close>: it has then deleted it. \<open>vaultSecretProcessor\<close>: the secret \<open>k\<close>
  with value \<open>V\<close> stored in the device-lock collection \<open>vault\<close>. \<open>removalFailsProcessor\<close>: the
  standalone secret \<open>k\<close> is stored and the next plugin call fails.
\<close>

definition inappVaultProcessor :: "pluginWorld processor" where
  "inappVaultProcessor =
     snd (createCustomLockCollectionWithAuthenticationKey refEnv 100 1 ''vault3'' ''sqlite''
            ''openssl'' ''inapp'' CustomLockKeepUnlocked 0 OwnerOnlyMode
            InProcessUserInteractionMode ''ui'' ''pwd'' initialProcessor)"

definition secretStoredProcessor :: "pluginWorld processor" where
  "secretStoredProcessor =
     snd (setCollectionSecret refEnv 100 2 ''vault3'' ''k'' ''V'' PreventUserInteractionMode []
            inappVaultProcessor)"


definition vaultSecretProcessor :: "pluginWorld processor" where
  "vaultSecretProcessor =
     snd (setCollectionSecret refEnv 100 2 ''vault'' ''k'' ''V'' PreventUserInteractionMode []
            vaultProcessor)"

definition removalFailsProcessor :: "pluginWorld processor" where
  "removalFailsProcessor = standaloneSecretProcessor
     \<lparr>plugins := (plugins standaloneSecretProcessor)\<lparr>pluginFaults := [False]\<rparr>\<rparr>"


text \<open>
  \<open>commitFailsProcessor\<close>: the next plugin call fails, and the tenth database call (the
  \<open>commitTransaction\<close> of the compensating \<open>DELETE\<close> of a create) fails as well.
\<close>

definition commitFailsProcessor :: "pluginWorld processor" where
  "commitFailsProcessor = initialProcessor
     \<lparr>dbFaults := [True, True, True, True, True, True, True, True, True, False],
      plugins := emptyWorld\<lparr>pluginFaults := [False]\<rparr>\<rparr>"

text \<open>
  \<open>twoCollectionsProcessor\<close>: application \<open>appA\<close> has created the custom-lock collections
  \<open>ab\<close> (key \<open>k1\<close>) and \<open>a\<close> (key \<open>k2\<close>) on plain storage; both keys are cached.
  \<open>firstStoredProcessor\<close>: it has then stored \<open>V1\<close> as the secret \<open>c\<close> of \<open>ab\<close>;
  \<open>bothStoredProcessor\<close>: and then \<open>V2\<close> as the secret \<open>bc\<close> of \<open>a\<close>.
\<close>

definition twoCollectionsProcessor :: "pluginWorld processor" where
  "twoCollectionsProcessor =
     snd (createCustomLockCollectionWithAuthenticationKey refEnv 100 2 ''a'' ''sqlite''
            ''openssl'' ''system'' CustomLockKeepUnlocked 0 OwnerOnlyMode
            SystemUserInteractionMode [] ''k2''
       (snd (createCustomLockCollectionWithAuthenticationKey refEnv 100 1 ''ab'' ''sqlite''
            ''openssl'' ''system'' CustomLockKeepUnlocked 0 OwnerOnlyMode
            SystemUserInteractionMode [] ''k1'' initialProcessor)))"

definition firstStoredProcessor :: "pluginWorld processor" where
  "firstStoredProcessor =
     snd (setCollectionSecret refEnv 100 3 ''ab'' ''c'' ''V1'' PreventUserInteractionMode []
            twoCollectionsProcessor)"

definition bothStoredProcessor :: "pluginWorld processor" where
  "bothStoredProcessor =
     snd (setCollectionSecret refEnv 100 4 ''a'' ''bc'' ''V2'' PreventUserInteractionMode []
            firstStoredProcessor)"

section \<open>The request queue: ids\<close>

lemma idInUse_iff: "idInUse reqs n \<longleftrightarrow> n \<in> rd_requestId ` set reqs"
  by (induction reqs) auto



lemma findFreeId_found:
  "findFreeId reqs prevId n f = (m, True) \<Longrightarrow> n \<noteq> prevId
     \<Longrightarrow> unat (k - n) < unat (prevId - n) \<Longrightarrow> idInUse reqs k"
proof (induction reqs prevId n f arbitrary: k rule: findFreeId.induct)
  case (1 reqs prevId nextFreeId found)
  have u: "idInUse reqs nextFreeId"
    using "1.prems"(1,2) by (simp add: findFreeId.simps [of reqs prevId nextFreeId] split: if_splits)
  have rec: "findFreeId reqs prevId (nextFreeId + 1) True = (m, True)"
    using "1.prems"(1,2) u by (simp add: findFreeId.simps [of reqs prevId nextFreeId])
  show ?case
  proof (cases "k = nextFreeId")
    case True
    with u show ?thesis by simp
  next
    case False
    then have knz: "k - nextFreeId \<noteq> 0" by simp
    have pnz: "prevId - nextFreeId \<noteq> 0" using "1.prems"(2) by simp
    have k1: "unat (k - (nextFreeId + 1)) = unat (k - nextFreeId) - 1"
      using unat_minus_one [OF knz] by (simp add: diff_diff_eq)
    have p1: "unat (prevId - (nextFreeId + 1)) = unat (prevId - nextFreeId) - 1"
      using unat_minus_one [OF pnz] by (simp add: diff_diff_eq)
    have kpos: "0 < unat (k - nextFreeId)" using knz by (simp add: unat_gt_0)
    have lt: "unat (k - (nextFreeId + 1)) < unat (prevId - (nextFreeId + 1))"
      using k1 p1 kpos "1.prems"(3) by arith
    have ne: "nextFreeId + 1 \<noteq> prevId"
    proof
      assume "nextFreeId + 1 = prevId"
      then have "prevId - (nextFreeId + 1) = 0" by simp
      with lt show False by simp
    qed
    show ?thesis using "1.IH" [OF "1.prems"(2) u rec ne lt] .
  qed
qed

lemma findFreeId_found_all:
  assumes "findFreeId reqs prevId (prevId + 1) False = (m, True)" and "k \<noteq> prevId"
  shows "idInUse reqs k"
proof -
  have ne: "prevId + 1 \<noteq> prevId" by simp
  have "k - (prevId + 1) \<noteq> - 1"
  proof
    assume "k - (prevId + 1) = - 1"
    then have "k = prevId" by (simp add: algebra_simps)
    with assms(2) show False by simp
  qed
  then have "k - (prevId + 1) < - 1"
    using word_order.not_eq_extremum [of "k - (prevId + 1)"] by blast
  then have "unat (k - (prevId + 1)) < unat (- 1 :: 64 word)"
    by (simp add: word_less_nat_alt)
  moreover have "prevId - (prevId + 1) = (- 1 :: 64 word)" by simp
  ultimately have "unat (k - (prevId + 1)) < unat (prevId - (prevId + 1))" by simp
  from findFreeId_found [OF assms(1) ne this] show ?thesis .
qed

lemma few_requests_not_full:
  assumes "length reqs < 2 ^ 64 - 1"
  shows "\<exists>k. k \<noteq> prevId \<and> \<not> idInUse reqs k"
proof (rule ccontr)
  assume "\<not> ?thesis"
  then have "UNIV - {prevId} \<subseteq> rd_requestId ` set reqs"
    by (auto simp: idInUse_iff)
  then have "card (UNIV - {prevId} :: 64 word set) \<le> card (rd_requestId ` set reqs)"
    by (intro card_mono) auto
  also have "\<dots> \<le> length reqs"
    by (meson card_image_le card_length le_trans List.finite_set)
  finally have "card (UNIV - {prevId} :: 64 word set) \<le> length reqs" .
  moreover have "card (UNIV - {prevId} :: 64 word set) = 2 ^ 64 - 1"
    by (simp add: card_Diff_singleton card_word)
  ultimately show False using assms by simp
qed




text \<open>
  A \<open>QList\<close> holds fewer than \<open>2^31\<close> elements, so a queue of the source tracks fewer than
  \<open>2^64 - 1\<close> requests: for such a queue \<open>enqueueRequest\<close> never fails.
\<close>

lemma enqueueRequest_succeeds_below_bound:
  assumes "length (m_requests q) < 2 ^ 64 - 1"
  shows "fst (enqueueRequest request q) = resultOf Succeeded"
proof -
  let ?prev = "static_requestId q"
  obtain m found where ff: "findFreeId (m_requests q) ?prev (?prev + 1) False = (m, found)"
    by (cases "findFreeId (m_requests q) ?prev (?prev + 1) False")
  have "\<not> found"
  proof
    assume found
    then have "\<And>k. k \<noteq> ?prev \<Longrightarrow> idInUse (m_requests q) k"
      using findFreeId_found_all [of "m_requests q" ?prev m] ff by simp
    with few_requests_not_full [OF assms, of ?prev] show False by blast
  qed
  with ff show ?thesis by (simp add: enqueueRequest_def Let_def)
qed




section \<open>Hashed secret names and the rows they key\<close>

lemma Secrets_dbNext: "dbNext s = (b, t) \<Longrightarrow> Secrets t = Secrets s"
  by (auto simp add: dbNext_def split: list.splits)

lemma Secrets_dbSelect: "dbSelect s = (b, t) \<Longrightarrow> Secrets t = Secrets s"
  by (auto simp add: dbSelect_def Let_def split: prod.splits if_splits dest!: Secrets_dbNext)

lemma Secrets_dbTransaction_other:
  "dbTransaction f s = (b, t) \<Longrightarrow> (\<And>u. Secrets (f u) k = Secrets u k) \<Longrightarrow> Secrets t k = Secrets s k"
  by (auto simp add: dbTransaction_def Let_def split: prod.splits if_splits dest!: Secrets_dbNext)

lemma Secrets_callPlugin: "callPlugin f s = (r, t) \<Longrightarrow> Secrets t = Secrets s"
  by (auto simp add: callPlugin_def Let_def split: prod.splits)

lemma Secrets_callPluginOut: "callPluginOut f s = (r, x, t) \<Longrightarrow> Secrets t = Secrets s"
  by (auto simp add: callPluginOut_def Let_def split: prod.splits)

lemma Secrets_applyAuthenticationKey:
  "applyAuthenticationKey env p c k l s = (r, t) \<Longrightarrow> Secrets t = Secrets s"
  by (auto simp add: applyAuthenticationKey_def Let_def split: prod.splits if_splits
      dest!: Secrets_callPlugin Secrets_callPluginOut)

lemma Secrets_cacheCollectionKey [simp]: "Secrets (cacheCollectionKey c k s) = Secrets s"
  by (simp add: cacheCollectionKey_def)

lemma Secrets_write_other:
  "dbTransaction (writeSecretRow key r) s = (b, t) \<Longrightarrow> k \<noteq> key \<Longrightarrow> Secrets t k = Secrets s k"
  using Secrets_dbTransaction_other [of "writeSecretRow key r" s b t k]
  by (simp add: writeSecretRow_def)

lemma Secrets_delete_other:
  "dbTransaction (deleteSecretRow key) s = (b, t) \<Longrightarrow> k \<noteq> key \<Longrightarrow> Secrets t k = Secrets s k"
  using Secrets_dbTransaction_other [of "deleteSecretRow key" s b t k]
  by (simp add: deleteSecretRow_def)

lemma setCollectionSecretWithAuthenticationKey_frame:
  "setCollectionSecretWithAuthenticationKey env callerPid requestId collectionName
      secretName secret userInteractionMode uiServiceAddress usesDeviceLockKey applicationId'
      storagePluginName encryptionPluginName authenticationPluginName unlockSemantic
      customLockTimeoutMs accessControlMode authenticationKey s = (res, s') \<Longrightarrow>
   k \<noteq> (collectionName, generateHashedSecretName env collectionName secretName) \<Longrightarrow>
   Secrets s' k = Secrets s k"
  apply (simp add: setCollectionSecretWithAuthenticationKey_def Let_def
      split: prod.splits if_splits option.splits)
  apply (auto dest!: Secrets_dbSelect Secrets_callPlugin Secrets_callPluginOut Secrets_applyAuthenticationKey
     Secrets_write_other [where k = k] Secrets_delete_other [where k = k])
  done


lemma rehashTimes_refEnv [simp]: "rehashTimes refEnv n x = x"
  by (induction n arbitrary: x) (simp_all add: rehashHash_def refEnv_def)

lemma generateHashedSecretName_refEnv [simp]:
  "generateHashedSecretName refEnv c s = c @ s @ ''=''"
  by (simp add: generateHashedSecretName_def Let_def) (simp add: refEnv_def)

lemmas db_defs = dbNext_def dbSelect_def dbTransaction_def insertCollectionRow_def
  deleteCollectionRow_def writeSecretRow_def deleteSecretRow_def

lemmas call_defs = callPlugin_def callPluginOut_def parkRequest_def cacheCollectionKey_def
  valueOf_def startTimer_def

lemmas ref_defs = pluginNext_def pluginDoes_def pluginReads_def ref_createCollection_def
  ref_removeCollection_def ref_setSecret_def ref_getSecret_def ref_removeSecret_def
  ref_encryptSecret_def ref_decryptSecret_def ref_encrypted_createCollection_def
  ref_isLocked_def ref_setEncryptionKey_def ref_encrypted_setSecret_def
  ref_encrypted_setSecretWithKey_def ref_encrypted_getSecret_def ref_accessSecret_def
  ref_encrypted_removeSecret_def ref_beginAuthentication_def emptyWorld_def
  resultOf_def resultErr_def

lemma refEnv_simps [simp]:
  "m_storagePlugins refEnv = {''sqlite'', ''sqlcipher''}"
  "m_encryptionPlugins refEnv = {''openssl'', ''sqlcipher''}"
  "m_encryptedStoragePlugins refEnv = {''sqlcipher''}"
  "m_authenticationPlugins refEnv = {''inapp'', ''system''}"
  "authenticationTypeOf refEnv = (\<lambda>n. if n = ''inapp'' then ApplicationSpecificAuthentication
                                  else SystemDefaultAuthentication)"
  "DefaultAuthenticationPluginName refEnv = ''system''"
  "applicationIsPlatformApplication refEnv = (\<lambda>pid. pid = 1)"
  "platformApplicationId refEnv = ''platform''"
  "applicationId refEnv = (\<lambda>pid. if pid = 100 then ''appA'' else if pid = 200 then ''appB''
                             else ''other'')"
  "storage_createCollection refEnv = ref_createCollection"
  "storage_removeCollection refEnv = ref_removeCollection"
  "storage_setSecret refEnv = ref_setSecret"
  "storage_getSecret refEnv = ref_getSecret"
  "storage_removeSecret refEnv = ref_removeSecret"
  "encryptSecret refEnv = ref_encryptSecret"
  "decryptSecret refEnv = ref_decryptSecret"
  "encrypted_createCollection refEnv = ref_encrypted_createCollection"
  "encrypted_removeCollection refEnv = ref_removeCollection"
  "isLocked refEnv = ref_isLocked"
  "setEncryptionKey refEnv = ref_setEncryptionKey"
  "encrypted_setSecret refEnv = ref_encrypted_setSecret"
  "encrypted_setSecretWithKey refEnv = ref_encrypted_setSecretWithKey"
  "encrypted_getSecret refEnv = ref_encrypted_getSecret"
  "accessSecret refEnv = ref_accessSecret"
  "encrypted_removeSecret refEnv = ref_encrypted_removeSecret"
  "beginAuthentication refEnv = ref_beginAuthentication"
  by (simp_all add: refEnv_def)

lemma Secrets_parkRequest [simp]: "Secrets (parkRequest pid rid kind ps s) = Secrets s"
  by (simp add: parkRequest_def)

lemma setCollectionSecret_frame:
  "setCollectionSecret env callerPid requestId collectionName secretName secret
      userInteractionMode uiServiceAddress s = (res, s') \<Longrightarrow>
   k \<noteq> (collectionName, generateHashedSecretName env collectionName secretName) \<Longrightarrow>
   Secrets s' k = Secrets s k"
  apply (simp add: setCollectionSecret_def Let_def
      split: prod.splits if_splits option.splits)
  apply (auto dest!: Secrets_dbSelect Secrets_callPlugin Secrets_callPluginOut
     setCollectionSecretWithAuthenticationKey_frame [where k = k])
  done

lemma twoCollectionsProcessor_eq:
  "twoCollectionsProcessor = initialProcessor
     \<lparr>Collections := [''standalone'' \<mapsto> standaloneRow,
        ''ab'' \<mapsto> \<lparr>ApplicationId = ''appA'', UsesDeviceLockKey = 0,
           StoragePluginName = ''sqlite'', EncryptionPluginName = ''openssl'',
           AuthenticationPluginName = ''system'', UnlockSemantic = 8, CustomLockTimeoutMs = 0,
           AccessControlMode = 0\<rparr>,
        ''a'' \<mapsto> \<lparr>ApplicationId = ''appA'', UsesDeviceLockKey = 0,
           StoragePluginName = ''sqlite'', EncryptionPluginName = ''openssl'',
           AuthenticationPluginName = ''system'', UnlockSemantic = 8, CustomLockTimeoutMs = 0,
           AccessControlMode = 0\<rparr>],
      m_collectionAuthenticationKeys := [''ab'' \<mapsto> ''k1'', ''a'' \<mapsto> ''k2''],
      plugins := emptyWorld\<lparr>pluginCollections :=
          (\<lambda>k. False)((''sqlite'', ''ab'') := True, (''sqlite'', ''a'') := True)\<rparr>\<rparr>"
  by (simp add: twoCollectionsProcessor_def createCustomLockCollectionWithAuthenticationKey_def
      initialProcessor_def callerApplicationIdOf_def db_defs call_defs ref_defs Let_def)
lemma firstStoredProcessor_eq:
  "firstStoredProcessor = twoCollectionsProcessor
     \<lparr>Secrets := [(''ab'', ''abc='') \<mapsto> \<lparr>ApplicationId = ''appA'', UsesDeviceLockKey = 0,
           StoragePluginName = ''sqlite'', EncryptionPluginName = ''openssl'',
           AuthenticationPluginName = ''system'', UnlockSemantic = 8, CustomLockTimeoutMs = 0,
           AccessControlMode = 0\<rparr>],
      plugins := emptyWorld\<lparr>pluginCollections :=
          (\<lambda>k. False)((''sqlite'', ''ab'') := True, (''sqlite'', ''a'') := True),
         pluginSecrets := [(''sqlite'', ''ab'', ''abc='') \<mapsto> ''k1V1'']\<rparr>\<rparr>"
  by (simp add: firstStoredProcessor_def twoCollectionsProcessor_eq setCollectionSecret_def
      setCollectionSecretWithAuthenticationKey_def isStandalone_def toLower_def
      initialProcessor_def callerApplicationIdOf_def db_defs call_defs ref_defs Let_def)

lemma bothStoredProcessor_eq:
  "bothStoredProcessor = twoCollectionsProcessor
     \<lparr>Secrets := [(''ab'', ''abc='') \<mapsto> \<lparr>ApplicationId = ''appA'', UsesDeviceLockKey = 0,
           StoragePluginName = ''sqlite'', EncryptionPluginName = ''openssl'',
           AuthenticationPluginName = ''system'', UnlockSemantic = 8, CustomLockTimeoutMs = 0,
           AccessControlMode = 0\<rparr>,
         (''a'', ''abc='') \<mapsto> \<lparr>ApplicationId = ''appA'', UsesDeviceLockKey = 0,
           StoragePluginName = ''sqlite'', EncryptionPluginName = ''openssl'',
           AuthenticationPluginName = ''system'', UnlockSemantic = 8, CustomLockTimeoutMs = 0,
           AccessControlMode = 0\<rparr>],
      plugins := emptyWorld\<lparr>pluginCollections :=
          (\<lambda>k. False)((''sqlite'', ''ab'') := True, (''sqlite'', ''a'') := True),
         pluginSecrets := [(''sqlite'', ''ab'', ''abc='') \<mapsto> ''k1V1'',
                           (''sqlite'', ''a'', ''abc='') \<mapsto> ''k2V2'']\<rparr>\<rparr>"
  by (simp add: bothStoredProcessor_def firstStoredProcessor_eq twoCollectionsProcessor_eq
      setCollectionSecret_def setCollectionSecretWithAuthenticationKey_def isStandalone_def
      toLower_def initialProcessor_def callerApplicationIdOf_def db_defs call_defs ref_defs
      Let_def)

text \<open>
  C10 (as amended). The hashed secret name depends on the collection name and the secret name
  only through their concatenation, so two pairs with equal concatenations have the same hashed
  name. They do not address the same row: the row written by a Set is the one under the pair
  (collection name, hashed name), and a Set in one collection, through \<open>setCollectionSecret\<close>
  or through its continuation, leaves the row under the same hashed name in any other
  collection as it was.
\<close>

theorem hashed_name_of_concatenation:
  "collectionName @ secretName = collectionName' @ secretName' \<Longrightarrow>
     generateHashedSecretName env collectionName secretName
       = generateHashedSecretName env collectionName' secretName' \<and>
     (collectionName \<noteq> collectionName' \<longrightarrow>
        Secrets (snd (setCollectionSecretWithAuthenticationKey env callerPid requestId
           collectionName secretName secret userInteractionMode uiServiceAddress
           usesDeviceLockKey owner storagePluginName encryptionPluginName
           authenticationPluginName unlockSemantic customLockTimeoutMs accessControlMode
           authenticationKey s))
          (collectionName', generateHashedSecretName env collectionName' secretName')
        = Secrets s (collectionName', generateHashedSecretName env collectionName' secretName')) \<and>
     (collectionName \<noteq> collectionName' \<longrightarrow>
        Secrets (snd (setCollectionSecret env callerPid requestId collectionName secretName
           secret userInteractionMode uiServiceAddress s))
          (collectionName', generateHashedSecretName env collectionName' secretName')
        = Secrets s (collectionName', generateHashedSecretName env collectionName' secretName'))"
proof (intro conjI impI)
  assume cat: "collectionName @ secretName = collectionName' @ secretName'"
  then show "generateHashedSecretName env collectionName secretName
       = generateHashedSecretName env collectionName' secretName'"
    by (simp add: generateHashedSecretName_def)
next
  assume ne: "collectionName \<noteq> collectionName'"
  then have other: "(collectionName', generateHashedSecretName env collectionName' secretName')
            \<noteq> (collectionName, generateHashedSecretName env collectionName secretName)"
    by simp
  obtain res s' where run: "setCollectionSecretWithAuthenticationKey env callerPid requestId
           collectionName secretName secret userInteractionMode uiServiceAddress
           usesDeviceLockKey owner storagePluginName encryptionPluginName
           authenticationPluginName unlockSemantic customLockTimeoutMs accessControlMode
           authenticationKey s = (res, s')"
    by (cases "setCollectionSecretWithAuthenticationKey env callerPid requestId
           collectionName secretName secret userInteractionMode uiServiceAddress
           usesDeviceLockKey owner storagePluginName encryptionPluginName
           authenticationPluginName unlockSemantic customLockTimeoutMs accessControlMode
           authenticationKey s")
  from setCollectionSecretWithAuthenticationKey_frame [OF run other] run
  show "Secrets (snd (setCollectionSecretWithAuthenticationKey env callerPid requestId
           collectionName secretName secret userInteractionMode uiServiceAddress
           usesDeviceLockKey owner storagePluginName encryptionPluginName
           authenticationPluginName unlockSemantic customLockTimeoutMs accessControlMode
           authenticationKey s))
          (collectionName', generateHashedSecretName env collectionName' secretName')
        = Secrets s (collectionName', generateHashedSecretName env collectionName' secretName')"
    by simp
next
  assume ne: "collectionName \<noteq> collectionName'"
  then have other: "(collectionName', generateHashedSecretName env collectionName' secretName')
            \<noteq> (collectionName, generateHashedSecretName env collectionName secretName)"
    by simp
  obtain res s' where run: "setCollectionSecret env callerPid requestId collectionName
           secretName secret userInteractionMode uiServiceAddress s = (res, s')"
    by (cases "setCollectionSecret env callerPid requestId collectionName
           secretName secret userInteractionMode uiServiceAddress s")
  from setCollectionSecret_frame [OF run other] run
  show "Secrets (snd (setCollectionSecret env callerPid requestId collectionName secretName
           secret userInteractionMode uiServiceAddress s))
          (collectionName', generateHashedSecretName env collectionName' secretName')
        = Secrets s (collectionName', generateHashedSecretName env collectionName' secretName')"
    by simp
qed

theorem hashed_name_of_concatenation_witness:
  "''a'' @ ''bc'' = ''ab'' @ ''c'' \<and> ''a'' \<noteq> ''ab'' \<and>
   Collections firstStoredProcessor ''a'' \<noteq> None \<and>
   Collections firstStoredProcessor ''ab'' \<noteq> None \<and>
   generateHashedSecretName refEnv ''a'' ''bc'' = generateHashedSecretName refEnv ''ab'' ''c'' \<and>
   fst (setCollectionSecret refEnv 100 4 ''a'' ''bc'' ''V2'' PreventUserInteractionMode []
          firstStoredProcessor) = resultOf Succeeded \<and>
   Secrets (snd (setCollectionSecret refEnv 100 4 ''a'' ''bc'' ''V2''
                   PreventUserInteractionMode [] firstStoredProcessor))
     (''ab'', generateHashedSecretName refEnv ''ab'' ''c'')
   = Secrets firstStoredProcessor (''ab'', generateHashedSecretName refEnv ''ab'' ''c'') \<and>
   Secrets firstStoredProcessor (''ab'', generateHashedSecretName refEnv ''ab'' ''c'') \<noteq> None"
proof -
  have cat: "''a'' @ ''bc'' = ''ab'' @ ''c''" by simp
  have ne: "''a'' \<noteq> ''ab''" by simp
  note inst = hashed_name_of_concatenation [OF cat, where env = refEnv and callerPid = 100
      and requestId = 4 and secret = "''V2''" and userInteractionMode = 0
      and uiServiceAddress = "[]" and s = firstStoredProcessor]
  from inst have name: "generateHashedSecretName refEnv ''a'' ''bc''
      = generateHashedSecretName refEnv ''ab'' ''c''"
    by (rule conjunct1)
  from inst ne have frame: "Secrets (snd (setCollectionSecret refEnv 100 4 ''a'' ''bc'' ''V2''
                   PreventUserInteractionMode [] firstStoredProcessor))
     (''ab'', generateHashedSecretName refEnv ''ab'' ''c'')
   = Secrets firstStoredProcessor (''ab'', generateHashedSecretName refEnv ''ab'' ''c'')"
    by blast
  have rows: "Collections firstStoredProcessor ''a'' \<noteq> None"
    "Collections firstStoredProcessor ''ab'' \<noteq> None"
    "Secrets firstStoredProcessor (''ab'', generateHashedSecretName refEnv ''ab'' ''c'') \<noteq> None"
    by (simp_all add: firstStoredProcessor_eq twoCollectionsProcessor_eq)
  have ok: "fst (setCollectionSecret refEnv 100 4 ''a'' ''bc'' ''V2'' PreventUserInteractionMode []
          firstStoredProcessor) = resultOf Succeeded"
    by (simp add: firstStoredProcessor_eq twoCollectionsProcessor_eq setCollectionSecret_def
        setCollectionSecretWithAuthenticationKey_def isStandalone_def toLower_def
        initialProcessor_def callerApplicationIdOf_def db_defs call_defs ref_defs Let_def)
  from cat ne name frame rows ok show ?thesis by blast
qed

text \<open>
  The claim as stated fails: the collections \<open>ab\<close> and \<open>a\<close> both exist, and \<open>("ab", "c")\<close> and
  \<open>("a", "bc")\<close> have the same hashed name. After a successful Set of \<open>("ab", "c")\<close> the row
  of \<open>("ab", "c")\<close> exists while there is no row for \<open>("a", "bc")\<close>, and a Get of \<open>("a", "bc")\<close>
  returns \<open>InvalidSecretError\<close>. After a Set of \<open>("a", "bc")\<close> as well, the two Gets return the
  two values that were stored.
\<close>

theorem same_hashed_name_distinct_rows:
  "generateHashedSecretName refEnv ''ab'' ''c'' = generateHashedSecretName refEnv ''a'' ''bc'' \<and>
   Collections twoCollectionsProcessor ''ab'' \<noteq> None \<and>
   Collections twoCollectionsProcessor ''a'' \<noteq> None \<and>
   fst (setCollectionSecret refEnv 100 3 ''ab'' ''c'' ''V1'' PreventUserInteractionMode []
          twoCollectionsProcessor) = resultOf Succeeded \<and>
   Secrets firstStoredProcessor (''ab'', generateHashedSecretName refEnv ''ab'' ''c'') \<noteq> None \<and>
   Secrets firstStoredProcessor (''a'', generateHashedSecretName refEnv ''a'' ''bc'') = None \<and>
   fst (getCollectionSecret refEnv 100 4 ''a'' ''bc'' PreventUserInteractionMode []
          firstStoredProcessor) = resultErr InvalidSecretError \<and>
   fst (setCollectionSecret refEnv 100 4 ''a'' ''bc'' ''V2'' PreventUserInteractionMode []
          firstStoredProcessor) = resultOf Succeeded \<and>
   fst (snd (getCollectionSecret refEnv 100 5 ''ab'' ''c'' PreventUserInteractionMode []
          bothStoredProcessor)) = ''V1'' \<and>
   fst (snd (getCollectionSecret refEnv 100 6 ''a'' ''bc'' PreventUserInteractionMode []
          bothStoredProcessor)) = ''V2''"
proof -
  have "fst (setCollectionSecret refEnv 100 3 ''ab'' ''c'' ''V1'' PreventUserInteractionMode []
          twoCollectionsProcessor) = resultOf Succeeded"
    by (simp add: twoCollectionsProcessor_eq setCollectionSecret_def
        setCollectionSecretWithAuthenticationKey_def isStandalone_def toLower_def
        initialProcessor_def callerApplicationIdOf_def db_defs call_defs ref_defs Let_def)
  moreover
  have "Collections twoCollectionsProcessor ''ab'' \<noteq> None"
    "Collections twoCollectionsProcessor ''a'' \<noteq> None"
    "Secrets firstStoredProcessor (''ab'', generateHashedSecretName refEnv ''ab'' ''c'') \<noteq> None"
    "Secrets firstStoredProcessor (''a'', generateHashedSecretName refEnv ''a'' ''bc'') = None"
    by (simp_all add: firstStoredProcessor_eq twoCollectionsProcessor_eq)
  moreover
  have "fst (getCollectionSecret refEnv 100 4 ''a'' ''bc'' PreventUserInteractionMode []
          firstStoredProcessor) = resultErr InvalidSecretError"
    by (simp add: firstStoredProcessor_eq twoCollectionsProcessor_eq getCollectionSecret_def
        getCollectionSecretWithAuthenticationKey_def isStandalone_def toLower_def
        initialProcessor_def callerApplicationIdOf_def db_defs call_defs ref_defs Let_def)
  moreover
  have "fst (setCollectionSecret refEnv 100 4 ''a'' ''bc'' ''V2'' PreventUserInteractionMode []
          firstStoredProcessor) = resultOf Succeeded"
    by (simp add: firstStoredProcessor_eq twoCollectionsProcessor_eq setCollectionSecret_def
        setCollectionSecretWithAuthenticationKey_def isStandalone_def toLower_def
        initialProcessor_def callerApplicationIdOf_def db_defs call_defs ref_defs Let_def)
  moreover
  have "fst (snd (getCollectionSecret refEnv 100 5 ''ab'' ''c'' PreventUserInteractionMode []
          bothStoredProcessor)) = ''V1''"
    "fst (snd (getCollectionSecret refEnv 100 6 ''a'' ''bc'' PreventUserInteractionMode []
          bothStoredProcessor)) = ''V2''"
    by (simp_all add: bothStoredProcessor_eq twoCollectionsProcessor_eq getCollectionSecret_def
        getCollectionSecretWithAuthenticationKey_def isStandalone_def toLower_def
        initialProcessor_def callerApplicationIdOf_def db_defs call_defs ref_defs Let_def)
  moreover
  have "generateHashedSecretName refEnv ''ab'' ''c'' = generateHashedSecretName refEnv ''a'' ''bc''"
    by simp
  ultimately show ?thesis by blast
qed

section \<open>Collections: delete and create\<close>

lemma dbNext_ok: "dbFaults s = [] \<Longrightarrow> dbNext s = (True, s)"
  by (simp add: dbNext_def)

lemma dbSelect_ok: "dbFaults s = [] \<Longrightarrow> dbSelect s = (DbOk, s)"
  by (simp add: dbSelect_def dbNext_ok)

lemma dbTransaction_ok: "dbFaults s = [] \<Longrightarrow> dbTransaction f s = (DbOk, f s)"
  by (simp add: dbTransaction_def dbNext_ok)

lemma isStandalone_vault [simp]: "\<not> isStandalone ''vault''"
  by (simp add: isStandalone_def toLower_def)

lemma vaultProcessor_is_created:
  "createDeviceLockCollection refEnv 100 1 ''vault'' ''sqlite'' ''openssl'' 0 0 initialProcessor
     = (resultOf Succeeded, vaultProcessor)"
  by (simp add: createDeviceLockCollection_def initialProcessor_def vaultProcessor_def
      vaultRow_def callerApplicationIdOf_def db_defs call_defs ref_defs Let_def)

text \<open>
  C9. \<open>deleteCollection\<close> computes the caller's application id and never uses it: its result
  and the state it leaves do not depend on the caller. So for an existing collection that is
  not reserved and whose row names registered plugins, a caller that is not the owner deletes
  it: the plugin's \<open>removeCollection\<close> runs, the cache entries go, and the master row is
  deleted (provided no database call fails and the plugin does not fail).
\<close>

theorem deleteCollection_ignores_caller:
  "deleteCollection env callerPid requestId collectionName userInteractionMode s
     = deleteCollection env callerPid' requestId collectionName userInteractionMode s \<and>
   (\<not> isStandalone collectionName \<and> collectionName \<noteq> [] \<and> dbFaults s = [] \<and>
    Collections s collectionName = Some r \<and>
    ApplicationId r \<noteq> callerApplicationIdOf env callerPid \<and>
    (StoragePluginName r = EncryptionPluginName r
       \<longrightarrow> StoragePluginName r \<in> m_encryptedStoragePlugins env) \<and>
    StoragePluginName r \<noteq> [] \<and> StoragePluginName r \<in> m_storagePlugins env \<and>
    code (fst (collectionRemoval env r collectionName (plugins s))) \<noteq> Failed
    \<longrightarrow> deleteCollection env callerPid requestId collectionName userInteractionMode s
          = (resultOf Succeeded,
             s\<lparr>plugins := snd (collectionRemoval env r collectionName (plugins s)),
               m_collectionAuthenticationKeys :=
                 (m_collectionAuthenticationKeys s)(collectionName := None),
               m_collectionLockTimers :=
                 filter (\<lambda>e. fst e \<noteq> collectionName) (m_collectionLockTimers s),
               Collections := (Collections s)(collectionName := None)\<rparr>))"
proof
  show "deleteCollection env callerPid requestId collectionName userInteractionMode s
     = deleteCollection env callerPid' requestId collectionName userInteractionMode s"
    by (simp add: deleteCollection_def Let_def)
next
  show "\<not> isStandalone collectionName \<and> collectionName \<noteq> [] \<and> dbFaults s = [] \<and>
    Collections s collectionName = Some r \<and>
    ApplicationId r \<noteq> callerApplicationIdOf env callerPid \<and>
    (StoragePluginName r = EncryptionPluginName r
       \<longrightarrow> StoragePluginName r \<in> m_encryptedStoragePlugins env) \<and>
    StoragePluginName r \<noteq> [] \<and> StoragePluginName r \<in> m_storagePlugins env \<and>
    code (fst (collectionRemoval env r collectionName (plugins s))) \<noteq> Failed
    \<longrightarrow> deleteCollection env callerPid requestId collectionName userInteractionMode s
          = (resultOf Succeeded,
             s\<lparr>plugins := snd (collectionRemoval env r collectionName (plugins s)),
               m_collectionAuthenticationKeys :=
                 (m_collectionAuthenticationKeys s)(collectionName := None),
               m_collectionLockTimers :=
                 filter (\<lambda>e. fst e \<noteq> collectionName) (m_collectionLockTimers s),
               Collections := (Collections s)(collectionName := None)\<rparr>)"
    by (auto simp add: deleteCollection_def Let_def dbSelect_ok dbTransaction_ok callPlugin_def
        collectionRemoval_def deleteCollectionRow_def split_def)
qed

theorem deleteCollection_ignores_caller_witness:
  "deleteCollection refEnv 200 2 ''vault'' 0 vaultProcessor
     = deleteCollection refEnv 100 2 ''vault'' 0 vaultProcessor \<and>
   Collections vaultProcessor ''vault'' = Some vaultRow \<and>
   ApplicationId vaultRow \<noteq> callerApplicationIdOf refEnv 200 \<and>
   fst (deleteCollection refEnv 200 2 ''vault'' 0 vaultProcessor) = resultOf Succeeded \<and>
   Collections (snd (deleteCollection refEnv 200 2 ''vault'' 0 vaultProcessor)) ''vault'' = None \<and>
   \<not> pluginCollections (plugins (snd (deleteCollection refEnv 200 2 ''vault'' 0 vaultProcessor)))
       (''sqlite'', ''vault'')"
proof -
  note inst = deleteCollection_ignores_caller [where env = refEnv and callerPid = 200
      and callerPid' = 100 and requestId = 2 and collectionName = "''vault''"
      and userInteractionMode = 0 and s = vaultProcessor and r = vaultRow]
  have row: "Collections vaultProcessor ''vault'' = Some vaultRow"
    by (simp add: vaultProcessor_def)
  have other: "ApplicationId vaultRow \<noteq> callerApplicationIdOf refEnv 200"
    by (simp add: vaultRow_def callerApplicationIdOf_def)
  have pre: "\<not> isStandalone ''vault'' \<and> ''vault'' \<noteq> [] \<and> dbFaults vaultProcessor = [] \<and>
    Collections vaultProcessor ''vault'' = Some vaultRow \<and>
    ApplicationId vaultRow \<noteq> callerApplicationIdOf refEnv 200 \<and>
    (StoragePluginName vaultRow = EncryptionPluginName vaultRow
       \<longrightarrow> StoragePluginName vaultRow \<in> m_encryptedStoragePlugins refEnv) \<and>
    StoragePluginName vaultRow \<noteq> [] \<and> StoragePluginName vaultRow \<in> m_storagePlugins refEnv \<and>
    code (fst (collectionRemoval refEnv vaultRow ''vault'' (plugins vaultProcessor))) \<noteq> Failed"
    using row other
    by (simp add: vaultProcessor_def vaultRow_def initialProcessor_def collectionRemoval_def ref_defs)
  from inst have same: "deleteCollection refEnv 200 2 ''vault'' 0 vaultProcessor
     = deleteCollection refEnv 100 2 ''vault'' 0 vaultProcessor"
    by (rule conjunct1)
  from inst pre have run: "deleteCollection refEnv 200 2 ''vault'' 0 vaultProcessor
      = (resultOf Succeeded,
             vaultProcessor\<lparr>plugins := snd (collectionRemoval refEnv vaultRow ''vault'' (plugins vaultProcessor)),
               m_collectionAuthenticationKeys :=
                 (m_collectionAuthenticationKeys vaultProcessor)(''vault'' := None),
               m_collectionLockTimers :=
                 filter (\<lambda>e. fst e \<noteq> ''vault'') (m_collectionLockTimers vaultProcessor),
               Collections := (Collections vaultProcessor)(''vault'' := None)\<rparr>)"
    by blast
  have gone: "\<not> pluginCollections (snd (collectionRemoval refEnv vaultRow ''vault'' (plugins vaultProcessor)))
       (''sqlite'', ''vault'')"
    by (simp add: vaultProcessor_def vaultRow_def initialProcessor_def collectionRemoval_def ref_defs)
  have fst_run: "fst (deleteCollection refEnv 200 2 ''vault'' 0 vaultProcessor) = resultOf Succeeded"
    by (simp add: run)
  have row_gone: "Collections (snd (deleteCollection refEnv 200 2 ''vault'' 0 vaultProcessor)) ''vault'' = None"
    by (simp add: run)
  have plugin_gone: "\<not> pluginCollections
      (plugins (snd (deleteCollection refEnv 200 2 ''vault'' 0 vaultProcessor))) (''sqlite'', ''vault'')"
    using gone by (simp add: run)
  from same row other fst_run row_gone plugin_gone show ?thesis by blast
qed

lemma map_upd_then_delete: "m k = None \<Longrightarrow> (m(k \<mapsto> v))(k := None) = m"
  by (rule ext) simp

lemma dbSelect_works:
  "dbFaults s = True # True # fs \<Longrightarrow> dbSelect s = (DbOk, s\<lparr>dbFaults := fs\<rparr>)"
  by (simp add: dbSelect_def dbNext_def)

lemma dbTransaction_works:
  "dbFaults s = True # True # True # True # fs
     \<Longrightarrow> dbTransaction f s = (DbOk, f (s\<lparr>dbFaults := fs\<rparr>))"
  by (simp add: dbTransaction_def dbNext_def)

lemma dbTransaction_fails:
  assumes "dbFaults s = replicate k True @ False # rest" and "k < 4"
  shows "dbTransaction f s
           = ([DbPrepareFailed, DbBeginFailed, DbExecuteFailed, DbCommitFailed] ! k,
              s\<lparr>dbFaults := rest\<rparr>)"
proof -
  from assms(2) consider "k = 0" | "k = 1" | "k = 2" | "k = 3" by arith
  then show ?thesis
  proof cases
    case 1 with assms(1) show ?thesis by (simp add: dbTransaction_def dbNext_def)
  next
    case 2 with assms(1) show ?thesis by (simp add: dbTransaction_def dbNext_def)
  next
    case 3 with assms(1) show ?thesis
      by (simp add: dbTransaction_def dbNext_def numeral_2_eq_2)
  next
    case 4 with assms(1) show ?thesis
      by (simp add: dbTransaction_def dbNext_def numeral_3_eq_3)
  qed
qed

lemma compensation_error:
  "k < 4 \<Longrightarrow>
   dbErrorOf ([DbPrepareFailed, DbBeginFailed, DbExecuteFailed, DbCommitFailed] ! k)
     = (if even k then DatabaseQueryError else DatabaseTransactionError) \<and>
   [DbPrepareFailed, DbBeginFailed, DbExecuteFailed, DbCommitFailed] ! k \<noteq> DbOk"
proof -
  assume "k < 4"
  then consider "k = 0" | "k = 1" | "k = 2" | "k = 3" by arith
  then show ?thesis
    by cases simp_all
qed

lemma six_then: "replicate (6 + k) True @ False # rest
    = True # True # True # True # True # True # replicate k True @ False # rest"
  by (simp add: replicate_add numeral_eq_Suc)

lemma createDeviceLockCollection_compensation_fails:
  assumes names: "\<not> isStandalone collectionName"
    and reg: "storagePluginName = encryptionPluginName
                \<longrightarrow> storagePluginName \<in> m_encryptedStoragePlugins env"
      "storagePluginName \<in> m_storagePlugins env" "encryptionPluginName \<in> m_encryptionPlugins env"
    and absent: "Collections s collectionName = None"
    and db: "dbFaults s = replicate (6 + k) True @ False # rest" "k < 4"
    and fails: "code (fst (collectionCreation env storagePluginName encryptionPluginName
                 collectionName DeviceLockKey (plugins s))) = Failed"
  shows "(case createDeviceLockCollection env callerPid requestId collectionName
                 storagePluginName encryptionPluginName unlockSemantic accessControlMode s of
           (res, s') \<Rightarrow>
             res = resultErr (if even k then DatabaseQueryError else DatabaseTransactionError) \<and>
             Collections s' = (Collections s)(collectionName \<mapsto>
                \<lparr>ApplicationId = callerApplicationIdOf env callerPid, UsesDeviceLockKey = 1,
                 StoragePluginName = storagePluginName,
                 EncryptionPluginName = encryptionPluginName,
                 AuthenticationPluginName = DefaultAuthenticationPluginName env,
                 UnlockSemantic = unlockSemantic, CustomLockTimeoutMs = 0,
                 AccessControlMode = accessControlMode\<rparr>) \<and>
             plugins s' = snd (collectionCreation env storagePluginName encryptionPluginName
                                 collectionName DeviceLockKey (plugins s)) \<and>
             dbFaults s' = rest)"
proof -
  note err = compensation_error [OF db(2)]
  have comp: "dbFaults t = replicate k True @ False # rest \<Longrightarrow>
      dbTransaction (deleteCollectionRow collectionName) t
        = ([DbPrepareFailed, DbBeginFailed, DbExecuteFailed, DbCommitFailed] ! k,
           t\<lparr>dbFaults := rest\<rparr>)" for t :: "'a processor"
    using dbTransaction_fails [of t k rest] db(2) by simp
  show ?thesis
    using names reg absent fails db(1) err
    by (auto simp add: createDeviceLockCollection_def Let_def six_then dbSelect_works
        dbTransaction_works comp callPlugin_def collectionCreation_def insertCollectionRow_def
        split_def)
qed

lemma createCustomLockCollection_compensation_fails:
  assumes absent: "Collections s collectionName = None"
    and db: "dbFaults s = replicate (6 + k) True @ False # rest" "k < 4"
    and fails: "code (fst (collectionCreation env storagePluginName encryptionPluginName
                 collectionName authenticationKey (plugins s))) = Failed"
  shows "(case createCustomLockCollectionWithAuthenticationKey env callerPid requestId
                 collectionName storagePluginName encryptionPluginName authenticationPluginName
                 customUnlockSemantic customLockTimeoutMs accessControlMode userInteractionMode
                 uiServiceAddress authenticationKey s of
           (res, s') \<Rightarrow>
             res = resultErr (if even k then DatabaseQueryError else DatabaseTransactionError) \<and>
             Collections s' = (Collections s)(collectionName \<mapsto>
                \<lparr>ApplicationId = callerApplicationIdOf env callerPid, UsesDeviceLockKey = 0,
                 StoragePluginName = storagePluginName,
                 EncryptionPluginName = encryptionPluginName,
                 AuthenticationPluginName = authenticationPluginName,
                 UnlockSemantic = customUnlockSemantic,
                 CustomLockTimeoutMs = customLockTimeoutMs,
                 AccessControlMode = accessControlMode\<rparr>) \<and>
             plugins s' = snd (collectionCreation env storagePluginName encryptionPluginName
                                 collectionName authenticationKey (plugins s)) \<and>
             dbFaults s' = rest)"
proof -
  note err = compensation_error [OF db(2)]
  have comp: "dbFaults t = replicate k True @ False # rest \<Longrightarrow>
      dbTransaction (deleteCollectionRow collectionName) t
        = ([DbPrepareFailed, DbBeginFailed, DbExecuteFailed, DbCommitFailed] ! k,
           t\<lparr>dbFaults := rest\<rparr>)" for t :: "'a processor"
    using dbTransaction_fails [of t k rest] db(2) by simp
  show ?thesis
    using absent fails db(1) err
    by (auto simp add: createCustomLockCollectionWithAuthenticationKey_def Let_def six_then
        dbSelect_works dbTransaction_works comp callPlugin_def collectionCreation_def
        insertCollectionRow_def split_def)
qed
lemma create_compensated:
  "(\<not> isStandalone collectionName \<and>
    (storagePluginName = encryptionPluginName
       \<longrightarrow> storagePluginName \<in> m_encryptedStoragePlugins env) \<and>
    storagePluginName \<in> m_storagePlugins env \<and>
    encryptionPluginName \<in> m_encryptionPlugins env \<and>
    dbFaults s = [] \<and> Collections s collectionName = None \<and>
    code (fst (collectionCreation env storagePluginName encryptionPluginName collectionName
                 DeviceLockKey (plugins s))) = Failed
    \<longrightarrow> (case createDeviceLockCollection env callerPid requestId collectionName
                 storagePluginName encryptionPluginName unlockSemantic accessControlMode s of
           (res, s') \<Rightarrow>
             res = fst (collectionCreation env storagePluginName encryptionPluginName
                          collectionName DeviceLockKey (plugins s)) \<and>
             Collections s' = Collections s \<and> Collections s' collectionName = None \<and>
             plugins s' = snd (collectionCreation env storagePluginName encryptionPluginName
                                 collectionName DeviceLockKey (plugins s)))) \<and>
   (dbFaults s = [] \<and> Collections s collectionName = None \<and>
    code (fst (collectionCreation env storagePluginName encryptionPluginName collectionName
                 authenticationKey (plugins s))) = Failed
    \<longrightarrow> (case createCustomLockCollectionWithAuthenticationKey env callerPid requestId
                 collectionName storagePluginName encryptionPluginName authenticationPluginName
                 customUnlockSemantic customLockTimeoutMs accessControlMode userInteractionMode
                 uiServiceAddress authenticationKey s of
           (res, s') \<Rightarrow>
             res = fst (collectionCreation env storagePluginName encryptionPluginName
                          collectionName authenticationKey (plugins s)) \<and>
             Collections s' = Collections s \<and> Collections s' collectionName = None \<and>
             plugins s' = snd (collectionCreation env storagePluginName encryptionPluginName
                                 collectionName authenticationKey (plugins s))))"
  by (auto simp add: createDeviceLockCollection_def
        createCustomLockCollectionWithAuthenticationKey_def Let_def dbSelect_ok
        dbTransaction_ok callPlugin_def collectionCreation_def insertCollectionRow_def
        deleteCollectionRow_def split_def map_upd_then_delete)

text \<open>
  C1 (as amended). When the master row of a new collection has been inserted and committed and
  the plugin's create call fails, both create functions run the compensating transaction. If no
  database call fails, the call returns the plugin's result, the \<open>Collections\<close> table is what
  it was before the call (no row for the name), and the plugins are in the state the failed
  create call left them in. If one of the four calls of the compensating transaction fails
  (\<open>prepare\<close>, \<open>beginTransaction\<close>, \<open>execute\<close> or \<open>commitTransaction\<close>, the six database calls
  before it having worked), the call returns \<open>DatabaseQueryError\<close> (for \<open>prepare\<close> and
  \<open>execute\<close>) or \<open>DatabaseTransactionError\<close> (for the other two) and the inserted master row
  stays.
\<close>

theorem failed_create_is_compensated:
  "(\<not> isStandalone collectionName \<and>
    (storagePluginName = encryptionPluginName
       \<longrightarrow> storagePluginName \<in> m_encryptedStoragePlugins env) \<and>
    storagePluginName \<in> m_storagePlugins env \<and>
    encryptionPluginName \<in> m_encryptionPlugins env \<and>
    dbFaults s = [] \<and> Collections s collectionName = None \<and>
    code (fst (collectionCreation env storagePluginName encryptionPluginName collectionName
                 DeviceLockKey (plugins s))) = Failed
    \<longrightarrow> (case createDeviceLockCollection env callerPid requestId collectionName
                 storagePluginName encryptionPluginName unlockSemantic accessControlMode s of
           (res, s') \<Rightarrow>
             res = fst (collectionCreation env storagePluginName encryptionPluginName
                          collectionName DeviceLockKey (plugins s)) \<and>
             Collections s' = Collections s \<and> Collections s' collectionName = None \<and>
             plugins s' = snd (collectionCreation env storagePluginName encryptionPluginName
                                 collectionName DeviceLockKey (plugins s)))) \<and>
   (dbFaults s = [] \<and> Collections s collectionName = None \<and>
    code (fst (collectionCreation env storagePluginName encryptionPluginName collectionName
                 authenticationKey (plugins s))) = Failed
    \<longrightarrow> (case createCustomLockCollectionWithAuthenticationKey env callerPid requestId
                 collectionName storagePluginName encryptionPluginName authenticationPluginName
                 customUnlockSemantic customLockTimeoutMs accessControlMode userInteractionMode
                 uiServiceAddress authenticationKey s of
           (res, s') \<Rightarrow>
             res = fst (collectionCreation env storagePluginName encryptionPluginName
                          collectionName authenticationKey (plugins s)) \<and>
             Collections s' = Collections s \<and> Collections s' collectionName = None \<and>
             plugins s' = snd (collectionCreation env storagePluginName encryptionPluginName
                                 collectionName authenticationKey (plugins s)))) \<and>
   (\<not> isStandalone collectionName \<and>
    (storagePluginName = encryptionPluginName
       \<longrightarrow> storagePluginName \<in> m_encryptedStoragePlugins env) \<and>
    storagePluginName \<in> m_storagePlugins env \<and>
    encryptionPluginName \<in> m_encryptionPlugins env \<and>
    Collections s collectionName = None \<and>
    dbFaults s = replicate (6 + k) True @ False # rest \<and> k < 4 \<and>
    code (fst (collectionCreation env storagePluginName encryptionPluginName collectionName
                 DeviceLockKey (plugins s))) = Failed
    \<longrightarrow> (case createDeviceLockCollection env callerPid requestId collectionName
                 storagePluginName encryptionPluginName unlockSemantic accessControlMode s of
           (res, s') \<Rightarrow>
             res = resultErr (if even k then DatabaseQueryError else DatabaseTransactionError) \<and>
             Collections s' = (Collections s)(collectionName \<mapsto>
                \<lparr>ApplicationId = callerApplicationIdOf env callerPid, UsesDeviceLockKey = 1,
                 StoragePluginName = storagePluginName,
                 EncryptionPluginName = encryptionPluginName,
                 AuthenticationPluginName = DefaultAuthenticationPluginName env,
                 UnlockSemantic = unlockSemantic, CustomLockTimeoutMs = 0,
                 AccessControlMode = accessControlMode\<rparr>) \<and>
             plugins s' = snd (collectionCreation env storagePluginName encryptionPluginName
                                 collectionName DeviceLockKey (plugins s)) \<and>
             dbFaults s' = rest)) \<and>
   (Collections s collectionName = None \<and>
    dbFaults s = replicate (6 + k) True @ False # rest \<and> k < 4 \<and>
    code (fst (collectionCreation env storagePluginName encryptionPluginName collectionName
                 authenticationKey (plugins s))) = Failed
    \<longrightarrow> (case createCustomLockCollectionWithAuthenticationKey env callerPid requestId
                 collectionName storagePluginName encryptionPluginName authenticationPluginName
                 customUnlockSemantic customLockTimeoutMs accessControlMode userInteractionMode
                 uiServiceAddress authenticationKey s of
           (res, s') \<Rightarrow>
             res = resultErr (if even k then DatabaseQueryError else DatabaseTransactionError) \<and>
             Collections s' = (Collections s)(collectionName \<mapsto>
                \<lparr>ApplicationId = callerApplicationIdOf env callerPid, UsesDeviceLockKey = 0,
                 StoragePluginName = storagePluginName,
                 EncryptionPluginName = encryptionPluginName,
                 AuthenticationPluginName = authenticationPluginName,
                 UnlockSemantic = customUnlockSemantic,
                 CustomLockTimeoutMs = customLockTimeoutMs,
                 AccessControlMode = accessControlMode\<rparr>) \<and>
             plugins s' = snd (collectionCreation env storagePluginName encryptionPluginName
                                 collectionName authenticationKey (plugins s)) \<and>
             dbFaults s' = rest))"
  apply (intro conjI)
     apply (rule create_compensated [THEN conjunct1])
    apply (rule create_compensated [THEN conjunct2])
   apply (intro impI, elim conjE, rule createDeviceLockCollection_compensation_fails; assumption)
  apply (intro impI, elim conjE, rule createCustomLockCollection_compensation_fails; assumption)
  done

theorem failed_create_is_compensated_witness:
  "dbFaults pluginFailsProcessor = [] \<and> Collections pluginFailsProcessor ''vault'' = None \<and>
   code (fst (collectionCreation refEnv ''sqlite'' ''openssl'' ''vault'' DeviceLockKey
                (plugins pluginFailsProcessor))) = Failed \<and>
   code (fst (createDeviceLockCollection refEnv 100 1 ''vault'' ''sqlite'' ''openssl'' 0 0
                pluginFailsProcessor)) = Failed \<and>
   Collections (snd (createDeviceLockCollection refEnv 100 1 ''vault'' ''sqlite'' ''openssl'' 0 0
                pluginFailsProcessor)) ''vault'' = None \<and>
   \<not> pluginCollections (plugins (snd (createDeviceLockCollection refEnv 100 1 ''vault''
                ''sqlite'' ''openssl'' 0 0 pluginFailsProcessor))) (''sqlite'', ''vault'') \<and>
   dbFaults commitFailsProcessor = replicate (6 + 3) True @ [False] \<and>
   Collections commitFailsProcessor ''vault2'' = None \<and>
   code (fst (collectionCreation refEnv ''sqlcipher'' ''sqlcipher'' ''vault2'' ''hunter2''
                (plugins commitFailsProcessor))) = Failed \<and>
   fst (createCustomLockCollectionWithAuthenticationKey refEnv 100 1 ''vault2'' ''sqlcipher''
          ''sqlcipher'' ''system'' CustomLockKeepUnlocked 0 OwnerOnlyMode
          SystemUserInteractionMode [] ''hunter2'' commitFailsProcessor)
     = resultErr DatabaseTransactionError \<and>
   Collections (snd (createCustomLockCollectionWithAuthenticationKey refEnv 100 1 ''vault2''
          ''sqlcipher'' ''sqlcipher'' ''system'' CustomLockKeepUnlocked 0 OwnerOnlyMode
          SystemUserInteractionMode [] ''hunter2'' commitFailsProcessor)) ''vault2''
     = Some vault2Row"
proof -
  note inst = failed_create_is_compensated [where env = refEnv and s = pluginFailsProcessor
      and collectionName = "''vault''" and storagePluginName = "''sqlite''"
      and encryptionPluginName = "''openssl''" and callerPid = 100 and requestId = 1
      and unlockSemantic = 0 and accessControlMode = 0, THEN conjunct1]
  have db: "dbFaults pluginFailsProcessor = []"
    by (simp add: pluginFailsProcessor_def initialProcessor_def)
  have absent: "Collections pluginFailsProcessor ''vault'' = None"
    by (simp add: pluginFailsProcessor_def initialProcessor_def)
  have creation: "collectionCreation refEnv ''sqlite'' ''openssl'' ''vault'' DeviceLockKey
        (plugins pluginFailsProcessor) = (resultErr (PluginError 0), emptyWorld\<lparr>pluginFaults := []\<rparr>)"
    by (simp add: pluginFailsProcessor_def initialProcessor_def collectionCreation_def
        pluginNext_def pluginDoes_def ref_createCollection_def)
  have fails: "code (fst (collectionCreation refEnv ''sqlite'' ''openssl'' ''vault'' DeviceLockKey
        (plugins pluginFailsProcessor))) = Failed"
    by (simp add: creation resultErr_def)
  obtain res s' where run: "createDeviceLockCollection refEnv 100 1 ''vault'' ''sqlite''
      ''openssl'' 0 0 pluginFailsProcessor = (res, s')"
    by (cases "createDeviceLockCollection refEnv 100 1 ''vault'' ''sqlite''
      ''openssl'' 0 0 pluginFailsProcessor")
  from inst db absent fails run
  have post: "res = resultErr (PluginError 0) \<and> Collections s' ''vault'' = None \<and>
      plugins s' = emptyWorld\<lparr>pluginFaults := []\<rparr>"
    by (simp add: creation)
  then have first: "code res = Failed \<and> Collections s' ''vault'' = None \<and>
      \<not> pluginCollections (plugins s') (''sqlite'', ''vault'')"
    by (simp add: resultErr_def emptyWorld_def)
  have db2: "dbFaults commitFailsProcessor = replicate (6 + 3) True @ False # []"
    by (simp add: commitFailsProcessor_def numeral_eq_Suc)
  have absent2: "Collections commitFailsProcessor ''vault2'' = None"
    by (simp add: commitFailsProcessor_def initialProcessor_def)
  have fails2: "code (fst (collectionCreation refEnv ''sqlcipher'' ''sqlcipher'' ''vault2''
        ''hunter2'' (plugins commitFailsProcessor))) = Failed"
    by (simp add: commitFailsProcessor_def initialProcessor_def collectionCreation_def
        pluginNext_def pluginDoes_def ref_encrypted_createCollection_def resultErr_def)
  have pre2: "Collections commitFailsProcessor ''vault2'' = None \<and>
      dbFaults commitFailsProcessor = replicate (6 + 3) True @ False # [] \<and> (3::nat) < 4 \<and>
      code (fst (collectionCreation refEnv ''sqlcipher'' ''sqlcipher'' ''vault2''
        ''hunter2'' (plugins commitFailsProcessor))) = Failed"
    using db2 absent2 fails2 by simp
  note inst2 = failed_create_is_compensated [where env = refEnv and s = commitFailsProcessor
      and collectionName = "''vault2''" and storagePluginName = "''sqlcipher''"
      and encryptionPluginName = "''sqlcipher''" and authenticationKey = "''hunter2''"
      and k = 3 and rest = "[]" and callerPid = 100 and requestId = 1
      and authenticationPluginName = "''system''" and customUnlockSemantic = 8
      and customLockTimeoutMs = 0 and accessControlMode = 0 and userInteractionMode = 1
      and uiServiceAddress = "[]",
      THEN conjunct2, THEN conjunct2, THEN conjunct2, rule_format, OF pre2]
  obtain res2 s2 where run2: "createCustomLockCollectionWithAuthenticationKey refEnv 100 1
          ''vault2'' ''sqlcipher'' ''sqlcipher'' ''system'' CustomLockKeepUnlocked 0
          OwnerOnlyMode SystemUserInteractionMode [] ''hunter2'' commitFailsProcessor
        = (res2, s2)"
    by (cases "createCustomLockCollectionWithAuthenticationKey refEnv 100 1
          ''vault2'' ''sqlcipher'' ''sqlcipher'' ''system'' CustomLockKeepUnlocked 0
          OwnerOnlyMode SystemUserInteractionMode [] ''hunter2'' commitFailsProcessor")
  from inst2 run2 absent2
  have second: "res2 = resultErr DatabaseTransactionError \<and>
      Collections s2 ''vault2'' = Some vault2Row"
    by (simp add: vault2Row_def callerApplicationIdOf_def)
  from db absent fails run first db2 absent2 fails2 run2 second show ?thesis by simp
qed

text \<open>
  The claim as stated fails: when the plugin's create call fails and then the
  \<open>beginTransaction\<close> of the compensating transaction fails, the call returns
  \<open>DatabaseTransactionError\<close> and the master row stays.
\<close>

theorem failed_compensation_leaves_row:
  "fst (createDeviceLockCollection refEnv 100 1 ''vault'' ''sqlite'' ''openssl'' 0 0
          compensationFailsProcessor) = resultErr DatabaseTransactionError \<and>
   Collections (snd (createDeviceLockCollection refEnv 100 1 ''vault'' ''sqlite'' ''openssl'' 0 0
          compensationFailsProcessor)) ''vault'' \<noteq> None"
  by (simp add: createDeviceLockCollection_def compensationFailsProcessor_def
      initialProcessor_def callerApplicationIdOf_def db_defs call_defs ref_defs Let_def)

section \<open>Completion of an authentication\<close>

lemma authenticationCompleted_not_succeeded:
  "code res \<noteq> Succeeded \<Longrightarrow>
   authenticationCompleted env callerPid requestId callerApplicationId collectionName secretName
       uiServiceAddress res authenticationKey s
     = s\<lparr>m_requestQueue := requestFinished requestId [VResult res, VBytes []] (m_requestQueue s)\<rparr>"
  by (simp add: authenticationCompleted_def completeAuthentication_def)

text \<open>
  C6. A failed authentication finishes the parked request once, with the failure result and an
  empty payload, but the entry of the request stays in \<open>m_pendingRequests\<close>: the \<open>take\<close> is
  inside the branch for a successful result. Here request 7 is parked and its authentication
  fails.
\<close>

theorem failed_authentication_keeps_parked_request:
  "m_pendingRequests parkedProcessor 7 \<noteq> None \<and>
   m_pendingRequests (authenticationCompleted refEnv 100 7 ''appA'' ''vault2'' ''k'' []
        (resultErr (PluginError 1)) [] parkedProcessor) 7
     = m_pendingRequests parkedProcessor 7 \<and>
   m_requests (m_requestQueue (authenticationCompleted refEnv 100 7 ''appA'' ''vault2'' ''k'' []
        (resultErr (PluginError 1)) [] parkedProcessor))
     = [exampleRequest\<lparr>rd_requestId := 7, status := RequestFinished,
                       outParams := [VResult (resultErr (PluginError 1)), VBytes []]\<rparr>]"
  by (simp add: authenticationCompleted_def completeAuthentication_def parkedProcessor_def
      initialProcessor_def requestFinished_def resultErr_def exampleRequest_def)

section \<open>Timed relock\<close>

lemma standaloneSecretProcessor_eq:
  "standaloneSecretProcessor = initialProcessor
     \<lparr>Secrets := [(''standalone'', ''standalonek='') \<mapsto>
          \<lparr>ApplicationId = ''appA'', UsesDeviceLockKey = 1, StoragePluginName = ''sqlite'',
           EncryptionPluginName = ''openssl'', AuthenticationPluginName = ''system'',
           UnlockSemantic = 10, CustomLockTimeoutMs = 50, AccessControlMode = 0\<rparr>],
      m_standaloneSecretAuthenticationKeys := [''standalonek='' \<mapsto> ''key''],
      plugins := emptyWorld\<lparr>pluginSecrets :=
          [(''sqlite'', ''standalone'', ''standalonek='') \<mapsto> ''keyV'']\<rparr>\<rparr>"
  by (simp add: standaloneSecretProcessor_def setStandaloneCustomLockSecretWithAuthenticationKey_def
      storeStandaloneSecret_def standaloneRowRefusal_def initialProcessor_def
      callerApplicationIdOf_def db_defs call_defs ref_defs Let_def)

lemma timeoutRelockCollection_drops_key:
  "findTimer timer (m_collectionLockTimers s) = Some collectionName \<Longrightarrow>
   m_collectionAuthenticationKeys (timeoutRelockCollection timer s) collectionName = None"
  by (simp add: timeoutRelockCollection_def)

text \<open>
  C5. For a standalone secret the timer is stored under the clear secret name while the key is
  cached under the hashed secret name, and \<open>timeoutRelockSecret\<close> removes the cache entry under
  the key of the timer entry. So when the timer of the standalone secret \<open>k\<close> fires, the cached
  key stays, and a later Get still reads the secret with it.
\<close>

theorem standalone_timeout_keeps_key:
  "fst (getStandaloneSecret refEnv 100 2 ''k'' SystemUserInteractionMode []
          standaloneSecretProcessor) = resultOf Succeeded \<and>
   m_standaloneSecretLockTimers (snd (snd (getStandaloneSecret refEnv 100 2 ''k''
          SystemUserInteractionMode [] standaloneSecretProcessor))) = [(''k'', 0)] \<and>
   timers (snd (snd (getStandaloneSecret refEnv 100 2 ''k''
          SystemUserInteractionMode [] standaloneSecretProcessor)))
     = [\<lparr>interval = 50, singleShot = True, active = True\<rparr>] \<and>
   m_standaloneSecretAuthenticationKeys
     (timeoutRelockSecret 0 (snd (snd (getStandaloneSecret refEnv 100 2 ''k''
          SystemUserInteractionMode [] standaloneSecretProcessor))))
     (generateHashedSecretName refEnv ''standalone'' ''k'') = Some ''key'' \<and>
   m_standaloneSecretLockTimers
     (timeoutRelockSecret 0 (snd (snd (getStandaloneSecret refEnv 100 2 ''k''
          SystemUserInteractionMode [] standaloneSecretProcessor)))) = [] \<and>
   fst (getStandaloneSecret refEnv 100 3 ''k'' PreventUserInteractionMode []
     (timeoutRelockSecret 0 (snd (snd (getStandaloneSecret refEnv 100 2 ''k''
          SystemUserInteractionMode [] standaloneSecretProcessor))))) = resultOf Succeeded \<and>
   fst (snd (getStandaloneSecret refEnv 100 3 ''k'' PreventUserInteractionMode []
     (timeoutRelockSecret 0 (snd (snd (getStandaloneSecret refEnv 100 2 ''k''
          SystemUserInteractionMode [] standaloneSecretProcessor)))))) = ''V''"
  by (simp add: standaloneSecretProcessor_eq getStandaloneSecret_def
      getStandaloneSecretWithAuthenticationKey_def timeoutRelockSecret_def stopTimer_def
      initialProcessor_def callerApplicationIdOf_def db_defs call_defs ref_defs Let_def)

theorem standalone_timeout_keeps_key_witness:
  "UnlockSemantic (the (Secrets standaloneSecretProcessor
      (''standalone'', generateHashedSecretName refEnv ''standalone'' ''k'')))
     = CustomLockTimoutRelock \<and>
   CustomLockTimeoutMs (the (Secrets standaloneSecretProcessor
      (''standalone'', generateHashedSecretName refEnv ''standalone'' ''k''))) = 50 \<and>
   m_standaloneSecretAuthenticationKeys standaloneSecretProcessor
     (generateHashedSecretName refEnv ''standalone'' ''k'') = Some ''key'' \<and>
   m_standaloneSecretLockTimers standaloneSecretProcessor = [] \<and>
   m_standaloneSecretAuthenticationKeys
     (timeoutRelockSecret 0 (snd (snd (getStandaloneSecret refEnv 100 2 ''k''
          SystemUserInteractionMode [] standaloneSecretProcessor))))
     (generateHashedSecretName refEnv ''standalone'' ''k'') = Some ''key'' \<and>
   fst (snd (getStandaloneSecret refEnv 100 3 ''k'' PreventUserInteractionMode []
     (timeoutRelockSecret 0 (snd (snd (getStandaloneSecret refEnv 100 2 ''k''
          SystemUserInteractionMode [] standaloneSecretProcessor)))))) = ''V''"
proof -
  have before: "UnlockSemantic (the (Secrets standaloneSecretProcessor
        (''standalone'', generateHashedSecretName refEnv ''standalone'' ''k'')))
       = CustomLockTimoutRelock \<and>
     CustomLockTimeoutMs (the (Secrets standaloneSecretProcessor
        (''standalone'', generateHashedSecretName refEnv ''standalone'' ''k''))) = 50 \<and>
     m_standaloneSecretAuthenticationKeys standaloneSecretProcessor
       (generateHashedSecretName refEnv ''standalone'' ''k'') = Some ''key'' \<and>
     m_standaloneSecretLockTimers standaloneSecretProcessor = []"
    by (simp add: standaloneSecretProcessor_eq initialProcessor_def)
  from before standalone_timeout_keeps_key show ?thesis by blast
qed

section \<open>Owner isolation\<close>

lemma refusal_cases:
  "(if AccessControlMode r \<noteq> OwnerOnlyMode then (resultErr OperationNotSupportedError, x)
    else (resultErr PermissionsError, x)) = (refusal r, x)"
  by (simp add: refusal_def)




section \<open>A wrong authentication key\<close>

lemma keyRejectedD:
  assumes "keyRejected env p c key w = Some w2"
  obtains r0 w0 r1 w1 r2 where
    "isLocked env p c w = (r0, True, w0)" "code r0 = Succeeded"
    "setEncryptionKey env p c key w0 = (r1, w1)" "code r1 = Succeeded"
    "isLocked env p c w1 = (r2, True, w2)" "code r2 = Succeeded"
  using assms
  by (auto simp add: keyRejected_def Let_def split: prod.splits if_splits)

lemma applyAuthenticationKey_still_locked:
  assumes "setEncryptionKey env p c key (plugins s) = (r1, w1)" "code r1 = Succeeded"
    and "isLocked env p c w1 = (r2, True, w2)" "code r2 = Succeeded"
  shows "applyAuthenticationKey env p c key True s
     = (Some (resultErr IncorrectAuthenticationKeyError),
        s\<lparr>plugins := snd (setEncryptionKey env p c [] w2)\<rparr>)"
  using assms
  by (simp add: applyAuthenticationKey_def callPlugin_def callPluginOut_def Let_def split_def)

lemma get_wrong_key:
  assumes "keyRejected env p c key (plugins s) = Some w2"
  shows "fst (getCollectionSecretWithAuthenticationKey env callerPid requestId c secretName
            userInteractionMode uiServiceAddress p p unlockSemantic customLockTimeoutMs key s)
           = resultErr IncorrectAuthenticationKeyError \<and>
         plugins (snd (snd (getCollectionSecretWithAuthenticationKey env callerPid requestId c
            secretName userInteractionMode uiServiceAddress p p unlockSemantic
            customLockTimeoutMs key s)))
           = snd (setEncryptionKey env p c [] w2)"
proof -
  from assms obtain r0 w0 r1 w1 r2 where
    l0: "isLocked env p c (plugins s) = (r0, True, w0)" and c0: "code r0 = Succeeded" and
    k: "setEncryptionKey env p c key w0 = (r1, w1)" and c1: "code r1 = Succeeded" and
    l1: "isLocked env p c w1 = (r2, True, w2)" and c2: "code r2 = Succeeded"
    by (rule keyRejectedD)
  have ap: "plugins t = w0 \<Longrightarrow> applyAuthenticationKey env p c key True t
     = (Some (resultErr IncorrectAuthenticationKeyError),
        t\<lparr>plugins := snd (setEncryptionKey env p c [] w2)\<rparr>)" for t :: "'a processor"
    using applyAuthenticationKey_still_locked [of env p c key t r1 w1 r2 w2] k c1 l1 c2 by simp
  show ?thesis
    using l0 c0
    by (simp add: getCollectionSecretWithAuthenticationKey_def callPluginOut_def startTimer_def
        Let_def split_def ap)
qed


lemma set_wrong_key:
  assumes "keyRejected env p c key (plugins s) = Some w2" and db: "dbFaults s = []"
  shows "fst (setCollectionSecretWithAuthenticationKey env callerPid requestId c secretName
            secret userInteractionMode uiServiceAddress usesDeviceLockKey owner p p
            authenticationPluginName unlockSemantic customLockTimeoutMs accessControlMode key s)
           = resultErr IncorrectAuthenticationKeyError \<and>
         plugins (snd (setCollectionSecretWithAuthenticationKey env callerPid requestId c
            secretName secret userInteractionMode uiServiceAddress usesDeviceLockKey owner p p
            authenticationPluginName unlockSemantic customLockTimeoutMs accessControlMode key s))
           = snd (setEncryptionKey env p c [] w2)"
proof -
  from assms(1) obtain r0 w0 r1 w1 r2 where
    l0: "isLocked env p c (plugins s) = (r0, True, w0)" and c0: "code r0 = Succeeded" and
    k: "setEncryptionKey env p c key w0 = (r1, w1)" and c1: "code r1 = Succeeded" and
    l1: "isLocked env p c w1 = (r2, True, w2)" and c2: "code r2 = Succeeded"
    by (rule keyRejectedD)
  have ap: "plugins t = w0 \<Longrightarrow> applyAuthenticationKey env p c key True t
     = (Some (resultErr IncorrectAuthenticationKeyError),
        t\<lparr>plugins := snd (setEncryptionKey env p c [] w2)\<rparr>)" for t :: "'a processor"
    using applyAuthenticationKey_still_locked [of env p c key t r1 w1 r2 w2] k c1 l1 c2 by simp
  show ?thesis
    using l0 c0 db
    by (simp add: setCollectionSecretWithAuthenticationKey_def callPluginOut_def
        dbSelect_ok dbTransaction_ok writeSecretRow_def Let_def split_def ap)
qed

lemma delete_wrong_key:
  assumes "keyRejected env p c key (plugins s) = Some w2" and db: "dbFaults s = []"
    and row: "Collections s c = Some r"
    and enc: "StoragePluginName r = p" "EncryptionPluginName r = p"
    and dev: "UsesDeviceLockKey r > 0 \<longrightarrow> key = DeviceLockKey"
    and own: "AccessControlMode r = OwnerOnlyMode" "ApplicationId r = callerApplicationIdOf env callerPid"
  shows "fst (deleteCollectionSecretWithAuthenticationKey env callerPid requestId c secretName
            userInteractionMode uiServiceAddress key s)
           = resultErr IncorrectAuthenticationKeyError \<and>
         plugins (snd (deleteCollectionSecretWithAuthenticationKey env callerPid requestId c
            secretName userInteractionMode uiServiceAddress key s))
           = snd (setEncryptionKey env p c [] w2)"
proof -
  from assms(1) obtain r0 w0 r1 w1 r2 where
    l0: "isLocked env p c (plugins s) = (r0, True, w0)" and c0: "code r0 = Succeeded" and
    k: "setEncryptionKey env p c key w0 = (r1, w1)" and c1: "code r1 = Succeeded" and
    l1: "isLocked env p c w1 = (r2, True, w2)" and c2: "code r2 = Succeeded"
    by (rule keyRejectedD)
  have ap: "plugins t = w0 \<Longrightarrow> applyAuthenticationKey env p c key True t
     = (Some (resultErr IncorrectAuthenticationKeyError),
        t\<lparr>plugins := snd (setEncryptionKey env p c [] w2)\<rparr>)" for t :: "'a processor"
    using applyAuthenticationKey_still_locked [of env p c key t r1 w1 r2 w2] k c1 l1 c2 by simp
  show ?thesis
    using l0 c0 db row enc dev own
    by (auto simp add: deleteCollectionSecretWithAuthenticationKey_def callPluginOut_def
        dbSelect_ok Let_def split_def ap)
qed

text \<open>
  C2. In each of the three functions that present an authentication key to an encrypted storage
  collection, when the plugin reports the collection locked, accepts \<open>setEncryptionKey\<close> with
  the key and then still reports it locked, the function returns
  \<open>IncorrectAuthenticationKeyError\<close> and the last thing it does to the plugins is
  \<open>setEncryptionKey(collection, empty)\<close>: the plugins are left in the state that call produces.
  (The Set and the Delete reach the plugin only after their database lookups; the Delete also
  tests the device-lock key and the owner first.)
\<close>

theorem wrong_key_relocks:
  assumes rejected: "keyRejected env pluginName collectionName key (plugins s) = Some w'"
  shows
   "(fst (getCollectionSecretWithAuthenticationKey env callerPid requestId collectionName
            secretName userInteractionMode uiServiceAddress pluginName pluginName unlockSemantic
            customLockTimeoutMs key s)
       = resultErr IncorrectAuthenticationKeyError \<and>
     plugins (snd (snd (getCollectionSecretWithAuthenticationKey env callerPid requestId
            collectionName secretName userInteractionMode uiServiceAddress pluginName pluginName
            unlockSemantic customLockTimeoutMs key s)))
       = snd (setEncryptionKey env pluginName collectionName [] w')) \<and>
    (dbFaults s = [] \<longrightarrow>
       fst (setCollectionSecretWithAuthenticationKey env callerPid requestId collectionName
            secretName secret userInteractionMode uiServiceAddress usesDeviceLockKey owner
            pluginName pluginName authenticationPluginName unlockSemantic customLockTimeoutMs
            accessControlMode key s)
         = resultErr IncorrectAuthenticationKeyError \<and>
       plugins (snd (setCollectionSecretWithAuthenticationKey env callerPid requestId
            collectionName secretName secret userInteractionMode uiServiceAddress
            usesDeviceLockKey owner pluginName pluginName authenticationPluginName
            unlockSemantic customLockTimeoutMs accessControlMode key s))
         = snd (setEncryptionKey env pluginName collectionName [] w')) \<and>
    (dbFaults s = [] \<and> Collections s collectionName = Some r \<and>
     StoragePluginName r = pluginName \<and> EncryptionPluginName r = pluginName \<and>
     (UsesDeviceLockKey r > 0 \<longrightarrow> key = DeviceLockKey) \<and>
     AccessControlMode r = OwnerOnlyMode \<and>
     ApplicationId r = callerApplicationIdOf env callerPid \<longrightarrow>
       fst (deleteCollectionSecretWithAuthenticationKey env callerPid requestId collectionName
            secretName userInteractionMode uiServiceAddress key s)
         = resultErr IncorrectAuthenticationKeyError \<and>
       plugins (snd (deleteCollectionSecretWithAuthenticationKey env callerPid requestId
            collectionName secretName userInteractionMode uiServiceAddress key s))
         = snd (setEncryptionKey env pluginName collectionName [] w'))"
proof (intro conjI impI)
  show "fst (getCollectionSecretWithAuthenticationKey env callerPid requestId collectionName
            secretName userInteractionMode uiServiceAddress pluginName pluginName unlockSemantic
            customLockTimeoutMs key s)
       = resultErr IncorrectAuthenticationKeyError"
    using get_wrong_key [OF rejected] by blast
  show "plugins (snd (snd (getCollectionSecretWithAuthenticationKey env callerPid requestId
            collectionName secretName userInteractionMode uiServiceAddress pluginName pluginName
            unlockSemantic customLockTimeoutMs key s)))
       = snd (setEncryptionKey env pluginName collectionName [] w')"
    using get_wrong_key [OF rejected] by blast
next
  assume "dbFaults s = []"
  from set_wrong_key [OF rejected this]
  show "fst (setCollectionSecretWithAuthenticationKey env callerPid requestId collectionName
            secretName secret userInteractionMode uiServiceAddress usesDeviceLockKey owner
            pluginName pluginName authenticationPluginName unlockSemantic customLockTimeoutMs
            accessControlMode key s)
         = resultErr IncorrectAuthenticationKeyError"
    by blast
next
  assume "dbFaults s = []"
  from set_wrong_key [OF rejected this]
  show "plugins (snd (setCollectionSecretWithAuthenticationKey env callerPid requestId
            collectionName secretName secret userInteractionMode uiServiceAddress
            usesDeviceLockKey owner pluginName pluginName authenticationPluginName
            unlockSemantic customLockTimeoutMs accessControlMode key s))
         = snd (setEncryptionKey env pluginName collectionName [] w')"
    by blast
next
  assume a: "dbFaults s = [] \<and> Collections s collectionName = Some r \<and>
     StoragePluginName r = pluginName \<and> EncryptionPluginName r = pluginName \<and>
     (UsesDeviceLockKey r > 0 \<longrightarrow> key = DeviceLockKey) \<and>
     AccessControlMode r = OwnerOnlyMode \<and>
     ApplicationId r = callerApplicationIdOf env callerPid"
  from delete_wrong_key [OF rejected, of r callerPid] a
  show "fst (deleteCollectionSecretWithAuthenticationKey env callerPid requestId collectionName
            secretName userInteractionMode uiServiceAddress key s)
         = resultErr IncorrectAuthenticationKeyError"
    by blast
next
  assume a: "dbFaults s = [] \<and> Collections s collectionName = Some r \<and>
     StoragePluginName r = pluginName \<and> EncryptionPluginName r = pluginName \<and>
     (UsesDeviceLockKey r > 0 \<longrightarrow> key = DeviceLockKey) \<and>
     AccessControlMode r = OwnerOnlyMode \<and>
     ApplicationId r = callerApplicationIdOf env callerPid"
  from delete_wrong_key [OF rejected, of r callerPid] a
  show "plugins (snd (deleteCollectionSecretWithAuthenticationKey env callerPid requestId
            collectionName secretName userInteractionMode uiServiceAddress key s))
         = snd (setEncryptionKey env pluginName collectionName [] w')"
    by blast
qed

theorem wrong_key_relocks_witness:
  "keyRejected refEnv ''sqlcipher'' ''vault2'' ''wrong'' (plugins lockedVaultProcessor) \<noteq> None \<and>
   fst (getCollectionSecretWithAuthenticationKey refEnv 100 4 ''vault2'' ''k''
          SystemUserInteractionMode [] ''sqlcipher'' ''sqlcipher'' 8 0 ''wrong''
          lockedVaultProcessor) = resultErr IncorrectAuthenticationKeyError \<and>
   \<not> unlockedCollections (plugins (snd (snd (getCollectionSecretWithAuthenticationKey refEnv
          100 4 ''vault2'' ''k'' SystemUserInteractionMode [] ''sqlcipher'' ''sqlcipher'' 8 0
          ''wrong'' lockedVaultProcessor)))) (''sqlcipher'', ''vault2'') \<and>
   fst (ref_isLocked ''sqlcipher'' ''vault2'' (plugins (snd (snd
          (getCollectionSecretWithAuthenticationKey refEnv 100 4 ''vault2'' ''k''
          SystemUserInteractionMode [] ''sqlcipher'' ''sqlcipher'' 8 0 ''wrong''
          lockedVaultProcessor))))) = resultOf Succeeded \<and>
   fst (snd (ref_isLocked ''sqlcipher'' ''vault2'' (plugins (snd (snd
          (getCollectionSecretWithAuthenticationKey refEnv 100 4 ''vault2'' ''k''
          SystemUserInteractionMode [] ''sqlcipher'' ''sqlcipher'' 8 0 ''wrong''
          lockedVaultProcessor)))))) \<and>
   dbFaults lockedVaultProcessor = [] \<and>
   fst (setCollectionSecretWithAuthenticationKey refEnv 100 5 ''vault2'' ''k'' ''V''
          SystemUserInteractionMode [] False ''appA'' ''sqlcipher'' ''sqlcipher'' ''system'' 8 0
          OwnerOnlyMode ''wrong'' lockedVaultProcessor)
     = resultErr IncorrectAuthenticationKeyError \<and>
   \<not> unlockedCollections (plugins (snd (setCollectionSecretWithAuthenticationKey refEnv 100 5
          ''vault2'' ''k'' ''V'' SystemUserInteractionMode [] False ''appA'' ''sqlcipher''
          ''sqlcipher'' ''system'' 8 0 OwnerOnlyMode ''wrong'' lockedVaultProcessor)))
        (''sqlcipher'', ''vault2'') \<and>
   Collections lockedVaultProcessor ''vault2'' = Some vault2Row \<and>
   fst (deleteCollectionSecretWithAuthenticationKey refEnv 100 6 ''vault2'' ''k''
          SystemUserInteractionMode [] ''wrong'' lockedVaultProcessor)
     = resultErr IncorrectAuthenticationKeyError \<and>
   \<not> unlockedCollections (plugins (snd (deleteCollectionSecretWithAuthenticationKey refEnv 100 6
          ''vault2'' ''k'' SystemUserInteractionMode [] ''wrong'' lockedVaultProcessor)))
        (''sqlcipher'', ''vault2'')"
proof -
  let ?w = "keyRejected refEnv ''sqlcipher'' ''vault2'' ''wrong'' (plugins lockedVaultProcessor)"
  have some: "?w \<noteq> None"
    by (simp add: keyRejected_def lockedVaultProcessor_def initialProcessor_def ref_defs Let_def)
  then have rejected: "?w = Some (the ?w)" by simp
  have db: "dbFaults lockedVaultProcessor = []"
    by (simp add: lockedVaultProcessor_def initialProcessor_def)
  have row: "Collections lockedVaultProcessor ''vault2'' = Some vault2Row"
    by (simp add: lockedVaultProcessor_def)
  have owned: "dbFaults lockedVaultProcessor = [] \<and>
      Collections lockedVaultProcessor ''vault2'' = Some vault2Row \<and>
      StoragePluginName vault2Row = ''sqlcipher'' \<and> EncryptionPluginName vault2Row = ''sqlcipher'' \<and>
      (UsesDeviceLockKey vault2Row > 0 \<longrightarrow> ''wrong'' = DeviceLockKey) \<and>
      AccessControlMode vault2Row = OwnerOnlyMode \<and>
      ApplicationId vault2Row = callerApplicationIdOf refEnv 100"
    using db row by (simp add: vault2Row_def callerApplicationIdOf_def)
  note get = wrong_key_relocks [where callerPid = 100
      and requestId = 4 and secretName = "''k''" and userInteractionMode = 1
      and uiServiceAddress = "[]" and unlockSemantic = 8 and customLockTimeoutMs = 0,
      OF rejected, THEN conjunct1]
  note set = wrong_key_relocks [where callerPid = 100
      and requestId = 5 and secretName = "''k''" and userInteractionMode = 1
      and uiServiceAddress = "[]" and unlockSemantic = 8 and customLockTimeoutMs = 0
      and secret = "''V''" and usesDeviceLockKey = False and owner = "''appA''"
      and authenticationPluginName = "''system''" and accessControlMode = 0,
      OF rejected, THEN conjunct2, THEN conjunct1, rule_format, OF db]
  note delete = wrong_key_relocks [where callerPid = 100
      and requestId = 6 and secretName = "''k''" and userInteractionMode = 1
      and uiServiceAddress = "[]" and r = vault2Row,
      OF rejected, THEN conjunct2, THEN conjunct2, rule_format, OF owned]
  have after: "\<not> unlockedCollections (snd (setEncryptionKey refEnv ''sqlcipher'' ''vault2'' []
        (the ?w))) (''sqlcipher'', ''vault2'') \<and>
      fst (ref_isLocked ''sqlcipher'' ''vault2'' (snd (setEncryptionKey refEnv ''sqlcipher''
        ''vault2'' [] (the ?w)))) = resultOf Succeeded \<and>
      fst (snd (ref_isLocked ''sqlcipher'' ''vault2'' (snd (setEncryptionKey refEnv ''sqlcipher''
        ''vault2'' [] (the ?w)))))"
    by (simp add: keyRejected_def lockedVaultProcessor_def initialProcessor_def ref_defs Let_def)
  from get set delete after some db row show ?thesis by simp
qed

section \<open>Get after Delete\<close>

lemma inappVaultProcessor_eq:
  "inappVaultProcessor = initialProcessor
     \<lparr>Collections := [''standalone'' \<mapsto> standaloneRow,
        ''vault3'' \<mapsto> \<lparr>ApplicationId = ''appA'', UsesDeviceLockKey = 0,
           StoragePluginName = ''sqlite'', EncryptionPluginName = ''openssl'',
           AuthenticationPluginName = ''inapp'', UnlockSemantic = 8, CustomLockTimeoutMs = 0,
           AccessControlMode = 0\<rparr>],
      m_collectionAuthenticationKeys := [''vault3'' \<mapsto> ''pwd''],
      plugins := emptyWorld\<lparr>pluginCollections := (\<lambda>k. False)((''sqlite'', ''vault3'') := True)\<rparr>\<rparr>"
  by (simp add: inappVaultProcessor_def createCustomLockCollectionWithAuthenticationKey_def
      initialProcessor_def callerApplicationIdOf_def db_defs call_defs ref_defs Let_def)

lemma secretStoredProcessor_eq:
  "secretStoredProcessor = inappVaultProcessor
     \<lparr>Secrets := [(''vault3'', ''vault3k='') \<mapsto> \<lparr>ApplicationId = ''appA'', UsesDeviceLockKey = 0,
           StoragePluginName = ''sqlite'', EncryptionPluginName = ''openssl'',
           AuthenticationPluginName = ''inapp'', UnlockSemantic = 8, CustomLockTimeoutMs = 0,
           AccessControlMode = 0\<rparr>],
      plugins := emptyWorld\<lparr>pluginCollections := (\<lambda>k. False)((''sqlite'', ''vault3'') := True),
         pluginSecrets := [(''sqlite'', ''vault3'', ''vault3k='') \<mapsto> ''pwdV'']\<rparr>\<rparr>"
  by (simp add: secretStoredProcessor_def inappVaultProcessor_eq setCollectionSecret_def
      setCollectionSecretWithAuthenticationKey_def isStandalone_def toLower_def
      initialProcessor_def callerApplicationIdOf_def db_defs call_defs ref_defs Let_def)

lemma foundUnlockedD:
  assumes "foundUnlocked env r c s = Some w"
  obtains (encrypted) r1 w1 r2 where "StoragePluginName r = EncryptionPluginName r"
      "isLocked env (StoragePluginName r) c (plugins s) = (r1, False, w1)" "code r1 = Succeeded"
      "isLocked env (StoragePluginName r) c w1 = (r2, False, w)" "code r2 = Succeeded"
    | (plain) k where "StoragePluginName r \<noteq> EncryptionPluginName r"
      "m_collectionAuthenticationKeys s c = Some k" "w = plugins s"
  using assms
  by (auto simp add: foundUnlocked_def Let_def split: prod.splits if_splits)

lemma secretStoreD:
  assumes "secretStore env r c h secret key w = (e, w')" "code e = Succeeded"
  obtains (encrypted) "StoragePluginName r = EncryptionPluginName r"
      "encrypted_setSecret env (StoragePluginName r) c h secret w = (e, w')"
    | (plain) er enc w1 where "StoragePluginName r \<noteq> EncryptionPluginName r"
      "encryptSecret env (EncryptionPluginName r) secret key w = (er, enc, w1)"
      "code er = Succeeded"
      "storage_setSecret env (StoragePluginName r) c h enc w1 = (e, w')"
  using assms
  by (auto simp add: secretStore_def Let_def split: prod.splits if_splits)

lemma setCollectionSecretWithAuthenticationKey_encrypted:
  assumes db: "dbFaults s = []"
    and l: "isLocked env p c (plugins s) = (r2, False, w)" "code r2 = Succeeded"
    and st: "encrypted_setSecret env p c (generateHashedSecretName env c n) secret w = (e, w')"
      "code e = Succeeded"
  shows "setCollectionSecretWithAuthenticationKey env callerPid requestId c n secret
            userInteractionMode uiServiceAddress usesDeviceLockKey owner p p
            authenticationPluginName unlockSemantic customLockTimeoutMs accessControlMode key s
           = (e, (if Secrets s (c, generateHashedSecretName env c n) = None
                  then writeSecretRow (c, generateHashedSecretName env c n)
                         \<lparr>ApplicationId = owner,
                          UsesDeviceLockKey = (if usesDeviceLockKey then 1 else 0),
                          StoragePluginName = p, EncryptionPluginName = p,
                          AuthenticationPluginName = authenticationPluginName,
                          UnlockSemantic = unlockSemantic,
                          CustomLockTimeoutMs = customLockTimeoutMs,
                          AccessControlMode = accessControlMode\<rparr> s
                  else s)\<lparr>plugins := w'\<rparr>)"
  using assms
  by (simp add: setCollectionSecretWithAuthenticationKey_def applyAuthenticationKey_def
      callPluginOut_def callPlugin_def dbSelect_ok dbTransaction_ok writeSecretRow_def Let_def)

lemma setCollectionSecretWithAuthenticationKey_plain:
  assumes db: "dbFaults s = []"
    and ne: "sp \<noteq> ep"
    and k: "m_collectionAuthenticationKeys s c = Some k"
    and en: "encryptSecret env ep secret k (plugins s) = (er, enc, w1)" "code er = Succeeded"
    and st: "storage_setSecret env sp c (generateHashedSecretName env c n) enc w1 = (e, w')"
      "code e = Succeeded"
  shows "setCollectionSecretWithAuthenticationKey env callerPid requestId c n secret
            userInteractionMode uiServiceAddress usesDeviceLockKey owner sp ep
            authenticationPluginName unlockSemantic customLockTimeoutMs accessControlMode key s
           = (e, (if Secrets s (c, generateHashedSecretName env c n) = None
                  then writeSecretRow (c, generateHashedSecretName env c n)
                         \<lparr>ApplicationId = owner,
                          UsesDeviceLockKey = (if usesDeviceLockKey then 1 else 0),
                          StoragePluginName = sp, EncryptionPluginName = ep,
                          AuthenticationPluginName = authenticationPluginName,
                          UnlockSemantic = unlockSemantic,
                          CustomLockTimeoutMs = customLockTimeoutMs,
                          AccessControlMode = accessControlMode\<rparr> s
                  else s)\<lparr>plugins := w'\<rparr>)"
  using assms
  by (simp add: setCollectionSecretWithAuthenticationKey_def cacheCollectionKey_def valueOf_def
      callPluginOut_def callPlugin_def dbSelect_ok dbTransaction_ok writeSecretRow_def Let_def)

lemma setCollectionSecret_unlocked:
  assumes names: "secretName \<noteq> []" "collectionName \<noteq> []" "\<not> isStandalone collectionName"
    and db: "dbFaults s = []"
    and row: "Collections s collectionName = Some r"
    and own: "ownedBy env r callerPid"
    and reg: "pluginsRegistered env (StoragePluginName r) (EncryptionPluginName r)"
    and nonempty: "StoragePluginName r \<noteq> []" "EncryptionPluginName r \<noteq> []"
    and unl: "foundUnlocked env r collectionName s = Some w"
    and store: "secretStore env r collectionName
                  (generateHashedSecretName env collectionName secretName) secret
                  (keyInUse r collectionName s) w = (e, w')"
    and ok: "code e = Succeeded"
  shows "fst (setCollectionSecret env callerPid requestId collectionName secretName secret
                userInteractionMode uiServiceAddress s) = e \<and>
         plugins (snd (setCollectionSecret env callerPid requestId collectionName secretName
                secret userInteractionMode uiServiceAddress s)) = w' \<and>
         Collections (snd (setCollectionSecret env callerPid requestId collectionName secretName
                secret userInteractionMode uiServiceAddress s)) = Collections s \<and>
         dbFaults (snd (setCollectionSecret env callerPid requestId collectionName secretName
                secret userInteractionMode uiServiceAddress s)) = [] \<and>
         m_collectionAuthenticationKeys (snd (setCollectionSecret env callerPid requestId
                collectionName secretName secret userInteractionMode uiServiceAddress s))
           = m_collectionAuthenticationKeys s"
  using unl
proof (cases rule: foundUnlockedD)
  case (encrypted r1 w1 r2)
  from store ok encrypted(1)
  have st: "encrypted_setSecret env (EncryptionPluginName r) collectionName
              (generateHashedSecretName env collectionName secretName) secret w = (e, w')"
    by (simp add: secretStore_def)
  have cont: "setCollectionSecretWithAuthenticationKey env callerPid requestId collectionName
            secretName secret userInteractionMode uiServiceAddress usesDeviceLockKey owner
            (EncryptionPluginName r) (EncryptionPluginName r)
            authenticationPluginName unlockSemantic customLockTimeoutMs accessControlMode key
            (s\<lparr>plugins := w1\<rparr>)
           = (e, (if Secrets s (collectionName, generateHashedSecretName env collectionName secretName) = None
                  then writeSecretRow (collectionName, generateHashedSecretName env collectionName secretName)
                         \<lparr>ApplicationId = owner,
                          UsesDeviceLockKey = (if usesDeviceLockKey then 1 else 0),
                          StoragePluginName = EncryptionPluginName r,
                          EncryptionPluginName = EncryptionPluginName r,
                          AuthenticationPluginName = authenticationPluginName,
                          UnlockSemantic = unlockSemantic,
                          CustomLockTimeoutMs = customLockTimeoutMs,
                          AccessControlMode = accessControlMode\<rparr> (s\<lparr>plugins := w1\<rparr>)
                  else s\<lparr>plugins := w1\<rparr>)\<lparr>plugins := w'\<rparr>)"
    for usesDeviceLockKey owner authenticationPluginName unlockSemantic customLockTimeoutMs
      accessControlMode key
    using setCollectionSecretWithAuthenticationKey_encrypted
      [of "s\<lparr>plugins := w1\<rparr>" env "EncryptionPluginName r" collectionName r2 w
          secretName secret e w']
      db encrypted st ok
    by simp
  show ?thesis
    using names db row own reg encrypted
    by (simp add: setCollectionSecret_def callPluginOut_def dbSelect_ok ownedBy_def
        pluginsRegistered_def Let_def cont writeSecretRow_def)
next
  case (plain k)
  from store ok plain obtain er enc w1 where
    en: "encryptSecret env (EncryptionPluginName r) secret k (plugins s) = (er, enc, w1)"
      "code er = Succeeded" and
    st: "storage_setSecret env (StoragePluginName r) collectionName
           (generateHashedSecretName env collectionName secretName) enc w1 = (e, w')"
    by (auto simp add: secretStore_def keyInUse_def valueOf_def Let_def
        split: prod.splits if_splits)
  note cont = setCollectionSecretWithAuthenticationKey_plain
      [OF db plain(1) plain(2) en st ok]
  show ?thesis
    using names db row own reg nonempty plain
    by (simp add: setCollectionSecret_def dbSelect_ok ownedBy_def
        pluginsRegistered_def Let_def cont writeSecretRow_def valueOf_def)
qed

lemma getCollectionSecretWithAuthenticationKey_encrypted:
  assumes l: "isLocked env p c (plugins s) = (r2, False, w)" "code r2 = Succeeded"
  shows "fst (getCollectionSecretWithAuthenticationKey env callerPid requestId c n
            userInteractionMode uiServiceAddress p p unlockSemantic customLockTimeoutMs key s)
           = fst (encrypted_getSecret env p c (generateHashedSecretName env c n) w) \<and>
         fst (snd (getCollectionSecretWithAuthenticationKey env callerPid requestId c n
            userInteractionMode uiServiceAddress p p unlockSemantic customLockTimeoutMs key s))
           = fst (snd (encrypted_getSecret env p c (generateHashedSecretName env c n) w))"
  using assms
  by (simp add: getCollectionSecretWithAuthenticationKey_def applyAuthenticationKey_def
      callPluginOut_def startTimer_def Let_def split_def)

lemma getCollectionSecretWithAuthenticationKey_plain:
  assumes ne: "StoragePluginName r \<noteq> EncryptionPluginName r"
    and k: "m_collectionAuthenticationKeys s c = Some k"
  shows "fst (getCollectionSecretWithAuthenticationKey env callerPid requestId c n
            userInteractionMode uiServiceAddress (StoragePluginName r) (EncryptionPluginName r)
            unlockSemantic customLockTimeoutMs key s)
           = fst (secretRetrieval env r c (generateHashedSecretName env c n) k (plugins s)) \<and>
         fst (snd (getCollectionSecretWithAuthenticationKey env callerPid requestId c n
            userInteractionMode uiServiceAddress (StoragePluginName r) (EncryptionPluginName r)
            unlockSemantic customLockTimeoutMs key s))
           = fst (snd (secretRetrieval env r c (generateHashedSecretName env c n) k (plugins s)))"
  using assms
  by (simp add: getCollectionSecretWithAuthenticationKey_def cacheCollectionKey_def valueOf_def
      secretRetrieval_def callPluginOut_def startTimer_def Let_def split_def)

lemma getCollectionSecret_unlocked:
  assumes names: "secretName \<noteq> []" "collectionName \<noteq> []" "\<not> isStandalone collectionName"
    and db: "dbFaults s = []"
    and row: "Collections s collectionName = Some r"
    and own: "ownedBy env r callerPid"
    and reg: "pluginsRegistered env (StoragePluginName r) (EncryptionPluginName r)"
    and guards: "interactionSuffices env r userInteractionMode uiServiceAddress"
    and unl: "foundUnlocked env r collectionName s = Some w"
  shows "fst (getCollectionSecret env callerPid requestId collectionName secretName
                userInteractionMode uiServiceAddress s)
           = fst (secretRetrieval env r collectionName
                    (generateHashedSecretName env collectionName secretName)
                    (keyInUse r collectionName s) w) \<and>
         fst (snd (getCollectionSecret env callerPid requestId collectionName secretName
                userInteractionMode uiServiceAddress s))
           = fst (snd (secretRetrieval env r collectionName
                    (generateHashedSecretName env collectionName secretName)
                    (keyInUse r collectionName s) w))"
  using unl
proof (cases rule: foundUnlockedD)
  case (encrypted r1 w1 r2)
  note cont = getCollectionSecretWithAuthenticationKey_encrypted
      [of env "EncryptionPluginName r" collectionName "s\<lparr>plugins := w1\<rparr>" r2 w]
  show ?thesis
    using names db row own reg guards encrypted cont
    by (auto simp add: getCollectionSecret_def callPluginOut_def dbSelect_ok ownedBy_def
        pluginsRegistered_def interactionSuffices_def secretRetrieval_def Let_def)
next
  case (plain k)
  note cont = getCollectionSecretWithAuthenticationKey_plain [OF plain(1) plain(2), of env]
  show ?thesis
    using names db row own reg guards plain
    by (auto simp add: getCollectionSecret_def dbSelect_ok ownedBy_def pluginsRegistered_def
        interactionSuffices_def keyInUse_def valueOf_def Let_def cont)
qed




lemma foundUnlocked_cong:
  "plugins t = plugins s \<Longrightarrow>
   m_collectionAuthenticationKeys t = m_collectionAuthenticationKeys s \<Longrightarrow>
   foundUnlocked env r c t = foundUnlocked env r c s"
  by (simp add: foundUnlocked_def)



lemma vaultSecretProcessor_eq:
  "vaultSecretProcessor = vaultProcessor
     \<lparr>Secrets := [(''vault'', ''vaultk='') \<mapsto> vaultRow],
      plugins := emptyWorld\<lparr>pluginCollections := (\<lambda>k. False)((''sqlite'', ''vault'') := True),
         pluginSecrets := [(''sqlite'', ''vault'', ''vaultk='') \<mapsto> DeviceLockKey @ ''V'']\<rparr>\<rparr>"
  by (simp add: vaultSecretProcessor_def vaultProcessor_def vaultRow_def setCollectionSecret_def
      setCollectionSecretWithAuthenticationKey_def isStandalone_def toLower_def
      initialProcessor_def callerApplicationIdOf_def db_defs call_defs ref_defs Let_def)


text \<open>
  \<open>deleteStandaloneSecret\<close> reports success when the plugin fails to remove the secret: the row
  and the secret stay, and a Get that follows returns the secret.
\<close>

lemma deleteStandaloneSecret_ignores_failed_removal:
  "fst (deleteStandaloneSecret refEnv 100 2 ''k'' PreventUserInteractionMode
          removalFailsProcessor) = resultOf Succeeded \<and>
   fst (getStandaloneSecret refEnv 100 3 ''k'' PreventUserInteractionMode []
          (snd (deleteStandaloneSecret refEnv 100 2 ''k'' PreventUserInteractionMode
                  removalFailsProcessor))) = resultOf Succeeded \<and>
   fst (snd (getStandaloneSecret refEnv 100 3 ''k'' PreventUserInteractionMode []
          (snd (deleteStandaloneSecret refEnv 100 2 ''k'' PreventUserInteractionMode
                  removalFailsProcessor)))) = ''V''"
  by (simp add: removalFailsProcessor_def standaloneSecretProcessor_eq deleteStandaloneSecret_def
      getStandaloneSecret_def getStandaloneSecretWithAuthenticationKey_def
      initialProcessor_def callerApplicationIdOf_def db_defs call_defs ref_defs Let_def)




section \<open>Set, then Get\<close>

lemma setCollectionSecret_writes_row:
  assumes names: "secretName \<noteq> []" "collectionName \<noteq> []" "\<not> isStandalone collectionName"
    and db: "dbFaults s = []"
    and row: "Collections s collectionName = Some r"
    and own: "ownedBy env r callerPid"
    and reg: "pluginsRegistered env (StoragePluginName r) (EncryptionPluginName r)"
    and nonempty: "StoragePluginName r \<noteq> []" "EncryptionPluginName r \<noteq> []"
    and unl: "foundUnlocked env r collectionName s = Some w"
    and store: "secretStore env r collectionName
                  (generateHashedSecretName env collectionName secretName) secret
                  (keyInUse r collectionName s) w = (e, w')"
    and ok: "code e = Succeeded"
  shows "Secrets (snd (setCollectionSecret env callerPid requestId collectionName secretName
                secret userInteractionMode uiServiceAddress s))
           (collectionName, generateHashedSecretName env collectionName secretName) \<noteq> None"
  using unl
proof (cases rule: foundUnlockedD)
  case (encrypted r1 w1 r2)
  from store ok encrypted(1)
  have st: "encrypted_setSecret env (EncryptionPluginName r) collectionName
              (generateHashedSecretName env collectionName secretName) secret w = (e, w')"
    by (simp add: secretStore_def)
  have cont: "setCollectionSecretWithAuthenticationKey env callerPid requestId collectionName
            secretName secret userInteractionMode uiServiceAddress usesDeviceLockKey owner
            (EncryptionPluginName r) (EncryptionPluginName r)
            authenticationPluginName unlockSemantic customLockTimeoutMs accessControlMode key
            (s\<lparr>plugins := w1\<rparr>)
           = (e, (if Secrets s (collectionName, generateHashedSecretName env collectionName secretName) = None
                  then writeSecretRow (collectionName, generateHashedSecretName env collectionName secretName)
                         \<lparr>ApplicationId = owner,
                          UsesDeviceLockKey = (if usesDeviceLockKey then 1 else 0),
                          StoragePluginName = EncryptionPluginName r,
                          EncryptionPluginName = EncryptionPluginName r,
                          AuthenticationPluginName = authenticationPluginName,
                          UnlockSemantic = unlockSemantic,
                          CustomLockTimeoutMs = customLockTimeoutMs,
                          AccessControlMode = accessControlMode\<rparr> (s\<lparr>plugins := w1\<rparr>)
                  else s\<lparr>plugins := w1\<rparr>)\<lparr>plugins := w'\<rparr>)"
    for usesDeviceLockKey owner authenticationPluginName unlockSemantic customLockTimeoutMs
      accessControlMode key
    using setCollectionSecretWithAuthenticationKey_encrypted
      [of "s\<lparr>plugins := w1\<rparr>" env "EncryptionPluginName r" collectionName r2 w
          secretName secret e w']
      db encrypted st ok
    by simp
  show ?thesis
    using names db row own reg encrypted
    by (auto simp add: setCollectionSecret_def callPluginOut_def dbSelect_ok ownedBy_def
        pluginsRegistered_def Let_def cont writeSecretRow_def)
next
  case (plain k)
  from store ok plain obtain er enc w1 where
    en: "encryptSecret env (EncryptionPluginName r) secret k (plugins s) = (er, enc, w1)"
      "code er = Succeeded" and
    st: "storage_setSecret env (StoragePluginName r) collectionName
           (generateHashedSecretName env collectionName secretName) enc w1 = (e, w')"
    by (auto simp add: secretStore_def keyInUse_def valueOf_def Let_def
        split: prod.splits if_splits)
  note cont = setCollectionSecretWithAuthenticationKey_plain
      [OF db plain(1) plain(2) en st ok]
  show ?thesis
    using names db row own reg nonempty plain
    by (auto simp add: setCollectionSecret_def dbSelect_ok ownedBy_def
        pluginsRegistered_def Let_def cont writeSecretRow_def valueOf_def)
qed

text \<open>
  C4 (as amended). While the database works, let the owner of a collection Set the secret
  \<open>V\<close> under a valid name while the collection is found unlocked, the plugin storing it with
  success. The Set returns the plugin's result, writes the master row and leaves the plugins
  as the storing call left them, with the cached keys as they were. Let the owner then Get the
  secret with an interaction mode that suffices for the authentication plugin of the
  collection, the plugin left by the storing call still reporting the collection unlocked.
  The Get reads with the same hashed name and the same key that the Set stored with, in the
  plugin state the Set left, and returns what the plugin reads there: the value \<open>V\<close> when the
  plugin reads back what it stored.
\<close>

theorem set_then_get_returns_secret:
  assumes db: "dbFaults s = []"
    and names: "secretName \<noteq> []" "collectionName \<noteq> []" "\<not> isStandalone collectionName"
    and row: "Collections s collectionName = Some r"
    and own: "ownedBy env r callerPid"
    and reg: "pluginsRegistered env (StoragePluginName r) (EncryptionPluginName r)"
    and nonempty: "StoragePluginName r \<noteq> []" "EncryptionPluginName r \<noteq> []"
    and unl: "foundUnlocked env r collectionName s = Some w"
    and store: "secretStore env r collectionName
                  (generateHashedSecretName env collectionName secretName) V
                  (keyInUse r collectionName s) w = (e, w')"
    and stored: "code e = Succeeded"
  shows "fst (setCollectionSecret env callerPid requestId collectionName secretName V
                userInteractionMode uiServiceAddress s) = e \<and>
         plugins (snd (setCollectionSecret env callerPid requestId collectionName secretName V
                userInteractionMode uiServiceAddress s)) = w' \<and>
         m_collectionAuthenticationKeys (snd (setCollectionSecret env callerPid requestId
                collectionName secretName V userInteractionMode uiServiceAddress s))
           = m_collectionAuthenticationKeys s \<and>
         Collections (snd (setCollectionSecret env callerPid requestId collectionName secretName
                V userInteractionMode uiServiceAddress s)) = Collections s \<and>
         Secrets (snd (setCollectionSecret env callerPid requestId collectionName secretName V
                userInteractionMode uiServiceAddress s))
           (collectionName, generateHashedSecretName env collectionName secretName) \<noteq> None \<and>
         (interactionSuffices env r userInteractionMode' uiServiceAddress' \<and>
          foundUnlocked env r collectionName (s\<lparr>plugins := w'\<rparr>) = Some w'' \<and>
          secretRetrieval env r collectionName
            (generateHashedSecretName env collectionName secretName)
            (keyInUse r collectionName s) w'' = (g, V, w''') \<longrightarrow>
            fst (getCollectionSecret env callerPid requestId' collectionName secretName
                   userInteractionMode' uiServiceAddress'
                   (snd (setCollectionSecret env callerPid requestId collectionName secretName V
                           userInteractionMode uiServiceAddress s))) = g \<and>
            fst (snd (getCollectionSecret env callerPid requestId' collectionName secretName
                   userInteractionMode' uiServiceAddress'
                   (snd (setCollectionSecret env callerPid requestId collectionName secretName V
                           userInteractionMode uiServiceAddress s)))) = V)"
proof -
  let ?S = "setCollectionSecret env callerPid requestId collectionName secretName V
              userInteractionMode uiServiceAddress s"
  note set = setCollectionSecret_unlocked [OF names db row own reg nonempty unl store stored,
      of requestId userInteractionMode uiServiceAddress]
  from set have res: "fst ?S = e" and plug: "plugins (snd ?S) = w'"
    and rows: "Collections (snd ?S) = Collections s"
    and db': "dbFaults (snd ?S) = []"
    and keys: "m_collectionAuthenticationKeys (snd ?S) = m_collectionAuthenticationKeys s"
    by blast+
  note written = setCollectionSecret_writes_row [OF names db row own reg nonempty unl store
      stored, of requestId userInteractionMode uiServiceAddress]
  have key: "keyInUse r collectionName (snd ?S) = keyInUse r collectionName s"
    by (simp add: keyInUse_def keys)
  have row': "Collections (snd ?S) collectionName = Some r"
    by (simp add: rows row)
  have same: "foundUnlocked env r collectionName (snd ?S)
      = foundUnlocked env r collectionName (s\<lparr>plugins := w'\<rparr>)"
    by (rule foundUnlocked_cong) (simp_all add: plug keys)
  have get: "fst (getCollectionSecret env callerPid requestId' collectionName secretName
                   userInteractionMode' uiServiceAddress' (snd ?S)) = g \<and>
            fst (snd (getCollectionSecret env callerPid requestId' collectionName secretName
                   userInteractionMode' uiServiceAddress' (snd ?S))) = V"
    if guards: "interactionSuffices env r userInteractionMode' uiServiceAddress'"
      and still: "foundUnlocked env r collectionName (s\<lparr>plugins := w'\<rparr>) = Some w''"
      and contract: "secretRetrieval env r collectionName
            (generateHashedSecretName env collectionName secretName)
            (keyInUse r collectionName s) w'' = (g, V, w''')"
  proof -
    from still same have still': "foundUnlocked env r collectionName (snd ?S) = Some w''"
      by simp
    note g = getCollectionSecret_unlocked [OF names db' row' own reg guards still',
        of requestId']
    from g key contract show ?thesis by simp
  qed
  from res plug keys rows written get show ?thesis by blast
qed

lemma secretStoredProcessor_unlocked:
  "m_collectionAuthenticationKeys secretStoredProcessor ''vault3'' = Some ''pwd''"
  by (simp add: secretStoredProcessor_eq inappVaultProcessor_eq initialProcessor_def)

theorem set_then_get_returns_secret_witness:
  "dbFaults vaultProcessor = [] \<and>
   Collections vaultProcessor ''vault'' = Some vaultRow \<and>
   ownedBy refEnv vaultRow 100 \<and>
   foundUnlocked refEnv vaultRow ''vault'' vaultProcessor = Some (plugins vaultProcessor) \<and>
   interactionSuffices refEnv vaultRow PreventUserInteractionMode [] \<and>
   fst (setCollectionSecret refEnv 100 2 ''vault'' ''k'' ''V'' PreventUserInteractionMode []
          vaultProcessor) = resultOf Succeeded \<and>
   plugins (snd (setCollectionSecret refEnv 100 2 ''vault'' ''k'' ''V''
                   PreventUserInteractionMode [] vaultProcessor))
     = plugins vaultSecretProcessor \<and>
   pluginSecrets (plugins vaultSecretProcessor)
     (''sqlite'', ''vault'', generateHashedSecretName refEnv ''vault'' ''k'')
     = Some (DeviceLockKey @ ''V'') \<and>
   fst (getCollectionSecret refEnv 100 3 ''vault'' ''k'' PreventUserInteractionMode []
          (snd (setCollectionSecret refEnv 100 2 ''vault'' ''k'' ''V''
                  PreventUserInteractionMode [] vaultProcessor))) = resultOf Succeeded \<and>
   fst (snd (getCollectionSecret refEnv 100 3 ''vault'' ''k'' PreventUserInteractionMode []
          (snd (setCollectionSecret refEnv 100 2 ''vault'' ''k'' ''V''
                  PreventUserInteractionMode [] vaultProcessor)))) = ''V''"
proof -
  have db: "dbFaults vaultProcessor = []"
    by (simp add: vaultProcessor_def initialProcessor_def)
  have names: "''k'' \<noteq> []" "''vault'' \<noteq> []" "\<not> isStandalone ''vault''"
    by simp_all
  have row: "Collections vaultProcessor ''vault'' = Some vaultRow"
    by (simp add: vaultProcessor_def)
  have own: "ownedBy refEnv vaultRow 100"
    by (simp add: ownedBy_def vaultRow_def callerApplicationIdOf_def)
  have reg: "pluginsRegistered refEnv (StoragePluginName vaultRow) (EncryptionPluginName vaultRow)"
    by (simp add: pluginsRegistered_def vaultRow_def)
  have nonempty: "StoragePluginName vaultRow \<noteq> []" "EncryptionPluginName vaultRow \<noteq> []"
    by (simp_all add: vaultRow_def)
  have unl: "foundUnlocked refEnv vaultRow ''vault'' vaultProcessor = Some (plugins vaultProcessor)"
    by (simp add: foundUnlocked_def vaultRow_def vaultProcessor_def)
  have store: "secretStore refEnv vaultRow ''vault'' (generateHashedSecretName refEnv ''vault'' ''k'')
                 ''V'' (keyInUse vaultRow ''vault'' vaultProcessor) (plugins vaultProcessor)
               = (resultOf Succeeded, plugins vaultSecretProcessor)"
    by (simp add: secretStore_def keyInUse_def vaultSecretProcessor_eq vaultProcessor_def
        vaultRow_def initialProcessor_def call_defs ref_defs Let_def)
  have stored: "code (resultOf Succeeded) = Succeeded"
    by (simp add: resultOf_def)
  have payload: "pluginSecrets (plugins vaultSecretProcessor)
     (''sqlite'', ''vault'', generateHashedSecretName refEnv ''vault'' ''k'')
     = Some (DeviceLockKey @ ''V'')"
    by (simp add: vaultSecretProcessor_eq)
  have guards: "interactionSuffices refEnv vaultRow PreventUserInteractionMode []"
    by (simp add: interactionSuffices_def vaultRow_def)
  have read: "interactionSuffices refEnv vaultRow PreventUserInteractionMode [] \<and>
      foundUnlocked refEnv vaultRow ''vault''
        (vaultProcessor\<lparr>plugins := plugins vaultSecretProcessor\<rparr>)
        = Some (plugins vaultSecretProcessor) \<and>
      secretRetrieval refEnv vaultRow ''vault''
        (generateHashedSecretName refEnv ''vault'' ''k'')
        (keyInUse vaultRow ''vault'' vaultProcessor) (plugins vaultSecretProcessor)
        = (resultOf Succeeded, ''V'', plugins vaultSecretProcessor)"
    by (simp add: interactionSuffices_def foundUnlocked_def secretRetrieval_def keyInUse_def
        vaultSecretProcessor_eq vaultProcessor_def vaultRow_def initialProcessor_def
        call_defs ref_defs Let_def)
  note inst = set_then_get_returns_secret [OF db names row own reg nonempty unl store stored,
      where requestId = 2 and userInteractionMode = 0 and uiServiceAddress = "[]"
      and requestId' = 3]
  from inst have set: "fst (setCollectionSecret refEnv 100 2 ''vault'' ''k'' ''V''
        PreventUserInteractionMode [] vaultProcessor) = resultOf Succeeded"
    "plugins (snd (setCollectionSecret refEnv 100 2 ''vault'' ''k'' ''V''
        PreventUserInteractionMode [] vaultProcessor)) = plugins vaultSecretProcessor"
    by blast+
  from inst read have get: "fst (getCollectionSecret refEnv 100 3 ''vault'' ''k''
          PreventUserInteractionMode []
          (snd (setCollectionSecret refEnv 100 2 ''vault'' ''k'' ''V''
                  PreventUserInteractionMode [] vaultProcessor))) = resultOf Succeeded \<and>
      fst (snd (getCollectionSecret refEnv 100 3 ''vault'' ''k'' PreventUserInteractionMode []
          (snd (setCollectionSecret refEnv 100 2 ''vault'' ''k'' ''V''
                  PreventUserInteractionMode [] vaultProcessor)))) = ''V''"
    by blast
  from db row own unl guards set payload get show ?thesis by simp
qed

text \<open>
  The claim as stated fails: in the collection \<open>vault3\<close> of application \<open>appA\<close>, whose
  authentication plugin is application-specific and whose key is cached, a Set of \<open>V\<close> without
  user interaction succeeds and the plugins would read \<open>V\<close> back, but the Get that follows
  without user interaction returns \<open>OperationRequiresInProcessUserInteraction\<close> and no value:
  \<open>getCollectionSecret\<close> tests the interaction mode against the authentication plugin before
  it looks at the lock, \<open>setCollectionSecret\<close> does not.
\<close>

theorem unlocked_get_needs_interaction:
  "fst (setCollectionSecret refEnv 100 2 ''vault3'' ''k'' ''V'' PreventUserInteractionMode []
          inappVaultProcessor) = resultOf Succeeded \<and>
   m_collectionAuthenticationKeys inappVaultProcessor ''vault3'' = Some ''pwd'' \<and>
   m_collectionAuthenticationKeys secretStoredProcessor ''vault3'' = Some ''pwd'' \<and>
   fst (snd (secretRetrieval refEnv (the (Collections secretStoredProcessor ''vault3'')) ''vault3''
               (generateHashedSecretName refEnv ''vault3'' ''k'') ''pwd''
               (plugins secretStoredProcessor))) = ''V'' \<and>
   fst (getCollectionSecret refEnv 100 3 ''vault3'' ''k'' PreventUserInteractionMode []
          secretStoredProcessor) = resultErr OperationRequiresInProcessUserInteraction \<and>
   fst (snd (getCollectionSecret refEnv 100 3 ''vault3'' ''k'' PreventUserInteractionMode []
          secretStoredProcessor)) = []"
proof -
  have "fst (setCollectionSecret refEnv 100 2 ''vault3'' ''k'' ''V'' PreventUserInteractionMode []
          inappVaultProcessor) = resultOf Succeeded"
    by (simp add: inappVaultProcessor_eq setCollectionSecret_def
        setCollectionSecretWithAuthenticationKey_def isStandalone_def toLower_def
        initialProcessor_def callerApplicationIdOf_def db_defs call_defs ref_defs Let_def)
  moreover
  have "m_collectionAuthenticationKeys inappVaultProcessor ''vault3'' = Some ''pwd''"
    by (simp add: inappVaultProcessor_eq initialProcessor_def)
  moreover
  note secretStoredProcessor_unlocked
  moreover
  have "fst (snd (secretRetrieval refEnv (the (Collections secretStoredProcessor ''vault3''))
               ''vault3'' (generateHashedSecretName refEnv ''vault3'' ''k'') ''pwd''
               (plugins secretStoredProcessor))) = ''V''"
    by (simp add: secretRetrieval_def secretStoredProcessor_eq inappVaultProcessor_eq
        initialProcessor_def call_defs ref_defs Let_def)
  moreover
  have "getCollectionSecret refEnv 100 3 ''vault3'' ''k'' PreventUserInteractionMode []
          secretStoredProcessor
        = (resultErr OperationRequiresInProcessUserInteraction, [], secretStoredProcessor)"
    by (simp add: secretStoredProcessor_eq inappVaultProcessor_eq getCollectionSecret_def
        isStandalone_def toLower_def initialProcessor_def callerApplicationIdOf_def
        db_defs Let_def)
  ultimately show ?thesis by simp
qed

end
